theory Spec2Isabelle
  imports Complex_Main "HOL-Library.Char_ord" "HOL-Library.List_Lexorder"
begin

section \<open>Values, responses and the runtime\<close>

text \<open>
  A response is what \<open>res.status(n).json(v)\<close> sends: the status code (200 when the handler
  calls \<open>res.json\<close> alone) and the JSON value. Object members keep the order in which the
  handler writes them; a member whose value is \<open>undefined\<close> is dropped, as JSON.stringify
  does (\<open>obj\<close>).
\<close>

datatype json =
    JNull
  | JBool bool
  | JNum int
  | JStr string
  | JArr "json list"
  | JObj "(string \<times> json) list"

record response =
  status_code :: nat
  body :: json

definition obj :: "(string \<times> json option) list \<Rightarrow> json" where
  "obj kvs = JObj (List.map_filter (\<lambda>(k, v). map_option (Pair k) v) kvs)"

definition res_json :: "json \<Rightarrow> response" where
  "res_json v = \<lparr>status_code = 200, body = v\<rparr>"

definition res_status_json :: "nat \<Rightarrow> json \<Rightarrow> response" where
  "res_status_json n v = \<lparr>status_code = n, body = v\<rparr>"

text \<open>A thrown JavaScript error: its message and its stack.\<close>

datatype js_error = Error (message: string) (stack: string)

text \<open>
  The runtime is what the handlers take from outside the repository: the environment
  variables (\<open>process.env\<close>), the clock, and the two libraries jsonwebtoken and bcryptjs,
  whose functions are parameters of the model. \<open>jwt_verify token secret\<close> is the outcome of
  \<open>jwt.verify\<close>: the error passed to the callback, or the decoded payload.
\<close>

record runtime =
  JWT_SECRET :: "string option"
  ADMIN_EMAIL :: "string option"
  ADMIN_PASSWORD :: "string option"
  NODE_ENV :: "string option"
  now :: nat
  jwt_verify :: "string \<Rightarrow> string option \<Rightarrow> js_error + json"
  jwt_sign :: "json \<Rightarrow> string option \<Rightarrow> string \<Rightarrow> js_error + string"
  bcrypt_hash :: "string \<Rightarrow> nat \<Rightarrow> string"
  bcrypt_compare :: "string \<Rightarrow> string \<Rightarrow> bool"

text \<open>
  A request, as the handlers read it: the Authorization header, the identity the token
  gate attaches (\<open>req.user\<close>), the query string (\<open>req.query\<close>), the path parameters
  (\<open>req.params\<close>), the body (\<open>req.body\<close>) and the name multer gave the uploaded file
  (\<open>req.file.filename\<close>). A member that is absent is \<open>None\<close>. The parameters the code uses
  as numbers (page, limit, category, ids) are given by the integer their text denotes, the
  category being \<open>None\<close> also when its text is empty (the code tests it for truth); the
  others are strings.
\<close>

record request =
  authorization :: "string option"
  user :: "json option"
  query_page :: "int option"
  query_limit :: "int option"
  query_category :: "int option"
  query_author :: "string option"
  query_q :: "string option"
  query_type :: "string option"
  params_id :: int
  params_categoryId :: int
  params_author :: string
  body_email :: "string option"
  body_password :: "string option"
  body_title :: "string option"
  body_content :: "string option"
  body_author :: "string option"
  body_category_id :: "int option"
  body_status :: "string option"
  file_filename :: "string option"

text \<open>JavaScript truthiness of an optional string: absent and empty are both falsy.\<close>

fun truthy :: "string option \<Rightarrow> bool" where
  "truthy None = False"
| "truthy (Some s) = (s \<noteq> [])"

section \<open>The token gate (routes/admin.js, authenticateToken)\<close>

text \<open>\<open>s.split(sep)\<close> for a separator of one character.\<close>

fun split_on :: "char \<Rightarrow> string \<Rightarrow> string list" where
  "split_on sep [] = [[]]"
| "split_on sep (c # cs) =
     (if c = sep then [] # split_on sep cs
      else (case split_on sep cs of
              [] \<Rightarrow> [[c]]
            | w # ws \<Rightarrow> (c # w) # ws))"

text \<open>\<open>xs[i]\<close>: \<open>undefined\<close> out of range.\<close>

fun index :: "'a list \<Rightarrow> nat \<Rightarrow> 'a option" where
  "index [] i = None"
| "index (x # xs) 0 = Some x"
| "index (x # xs) (Suc i) = index xs i"

text \<open>
  \<open>authHeader && authHeader.split(' ')[1]\<close>: the second space-separated part of the header.
  An absent header gives \<open>undefined\<close>, an empty one the empty string.
\<close>

definition bearer_token :: "request \<Rightarrow> string option" where
  "bearer_token req =
     (case authorization req of
        None \<Rightarrow> None
      | Some authHeader \<Rightarrow>
          if authHeader = [] then Some [] else index (split_on CHR '' '' authHeader) 1)"

text \<open>
  A middleware either answers the request itself or calls \<open>next()\<close>, handing the request
  (with what it attached) to the handler behind it.
\<close>

datatype middleware_result = Responded response | Next request

definition authenticateToken :: "runtime \<Rightarrow> request \<Rightarrow> middleware_result" where
  "authenticateToken rt req =
     (let token = bearer_token req in
      if \<not> truthy token then
        Responded (res_status_json 401 (obj [(''error'', Some (JStr ''Access token required''))]))
      else
        (case jwt_verify rt (the token) (JWT_SECRET rt) of
           Inl err \<Rightarrow>
             Responded (res_status_json 403 (obj [(''error'', Some (JStr ''Invalid or expired token''))]))
         | Inr usr \<Rightarrow> Next (req\<lparr>user := Some usr\<rparr>)))"

text \<open>
  A gated route, \<open>router.METHOD(path, authenticateToken, handler)\<close>: the handler, which may
  change the store \<open>'s\<close>, runs only when the gate calls \<open>next()\<close>.
\<close>

definition gated ::
  "runtime \<Rightarrow> (request \<Rightarrow> 's \<Rightarrow> response \<times> 's) \<Rightarrow> request \<Rightarrow> 's \<Rightarrow> response \<times> 's" where
  "gated rt handler req s =
     (case authenticateToken rt req of
        Responded r \<Rightarrow> (r, s)
      | Next req' \<Rightarrow> handler req' s)"

section \<open>The store (config/database.js and the MySQL server behind it)\<close>

subsection \<open>Schema\<close>

text \<open>
  A table's declaration as \<open>CREATE TABLE\<close> writes it: its columns in order, each with its
  type, whether it is \<open>NOT NULL\<close>, whether it is \<open>UNIQUE\<close> (the primary key is) and its
  \<open>DEFAULT\<close>, and the table's foreign keys (column, referenced table), all of them
  \<open>ON DELETE SET NULL\<close>.
\<close>

datatype sqltype = Int_T | Varchar_T nat | Text_T | Enum_T "string list" | Timestamp_T

record column =
  col_name :: string
  col_type :: sqltype
  col_not_null :: bool
  col_unique :: bool
  col_default :: "string option"

record table_def =
  columns :: "column list"
  foreign_keys :: "(string \<times> string) list"

subsection \<open>Rows\<close>

datatype pubstatus = published | draft

record admin_row =
  admin_id :: int
  admin_email :: string
  admin_password :: string
  admin_name :: string
  admin_created_at :: nat
  admin_updated_at :: nat

record category_row =
  category_id :: int
  category_name :: string
  category_description :: "string option"
  category_created_at :: nat
  category_updated_at :: nat

record material_row =
  material_id :: int
  material_title :: string
  material_content :: string
  material_author :: "string option"
  material_category_id :: "int option"
  material_image :: "string option"
  material_status :: "pubstatus option"
  material_created_at :: nat
  material_updated_at :: nat

record video_row =
  video_id :: int
  video_title :: string
  video_description :: string
  video_url :: string
  video_thumbnail :: "string option"
  video_duration :: "int option"
  video_category_id :: "int option"
  video_status :: "pubstatus option"
  video_created_at :: nat
  video_updated_at :: nat

text \<open>
  The database: the declared tables by name, the rows of the four tables in insertion
  order, and the next \<open>AUTO_INCREMENT\<close> value of \<open>admins.id\<close>. The rows carry every column
  the handlers name; a statement that names a column the declared table lacks fails, as
  MySQL fails it (\<open>schema_error\<close>).
\<close>

record db =
  tables :: "(string \<times> table_def) list"
  admins :: "admin_row list"
  admins_auto_increment :: int
  categories :: "category_row list"
  materials :: "material_row list"
  videos :: "video_row list"

subsection \<open>Values and comparisons\<close>

datatype sqlval = SNull | SInt int | SStr string

text \<open>A bound parameter of \<open>pool.execute(sql, params)\<close>: a JavaScript value.\<close>

datatype bind = BNum int | BStr string | BNull | BUndefined

definition lower :: "char \<Rightarrow> char" where
  "lower c = (let n = (of_char c :: nat) in if 65 \<le> n \<and> n \<le> 90 then char_of (n + 32) else c)"

text \<open>
  Comparison of strings under the server's default collation: letter case is ignored.
\<close>

definition str_eq :: "string \<Rightarrow> string \<Rightarrow> bool" where
  "str_eq a b = (map lower a = map lower b)"

text \<open>
  \<open>column = value\<close>. A comparison with \<open>NULL\<close> is never true. The model binds numbers to
  integer columns and strings to text columns only.
\<close>

fun sql_eq :: "sqlval \<Rightarrow> bind \<Rightarrow> bool" where
  "sql_eq (SInt i) (BNum n) = (i = n)"
| "sql_eq (SStr s) (BStr t) = str_eq s t"
| "sql_eq _ _ = False"

text \<open>
  \<open>text LIKE pattern\<close>: \<open>%\<close> stands for any run of characters, \<open>_\<close> for any one
  character, a backslash makes the next character of the pattern literal, and letter case
  is ignored.
\<close>

fun like_match :: "string \<Rightarrow> string \<Rightarrow> bool" where
  "like_match [] s = (s = [])"
| "like_match (p # ps) s =
     (if p = CHR ''%'' then
        like_match ps s \<or> (case s of [] \<Rightarrow> False | c # s' \<Rightarrow> like_match (p # ps) s')
      else if p = CHR ''_'' then
        (case s of [] \<Rightarrow> False | c # s' \<Rightarrow> like_match ps s')
      else if p = CHR 0x5C then
        (case ps of
           [] \<Rightarrow> s = [p]
         | e # ps' \<Rightarrow> (case s of [] \<Rightarrow> False | c # s' \<Rightarrow> lower c = lower e \<and> like_match ps' s'))
      else
        (case s of [] \<Rightarrow> False | c # s' \<Rightarrow> lower c = lower p \<and> like_match ps s'))"

fun sql_like :: "sqlval \<Rightarrow> bind \<Rightarrow> bool" where
  "sql_like (SStr s) (BStr pat) = like_match pat s"
| "sql_like _ _ = False"

subsection \<open>Columns of a row\<close>

definition status_val :: "pubstatus option \<Rightarrow> sqlval" where
  "status_val st =
     (case st of None \<Rightarrow> SNull | Some published \<Rightarrow> SStr ''published'' | Some draft \<Rightarrow> SStr ''draft'')"

definition opt_str :: "string option \<Rightarrow> sqlval" where
  "opt_str v = (case v of None \<Rightarrow> SNull | Some s \<Rightarrow> SStr s)"

definition opt_int :: "int option \<Rightarrow> sqlval" where
  "opt_int v = (case v of None \<Rightarrow> SNull | Some i \<Rightarrow> SInt i)"

definition material_col :: "material_row \<Rightarrow> string \<Rightarrow> sqlval" where
  "material_col m c =
     (if c = ''id'' then SInt (material_id m)
      else if c = ''title'' then SStr (material_title m)
      else if c = ''content'' then SStr (material_content m)
      else if c = ''author'' then opt_str (material_author m)
      else if c = ''category_id'' then opt_int (material_category_id m)
      else if c = ''image'' then opt_str (material_image m)
      else if c = ''status'' then status_val (material_status m)
      else if c = ''created_at'' then SInt (int (material_created_at m))
      else if c = ''updated_at'' then SInt (int (material_updated_at m))
      else SNull)"

definition video_col :: "video_row \<Rightarrow> string \<Rightarrow> sqlval" where
  "video_col v c =
     (if c = ''id'' then SInt (video_id v)
      else if c = ''title'' then SStr (video_title v)
      else if c = ''description'' then SStr (video_description v)
      else if c = ''video_url'' then SStr (video_url v)
      else if c = ''thumbnail'' then opt_str (video_thumbnail v)
      else if c = ''duration'' then opt_int (video_duration v)
      else if c = ''category_id'' then opt_int (video_category_id v)
      else if c = ''status'' then status_val (video_status v)
      else if c = ''created_at'' then SInt (int (video_created_at v))
      else if c = ''updated_at'' then SInt (int (video_updated_at v))
      else SNull)"

definition category_col :: "category_row \<Rightarrow> string \<Rightarrow> sqlval" where
  "category_col c k =
     (if k = ''id'' then SInt (category_id c)
      else if k = ''name'' then SStr (category_name c)
      else if k = ''description'' then opt_str (category_description c)
      else if k = ''created_at'' then SInt (int (category_created_at c))
      else if k = ''updated_at'' then SInt (int (category_updated_at c))
      else SNull)"

definition admin_col :: "admin_row \<Rightarrow> string \<Rightarrow> sqlval" where
  "admin_col a k =
     (if k = ''id'' then SInt (admin_id a)
      else if k = ''email'' then SStr (admin_email a)
      else if k = ''password'' then SStr (admin_password a)
      else if k = ''name'' then SStr (admin_name a)
      else if k = ''created_at'' then SInt (int (admin_created_at a))
      else if k = ''updated_at'' then SInt (int (admin_updated_at a))
      else SNull)"

fun json_of :: "sqlval \<Rightarrow> json" where
  "json_of SNull = JNull"
| "json_of (SInt i) = JNum i"
| "json_of (SStr s) = JStr s"

subsection \<open>Statements\<close>

text \<open>
  The conditions the handlers join with \<open>AND\<close> into a \<open>WHERE\<close> clause. Each \<open>?\<close> takes the
  next bound parameter, left to right.
  \<open>EqLit c v\<close> is \<open>c = 'v'\<close>, \<open>EqParam c\<close> is \<open>c = ?\<close>, \<open>LikeParam c\<close> is \<open>c LIKE ?\<close>, and
  \<open>LikeAny [c1, c2, ...]\<close> is \<open>(c1 LIKE ? OR c2 LIKE ? OR ...)\<close>.
\<close>

datatype cond =
    EqLit string string
  | EqParam string
  | LikeParam string
  | LikeAny "string list"

fun cond_arity :: "cond \<Rightarrow> nat" where
  "cond_arity (EqLit c v) = 0"
| "cond_arity (EqParam c) = 1"
| "cond_arity (LikeParam c) = 1"
| "cond_arity (LikeAny cs) = length cs"

fun cond_columns :: "cond \<Rightarrow> string list" where
  "cond_columns (EqLit c v) = [c]"
| "cond_columns (EqParam c) = [c]"
| "cond_columns (LikeParam c) = [c]"
| "cond_columns (LikeAny cs) = cs"

fun cond_holds :: "(string \<Rightarrow> sqlval) \<Rightarrow> cond \<Rightarrow> bind list \<Rightarrow> bool" where
  "cond_holds r (EqLit c v) ps = sql_eq (r c) (BStr v)"
| "cond_holds r (EqParam c) ps = (case ps of [p] \<Rightarrow> sql_eq (r c) p | _ \<Rightarrow> False)"
| "cond_holds r (LikeParam c) ps = (case ps of [p] \<Rightarrow> sql_like (r c) p | _ \<Rightarrow> False)"
| "cond_holds r (LikeAny cs) ps = list_ex (\<lambda>(c, p). sql_like (r c) p) (zip cs ps)"

fun where_arity :: "cond list \<Rightarrow> nat" where
  "where_arity [] = 0"
| "where_arity (c # cs) = cond_arity c + where_arity cs"

fun where_holds :: "(string \<Rightarrow> sqlval) \<Rightarrow> cond list \<Rightarrow> bind list \<Rightarrow> bool" where
  "where_holds r [] ps = True"
| "where_holds r (c # cs) ps =
     (cond_holds r c (take (cond_arity c) ps) \<and> where_holds r cs (drop (cond_arity c) ps))"

text \<open>
  What follows the \<open>WHERE\<close> clause: nothing, \<open>ORDER BY created_at DESC LIMIT ?\<close>, or
  \<open>ORDER BY created_at DESC LIMIT ? OFFSET ?\<close>.
\<close>

datatype paging = Unpaged | OrderLimit | OrderLimitOffset

fun paging_arity :: "paging \<Rightarrow> nat" where
  "paging_arity Unpaged = 0"
| "paging_arity OrderLimit = 1"
| "paging_arity OrderLimitOffset = 2"

fun paging_columns :: "paging \<Rightarrow> string list" where
  "paging_columns Unpaged = []"
| "paging_columns OrderLimit = [''created_at'']"
| "paging_columns OrderLimitOffset = [''created_at'']"

definition wrong_arguments :: js_error where
  "wrong_arguments = Error ''ER_WRONG_ARGUMENTS'' []"

definition undefined_bind :: js_error where
  "undefined_bind = Error ''Bind parameters must not contain undefined'' []"

text \<open>Newest first; a limit or an offset below zero is refused by the server.\<close>

fun order_limit :: "('r \<Rightarrow> nat) \<Rightarrow> paging \<Rightarrow> bind list \<Rightarrow> 'r list \<Rightarrow> js_error + 'r list" where
  "order_limit created Unpaged [] rows = Inr rows"
| "order_limit created OrderLimit [BNum l] rows =
     (if l < 0 then Inl wrong_arguments
      else Inr (take (nat l) (sort_key (\<lambda>r. - int (created r)) rows)))"
| "order_limit created OrderLimitOffset [BNum l, BNum off] rows =
     (if l < 0 \<or> off < 0 then Inl wrong_arguments
      else Inr (take (nat l) (drop (nat off) (sort_key (\<lambda>r. - int (created r)) rows))))"
| "order_limit created _ _ rows = Inl wrong_arguments"

text \<open>
  The first complaint of the server about the tables and columns a statement names, each
  given as (table, columns).
\<close>

definition column_names :: "db \<Rightarrow> string \<Rightarrow> string list option" where
  "column_names d t = map_option (\<lambda>td. map col_name (columns td)) (map_of (tables d) t)"

fun schema_error :: "db \<Rightarrow> (string \<times> string list) list \<Rightarrow> js_error option" where
  "schema_error d [] = None"
| "schema_error d ((t, cs) # rest) =
     (case column_names d t of
        None \<Rightarrow> Some (Error ''ER_NO_SUCH_TABLE'' [])
      | Some names \<Rightarrow>
          if list_all (\<lambda>c. c \<in> set names) cs then schema_error d rest
          else Some (Error ''ER_BAD_FIELD_ERROR'' []))"

text \<open>
  \<open>pool.execute\<close> of a row query over one content table joined to \<open>categories\<close>, and of
  the matching \<open>SELECT COUNT(*)\<close>. mysql2 refuses an \<open>undefined\<close> parameter before it sends
  the statement.
\<close>

definition select_rows ::
  "db \<Rightarrow> string \<Rightarrow> ('r \<Rightarrow> string \<Rightarrow> sqlval) \<Rightarrow> ('r \<Rightarrow> nat) \<Rightarrow> 'r list \<Rightarrow>
   cond list \<Rightarrow> paging \<Rightarrow> bind list \<Rightarrow> js_error + 'r list" where
  "select_rows d t col created rows conds pg ps =
     (if BUndefined \<in> set ps then Inl undefined_bind
      else
        (case schema_error d
                [(t, ''category_id'' # concat (map cond_columns conds) @ paging_columns pg),
                 (''categories'', [''id'', ''name''])] of
           Some e \<Rightarrow> Inl e
         | None \<Rightarrow>
             if length ps \<noteq> where_arity conds + paging_arity pg then Inl wrong_arguments
             else order_limit created pg (drop (where_arity conds) ps)
                    (filter (\<lambda>r. where_holds (col r) conds ps) rows)))"

definition count_rows ::
  "db \<Rightarrow> string \<Rightarrow> ('r \<Rightarrow> string \<Rightarrow> sqlval) \<Rightarrow> 'r list \<Rightarrow> cond list \<Rightarrow> bind list \<Rightarrow> js_error + int" where
  "count_rows d t col rows conds ps =
     (if BUndefined \<in> set ps then Inl undefined_bind
      else
        (case schema_error d [(t, concat (map cond_columns conds))] of
           Some e \<Rightarrow> Inl e
         | None \<Rightarrow>
             if length ps \<noteq> where_arity conds then Inl wrong_arguments
             else Inr (int (length (filter (\<lambda>r. where_holds (col r) conds ps) rows)))))"

definition select_materials ::
  "db \<Rightarrow> cond list \<Rightarrow> paging \<Rightarrow> bind list \<Rightarrow> js_error + material_row list" where
  "select_materials d = select_rows d ''materials'' material_col material_created_at (materials d)"

definition count_materials :: "db \<Rightarrow> cond list \<Rightarrow> bind list \<Rightarrow> js_error + int" where
  "count_materials d = count_rows d ''materials'' material_col (materials d)"

definition select_videos ::
  "db \<Rightarrow> cond list \<Rightarrow> paging \<Rightarrow> bind list \<Rightarrow> js_error + video_row list" where
  "select_videos d = select_rows d ''videos'' video_col video_created_at (videos d)"

definition count_videos :: "db \<Rightarrow> cond list \<Rightarrow> bind list \<Rightarrow> js_error + int" where
  "count_videos d = count_rows d ''videos'' video_col (videos d)"

text \<open>
  A returned row as the JSON object mysql2 builds: the columns \<open>t.*\<close> of the declared
  table, then \<open>c.name as category_name\<close> of the left join (\<open>null\<close> without a category), then
  the constant columns of the statement (\<open>'material' as content_type\<close>).
\<close>

definition star :: "db \<Rightarrow> string \<Rightarrow> string list" where
  "star d t = (case column_names d t of None \<Rightarrow> [] | Some names \<Rightarrow> names)"

definition joined_category_name :: "db \<Rightarrow> int option \<Rightarrow> json" where
  "joined_category_name d cid =
     (case cid of
        None \<Rightarrow> JNull
      | Some i \<Rightarrow>
          (case find (\<lambda>c. category_id c = i) (categories d) of
             None \<Rightarrow> JNull
           | Some c \<Rightarrow> JStr (category_name c)))"

definition material_json :: "db \<Rightarrow> (string \<times> json) list \<Rightarrow> material_row \<Rightarrow> json" where
  "material_json d extra m =
     JObj (map (\<lambda>c. (c, json_of (material_col m c))) (star d ''materials'')
           @ [(''category_name'', joined_category_name d (material_category_id m))] @ extra)"

definition video_json :: "db \<Rightarrow> (string \<times> json) list \<Rightarrow> video_row \<Rightarrow> json" where
  "video_json d extra v =
     JObj (map (\<lambda>c. (c, json_of (video_col v c))) (star d ''videos'')
           @ [(''category_name'', joined_category_name d (video_category_id v))] @ extra)"

text \<open>The statements of the two aggregate listings and of the category lookup.\<close>

definition category_json :: "db \<Rightarrow> category_row \<Rightarrow> (string \<times> json) list" where
  "category_json d c = map (\<lambda>k. (k, json_of (category_col c k))) (star d ''categories'')"

definition select_categories_counted :: "db \<Rightarrow> js_error + json list" where
  "select_categories_counted d =
     (case schema_error d
             [(''categories'', [''id'', ''name'']),
              (''materials'', [''id'', ''category_id'', ''status'']),
              (''videos'', [''id'', ''category_id'', ''status''])] of
        Some e \<Rightarrow> Inl e
      | None \<Rightarrow>
          Inr (map (\<lambda>c. JObj (category_json d c @
                 [(''material_count'',
                     JNum (int (length (remdups (map material_id
                       (filter (\<lambda>m. material_category_id m = Some (category_id c)
                                     \<and> material_status m = Some published) (materials d))))))),
                  (''video_count'',
                     JNum (int (length (remdups (map video_id
                       (filter (\<lambda>v. video_category_id v = Some (category_id c)
                                     \<and> video_status v = Some published) (videos d)))))))]))
               (sort_key (\<lambda>c. map lower (category_name c)) (categories d))))"

definition select_category :: "db \<Rightarrow> int \<Rightarrow> js_error + json list" where
  "select_category d i =
     (case schema_error d [(''categories'', [''id''])] of
        Some e \<Rightarrow> Inl e
      | None \<Rightarrow> Inr (map (\<lambda>c. JObj (category_json d c)) (filter (\<lambda>c. category_id c = i) (categories d))))"

fun group_keys :: "string list \<Rightarrow> string list" where
  "group_keys [] = []"
| "group_keys (a # as) = a # group_keys (filter (\<lambda>b. \<not> str_eq b a) as)"

definition select_authors :: "db \<Rightarrow> js_error + json list" where
  "select_authors d =
     (case schema_error d [(''materials'', [''author'', ''created_at'', ''status''])] of
        Some e \<Rightarrow> Inl e
      | None \<Rightarrow>
          (let rows = filter (\<lambda>m. (case material_author m of
                                      None \<Rightarrow> False
                                    | Some a \<Rightarrow> \<not> str_eq a [] \<and> material_status m = Some published))
                        (materials d);
               groups = map (\<lambda>a. (a, filter (\<lambda>m. str_eq (the (material_author m)) a) rows))
                          (group_keys (map (\<lambda>m. the (material_author m)) rows))
           in Inr (map (\<lambda>(a, ms). JObj [(''author'', JStr a),
                                         (''material_count'', JNum (int (length ms))),
                                         (''latest_material'',
                                            JNum (int (foldr max (map material_created_at ms) 0)))])
                    (sort_key (\<lambda>(a, ms). - int (length ms))
                       (sort_key (\<lambda>(a, ms). map lower a) groups)))))"

section \<open>The public API (routes/api.js)\<close>

text \<open>
  The JavaScript numbers the handlers compute from integers: the integers themselves,
  and what a division by zero gives. \<open>math_ceil_div a b\<close> is \<open>Math.ceil(a / b)\<close>.
  JSON.stringify writes a number that is not finite as \<open>null\<close>.
\<close>

datatype number = Num int | PosInfinity | NegInfinity | NaN

definition math_ceil_div :: "int \<Rightarrow> int \<Rightarrow> number" where
  "math_ceil_div a b =
     (if b = 0 then (if a = 0 then NaN else if 0 < a then PosInfinity else NegInfinity)
      else Num \<lceil>rat_of_int a / rat_of_int b\<rceil>)"

fun number_json :: "number \<Rightarrow> json" where
  "number_json (Num i) = JNum i"
| "number_json _ = JNull"

definition failure :: "nat \<Rightarrow> string \<Rightarrow> response" where
  "failure n msg =
     res_status_json n (obj [(''success'', Some (JBool False)), (''error'', Some (JStr msg))])"

definition pagination :: "int \<Rightarrow> int \<Rightarrow> int \<Rightarrow> json" where
  "pagination totalResult page limit =
     obj [(''total'', Some (JNum totalResult)),
          (''page'', Some (JNum page)),
          (''limit'', Some (JNum limit)),
          (''pages'', Some (number_json (math_ceil_div totalResult limit)))]"

definition page_of :: "request \<Rightarrow> int" where
  "page_of req = (case query_page req of None \<Rightarrow> 1 | Some page \<Rightarrow> page)"

definition limit_of :: "request \<Rightarrow> int" where
  "limit_of req = (case query_limit req of None \<Rightarrow> 10 | Some limit \<Rightarrow> limit)"

definition get_categories :: "db \<Rightarrow> request \<Rightarrow> response" where
  "get_categories d req =
     (case select_categories_counted d of
        Inl e \<Rightarrow> failure 500 ''Failed to fetch categories''
      | Inr cats \<Rightarrow> res_json (obj [(''success'', Some (JBool True)), (''data'', Some (JArr cats))]))"

definition get_category_by_id :: "db \<Rightarrow> request \<Rightarrow> response" where
  "get_category_by_id d req =
     (case select_category d (params_id req) of
        Inl e \<Rightarrow> failure 500 ''Failed to fetch category''
      | Inr cats \<Rightarrow>
          if length cats = 0 then failure 404 ''Category not found''
          else res_json (obj [(''success'', Some (JBool True)), (''data'', index cats 0)]))"

text \<open>
  GET /materials, lines 84 to 113: the row query and the count query grow together, one
  condition and one parameter each per filter given; the row query's parameters then end
  with the limit and the offset.
\<close>

record list_queries =
  query :: "cond list"
  countQuery :: "cond list"
  params :: "bind list"
  countParams :: "bind list"

definition add_filter :: "cond \<Rightarrow> bind \<Rightarrow> list_queries \<Rightarrow> list_queries" where
  "add_filter c p qs =
     qs\<lparr>query := query qs @ [c], countQuery := countQuery qs @ [c],
        params := params qs @ [p], countParams := countParams qs @ [p]\<rparr>"

definition materials_queries :: "request \<Rightarrow> list_queries" where
  "materials_queries req =
     (let offset = (page_of req - 1) * limit_of req;
          qs = \<lparr>query = [EqLit ''status'' ''published''],
                countQuery = [EqLit ''status'' ''published''],
                params = [], countParams = []\<rparr>;
          qs = (case query_category req of
                  Some category \<Rightarrow> add_filter (EqParam ''category_id'') (BNum category) qs
                | None \<Rightarrow> qs);
          qs = (if truthy (query_author req)
                then add_filter (LikeParam ''author'') (BStr (''%'' @ the (query_author req) @ ''%'')) qs
                else qs)
      in qs\<lparr>params := params qs @ [BNum (limit_of req), BNum offset]\<rparr>)"

definition get_materials :: "db \<Rightarrow> request \<Rightarrow> response" where
  "get_materials d req =
     (let qs = materials_queries req in
      case select_materials d (query qs) OrderLimitOffset (params qs) of
        Inl e \<Rightarrow> failure 500 ''Failed to fetch materials''
      | Inr rows \<Rightarrow>
          (case count_materials d (countQuery qs) (countParams qs) of
             Inl e \<Rightarrow> failure 500 ''Failed to fetch materials''
           | Inr totalResult \<Rightarrow>
               res_json (obj [(''success'', Some (JBool True)),
                              (''data'', Some (JArr (map (material_json d []) rows))),
                              (''pagination'', Some (pagination totalResult (page_of req) (limit_of req)))])))"

definition get_material_by_id :: "db \<Rightarrow> request \<Rightarrow> response" where
  "get_material_by_id d req =
     (case select_materials d [EqParam ''id'', EqLit ''status'' ''published''] Unpaged
             [BNum (params_id req)] of
        Inl e \<Rightarrow> failure 500 ''Failed to fetch material''
      | Inr rows \<Rightarrow>
          if length rows = 0 then failure 404 ''Material not found''
          else res_json (obj [(''success'', Some (JBool True)),
                              (''data'', index (map (material_json d []) rows) 0)]))"

definition get_materials_by_category :: "db \<Rightarrow> request \<Rightarrow> response" where
  "get_materials_by_category d req =
     (let offset = (page_of req - 1) * limit_of req in
      case select_materials d [EqParam ''category_id'', EqLit ''status'' ''published'']
             OrderLimitOffset [BNum (params_categoryId req), BNum (limit_of req), BNum offset] of
        Inl e \<Rightarrow> failure 500 ''Failed to fetch materials''
      | Inr rows \<Rightarrow>
          (case count_materials d [EqParam ''category_id'', EqLit ''status'' ''published'']
                  [BNum (params_categoryId req)] of
             Inl e \<Rightarrow> failure 500 ''Failed to fetch materials''
           | Inr totalResult \<Rightarrow>
               res_json (obj [(''success'', Some (JBool True)),
                              (''data'', Some (JArr (map (material_json d []) rows))),
                              (''pagination'', Some (pagination totalResult (page_of req) (limit_of req)))])))"

definition get_materials_by_author :: "db \<Rightarrow> request \<Rightarrow> response" where
  "get_materials_by_author d req =
     (let offset = (page_of req - 1) * limit_of req;
          authorFilter = ''%'' @ params_author req @ ''%'' in
      case select_materials d [LikeParam ''author'', EqLit ''status'' ''published'']
             OrderLimitOffset [BStr authorFilter, BNum (limit_of req), BNum offset] of
        Inl e \<Rightarrow> failure 500 ''Failed to fetch materials by author''
      | Inr rows \<Rightarrow>
          (case count_materials d [LikeParam ''author'', EqLit ''status'' ''published'']
                  [BStr authorFilter] of
             Inl e \<Rightarrow> failure 500 ''Failed to fetch materials by author''
           | Inr totalResult \<Rightarrow>
               res_json (obj [(''success'', Some (JBool True)),
                              (''data'', Some (JArr (map (material_json d []) rows))),
                              (''pagination'', Some (pagination totalResult (page_of req) (limit_of req)))])))"

definition get_authors :: "db \<Rightarrow> request \<Rightarrow> response" where
  "get_authors d req =
     (case select_authors d of
        Inl e \<Rightarrow> failure 500 ''Failed to fetch authors''
      | Inr authors \<Rightarrow>
          res_json (obj [(''success'', Some (JBool True)), (''data'', Some (JArr authors))]))"

text \<open>GET /videos, lines 256 to 277.\<close>

definition videos_queries :: "request \<Rightarrow> list_queries" where
  "videos_queries req =
     (let offset = (page_of req - 1) * limit_of req;
          qs = \<lparr>query = [EqLit ''status'' ''published''],
                countQuery = [EqLit ''status'' ''published''],
                params = [], countParams = []\<rparr>;
          qs = (case query_category req of
                  Some category \<Rightarrow> add_filter (EqParam ''category_id'') (BNum category) qs
                | None \<Rightarrow> qs)
      in qs\<lparr>params := params qs @ [BNum (limit_of req), BNum offset]\<rparr>)"

definition get_videos :: "db \<Rightarrow> request \<Rightarrow> response" where
  "get_videos d req =
     (let qs = videos_queries req in
      case select_videos d (query qs) OrderLimitOffset (params qs) of
        Inl e \<Rightarrow> failure 500 ''Failed to fetch videos''
      | Inr rows \<Rightarrow>
          (case count_videos d (countQuery qs) (countParams qs) of
             Inl e \<Rightarrow> failure 500 ''Failed to fetch videos''
           | Inr totalResult \<Rightarrow>
               res_json (obj [(''success'', Some (JBool True)),
                              (''data'', Some (JArr (map (video_json d []) rows))),
                              (''pagination'', Some (pagination totalResult (page_of req) (limit_of req)))])))"

definition get_video_by_id :: "db \<Rightarrow> request \<Rightarrow> response" where
  "get_video_by_id d req =
     (case select_videos d [EqParam ''id'', EqLit ''status'' ''published''] Unpaged
             [BNum (params_id req)] of
        Inl e \<Rightarrow> failure 500 ''Failed to fetch video''
      | Inr rows \<Rightarrow>
          if length rows = 0 then failure 404 ''Video not found''
          else res_json (obj [(''success'', Some (JBool True)),
                              (''data'', index (map (video_json d []) rows) 0)]))"

definition get_videos_by_category :: "db \<Rightarrow> request \<Rightarrow> response" where
  "get_videos_by_category d req =
     (let offset = (page_of req - 1) * limit_of req in
      case select_videos d [EqParam ''category_id'', EqLit ''status'' ''published'']
             OrderLimitOffset [BNum (params_categoryId req), BNum (limit_of req), BNum offset] of
        Inl e \<Rightarrow> failure 500 ''Failed to fetch videos''
      | Inr rows \<Rightarrow>
          (case count_videos d [EqParam ''category_id'', EqLit ''status'' ''published'']
                  [BNum (params_categoryId req)] of
             Inl e \<Rightarrow> failure 500 ''Failed to fetch videos''
           | Inr totalResult \<Rightarrow>
               res_json (obj [(''success'', Some (JBool True)),
                              (''data'', Some (JArr (map (video_json d []) rows))),
                              (''pagination'', Some (pagination totalResult (page_of req) (limit_of req)))])))"

text \<open>GET /search and GET /latest.\<close>

definition search :: "db \<Rightarrow> request \<Rightarrow> response" where
  "search d req =
     (if \<not> truthy (query_q req) then failure 400 ''Search query is required''
      else
        (let offset = (page_of req - 1) * limit_of req;
             searchTerm = ''%'' @ the (query_q req) @ ''%'';
             category_cond = (case query_category req of
                                Some category \<Rightarrow> [EqParam ''category_id''] | None \<Rightarrow> []);
             category_param = (case query_category req of
                                 Some category \<Rightarrow> [BNum category] | None \<Rightarrow> []);
             found_materials =
               (if \<not> truthy (query_type req) \<or> query_type req = Some ''materials'' then
                  select_materials d
                    ([EqLit ''status'' ''published'', LikeAny [''title'', ''content'', ''author'']]
                     @ category_cond)
                    OrderLimitOffset
                    ([BStr searchTerm, BStr searchTerm, BStr searchTerm] @ category_param
                     @ [BNum (limit_of req), BNum offset])
                else Inr []);
             found_videos =
               (if \<not> truthy (query_type req) \<or> query_type req = Some ''videos'' then
                  select_videos d
                    ([EqLit ''status'' ''published'', LikeAny [''title'', ''description'']]
                     @ category_cond)
                    OrderLimitOffset
                    ([BStr searchTerm, BStr searchTerm] @ category_param
                     @ [BNum (limit_of req), BNum offset])
                else Inr [])
         in case found_materials of
              Inl e \<Rightarrow> failure 500 ''Search failed''
            | Inr ms \<Rightarrow>
                (case found_videos of
                   Inl e \<Rightarrow> failure 500 ''Search failed''
                 | Inr vs \<Rightarrow>
                     res_json (obj
                       [(''success'', Some (JBool True)),
                        (''data'', Some (obj
                           [(''materials'',
                               Some (JArr (map (material_json d [(''content_type'', JStr ''material'')]) ms))),
                            (''videos'',
                               Some (JArr (map (video_json d [(''content_type'', JStr ''video'')]) vs)))])),
                        (''query'', Some (JStr (the (query_q req)))),
                        (''pagination'', Some (obj [(''page'', Some (JNum (page_of req))),
                                                    (''limit'', Some (JNum (limit_of req)))]))]))))"

definition get_latest :: "db \<Rightarrow> request \<Rightarrow> response" where
  "get_latest d req =
     (let limit = (case query_limit req of None \<Rightarrow> 5 | Some limit \<Rightarrow> limit) in
      case select_materials d [EqLit ''status'' ''published''] OrderLimit [BNum limit] of
        Inl e \<Rightarrow> failure 500 ''Failed to fetch latest content''
      | Inr ms \<Rightarrow>
          (case select_videos d [EqLit ''status'' ''published''] OrderLimit [BNum limit] of
             Inl e \<Rightarrow> failure 500 ''Failed to fetch latest content''
           | Inr vs \<Rightarrow>
               res_json (obj
                 [(''success'', Some (JBool True)),
                  (''data'', Some (obj
                     [(''materials'',
                         Some (JArr (map (material_json d [(''content_type'', JStr ''material'')]) ms))),
                      (''videos'',
                         Some (JArr (map (video_json d [(''content_type'', JStr ''video'')]) vs)))]))])))"

text \<open>The public list and detail routes.\<close>

datatype endpoint =
    Categories | CategoryById
  | Materials | MaterialById | MaterialsByCategory | MaterialsByAuthor | Authors
  | Videos | VideoById | VideosByCategory
  | Search | Latest

fun public_api :: "endpoint \<Rightarrow> db \<Rightarrow> request \<Rightarrow> response" where
  "public_api Categories = get_categories"
| "public_api CategoryById = get_category_by_id"
| "public_api Materials = get_materials"
| "public_api MaterialById = get_material_by_id"
| "public_api MaterialsByCategory = get_materials_by_category"
| "public_api MaterialsByAuthor = get_materials_by_author"
| "public_api Authors = get_authors"
| "public_api Videos = get_videos"
| "public_api VideoById = get_video_by_id"
| "public_api VideosByCategory = get_videos_by_category"
| "public_api Search = search"
| "public_api Latest = get_latest"

text \<open>
  The values of the members named \<open>status\<close> anywhere in a JSON value: the statuses of
  the rows a response shows.
\<close>

fun statuses :: "json \<Rightarrow> json list" where
  "statuses (JArr xs) = concat (map statuses xs)"
| "statuses (JObj kvs) =
     concat (map (\<lambda>kv. (if fst kv = ''status'' then [snd kv] else []) @ statuses (snd kv)) kvs)"
| "statuses v = []"

text \<open>Member lookup, \<open>o.k\<close>: \<open>undefined\<close> when \<open>o\<close> is no object or has no such member.\<close>

fun json_member :: "json \<Rightarrow> string \<Rightarrow> json option" where
  "json_member (JObj kvs) k = map_of kvs k"
| "json_member v k = None"

section \<open>Schema creation (config/database.js, initDatabase)\<close>

definition col :: "string \<Rightarrow> sqltype \<Rightarrow> bool \<Rightarrow> bool \<Rightarrow> string option \<Rightarrow> column" where
  "col n t nn u dflt =
     \<lparr>col_name = n, col_type = t, col_not_null = nn, col_unique = u, col_default = dflt\<rparr>"

definition admins_table :: table_def where
  "admins_table =
     \<lparr>columns =
        [col ''id'' Int_T True True (Some ''AUTO_INCREMENT''),
         col ''email'' (Varchar_T 255) True True None,
         col ''password'' (Varchar_T 255) True False None,
         col ''name'' (Varchar_T 255) True False None,
         col ''created_at'' Timestamp_T False False (Some ''CURRENT_TIMESTAMP''),
         col ''updated_at'' Timestamp_T False False (Some ''CURRENT_TIMESTAMP ON UPDATE CURRENT_TIMESTAMP'')],
      foreign_keys = []\<rparr>"

definition categories_table :: table_def where
  "categories_table =
     \<lparr>columns =
        [col ''id'' Int_T True True (Some ''AUTO_INCREMENT''),
         col ''name'' (Varchar_T 255) True False None,
         col ''description'' Text_T False False None,
         col ''created_at'' Timestamp_T False False (Some ''CURRENT_TIMESTAMP''),
         col ''updated_at'' Timestamp_T False False (Some ''CURRENT_TIMESTAMP ON UPDATE CURRENT_TIMESTAMP'')],
      foreign_keys = []\<rparr>"

definition materials_table :: table_def where
  "materials_table =
     \<lparr>columns =
        [col ''id'' Int_T True True (Some ''AUTO_INCREMENT''),
         col ''title'' (Varchar_T 255) True False None,
         col ''content'' Text_T True False None,
         col ''category_id'' Int_T False False None,
         col ''image'' (Varchar_T 255) False False None,
         col ''status'' (Enum_T [''published'', ''draft'']) False False (Some ''published''),
         col ''created_at'' Timestamp_T False False (Some ''CURRENT_TIMESTAMP''),
         col ''updated_at'' Timestamp_T False False (Some ''CURRENT_TIMESTAMP ON UPDATE CURRENT_TIMESTAMP'')],
      foreign_keys = [(''category_id'', ''categories'')]\<rparr>"

definition videos_table :: table_def where
  "videos_table =
     \<lparr>columns =
        [col ''id'' Int_T True True (Some ''AUTO_INCREMENT''),
         col ''title'' (Varchar_T 255) True False None,
         col ''description'' Text_T True False None,
         col ''video_url'' (Varchar_T 500) True False None,
         col ''thumbnail'' (Varchar_T 255) False False None,
         col ''duration'' Int_T False False (Some ''0''),
         col ''category_id'' Int_T False False None,
         col ''status'' (Enum_T [''published'', ''draft'']) False False (Some ''published''),
         col ''created_at'' Timestamp_T False False (Some ''CURRENT_TIMESTAMP''),
         col ''updated_at'' Timestamp_T False False (Some ''CURRENT_TIMESTAMP ON UPDATE CURRENT_TIMESTAMP'')],
      foreign_keys = [(''category_id'', ''categories'')]\<rparr>"

text \<open>\<open>CREATE TABLE IF NOT EXISTS\<close>: a table that exists is left as it is.\<close>

definition create_table_if_not_exists :: "string \<Rightarrow> table_def \<Rightarrow> db \<Rightarrow> db" where
  "create_table_if_not_exists t td d =
     (if map_of (tables d) t = None then d\<lparr>tables := tables d @ [(t, td)]\<rparr> else d)"

text \<open>
  The four statements of \<open>initDatabase\<close>, in its order. (A server that cannot be reached
  ends the process instead; the model has no such server.)
\<close>

definition initDatabase :: "db \<Rightarrow> db" where
  "initDatabase d =
     create_table_if_not_exists ''videos'' videos_table
       (create_table_if_not_exists ''materials'' materials_table
          (create_table_if_not_exists ''categories'' categories_table
             (create_table_if_not_exists ''admins'' admins_table d)))"

definition empty_db :: db where
  "empty_db = \<lparr>tables = [], admins = [], admins_auto_increment = 1,
                categories = [], materials = [], videos = []\<rparr>"

section \<open>The admin API (routes/admin.js)\<close>

subsection \<open>Statements\<close>

text \<open>\<open>SELECT id FROM admins LIMIT 1\<close>.\<close>

definition select_admin_ids_limit_1 :: "db \<Rightarrow> js_error + int list" where
  "select_admin_ids_limit_1 d =
     (case schema_error d [(''admins'', [''id''])] of
        Some e \<Rightarrow> Inl e
      | None \<Rightarrow> Inr (map admin_id (take 1 (admins d))))"

text \<open>\<open>SELECT * FROM admins WHERE email = ?\<close>.\<close>

definition select_admins_by_email :: "db \<Rightarrow> bind \<Rightarrow> js_error + admin_row list" where
  "select_admins_by_email d email =
     (if email = BUndefined then Inl undefined_bind
      else
        (case schema_error d [(''admins'', [''email''])] of
           Some e \<Rightarrow> Inl e
         | None \<Rightarrow> Inr (filter (\<lambda>a. sql_eq (SStr (admin_email a)) email) (admins d))))"

definition declared_unique :: "db \<Rightarrow> string \<Rightarrow> string \<Rightarrow> bool" where
  "declared_unique d t c =
     (case map_of (tables d) t of
        None \<Rightarrow> False
      | Some td \<Rightarrow> list_ex (\<lambda>k. col_name k = c \<and> col_unique k) (columns td))"

definition declared_fk :: "db \<Rightarrow> string \<Rightarrow> string \<Rightarrow> string \<Rightarrow> bool" where
  "declared_fk d t c ref =
     (case map_of (tables d) t of
        None \<Rightarrow> False
      | Some td \<Rightarrow> (c, ref) \<in> set (foreign_keys td))"

text \<open>
  \<open>INSERT INTO admins (email, password, name) VALUES (?, ?, ?)\<close> at time \<open>t\<close>: the new
  row takes the next \<open>AUTO_INCREMENT\<close> id, which is the result's \<open>insertId\<close>.
\<close>

definition insert_admin :: "nat \<Rightarrow> db \<Rightarrow> bind list \<Rightarrow> js_error + int \<times> db" where
  "insert_admin t d ps =
     (if BUndefined \<in> set ps then Inl undefined_bind
      else
        (case schema_error d [(''admins'', [''email'', ''password'', ''name''])] of
           Some e \<Rightarrow> Inl e
         | None \<Rightarrow>
             (case ps of
                [BStr email, BStr password, BStr name] \<Rightarrow>
                  if declared_unique d ''admins'' ''email''
                     \<and> list_ex (\<lambda>a. str_eq (admin_email a) email) (admins d)
                  then Inl (Error ''ER_DUP_ENTRY'' [])
                  else Inr (admins_auto_increment d,
                            d\<lparr>admins := admins d @
                                 [\<lparr>admin_id = admins_auto_increment d, admin_email = email,
                                   admin_password = password, admin_name = name,
                                   admin_created_at = t, admin_updated_at = t\<rparr>],
                              admins_auto_increment := admins_auto_increment d + 1\<rparr>)
              | _ \<Rightarrow> Inl (Error ''ER_BAD_NULL_ERROR'' []))))"

text \<open>
  One assignment \<open>column = ?\<close> of an \<open>UPDATE materials\<close> to one row. The server refuses
  \<open>NULL\<close> for title and content, a status outside the enumeration, and a category that
  does not exist.
\<close>

definition set_material_col :: "db \<Rightarrow> string \<Rightarrow> bind \<Rightarrow> material_row \<Rightarrow> js_error + material_row" where
  "set_material_col d c v m =
     (if c = ''title'' then
        (case v of BStr s \<Rightarrow> Inr (m\<lparr>material_title := s\<rparr>)
                 | _ \<Rightarrow> Inl (Error ''ER_BAD_NULL_ERROR'' []))
      else if c = ''content'' then
        (case v of BStr s \<Rightarrow> Inr (m\<lparr>material_content := s\<rparr>)
                 | _ \<Rightarrow> Inl (Error ''ER_BAD_NULL_ERROR'' []))
      else if c = ''author'' then
        (case v of BStr s \<Rightarrow> Inr (m\<lparr>material_author := Some s\<rparr>)
                 | BNull \<Rightarrow> Inr (m\<lparr>material_author := None\<rparr>)
                 | _ \<Rightarrow> Inl (Error ''ER_TRUNCATED_WRONG_VALUE'' []))
      else if c = ''category_id'' then
        (case v of BNum i \<Rightarrow>
                     if declared_fk d ''materials'' ''category_id'' ''categories''
                        \<and> \<not> list_ex (\<lambda>k. category_id k = i) (categories d)
                     then Inl (Error ''ER_NO_REFERENCED_ROW'' [])
                     else Inr (m\<lparr>material_category_id := Some i\<rparr>)
                 | BNull \<Rightarrow> Inr (m\<lparr>material_category_id := None\<rparr>)
                 | _ \<Rightarrow> Inl (Error ''ER_TRUNCATED_WRONG_VALUE'' []))
      else if c = ''status'' then
        (case v of BStr s \<Rightarrow>
                     if str_eq s ''published'' then Inr (m\<lparr>material_status := Some published\<rparr>)
                     else if str_eq s ''draft'' then Inr (m\<lparr>material_status := Some draft\<rparr>)
                     else Inl (Error ''WARN_DATA_TRUNCATED'' [])
                 | BNull \<Rightarrow> Inr (m\<lparr>material_status := None\<rparr>)
                 | _ \<Rightarrow> Inl (Error ''WARN_DATA_TRUNCATED'' []))
      else if c = ''image'' then
        (case v of BStr s \<Rightarrow> Inr (m\<lparr>material_image := Some s\<rparr>)
                 | BNull \<Rightarrow> Inr (m\<lparr>material_image := None\<rparr>)
                 | _ \<Rightarrow> Inl (Error ''ER_TRUNCATED_WRONG_VALUE'' []))
      else Inl (Error ''ER_BAD_FIELD_ERROR'' []))"

fun assign_all :: "db \<Rightarrow> (string \<times> bind) list \<Rightarrow> material_row \<Rightarrow> js_error + material_row" where
  "assign_all d [] m = Inr m"
| "assign_all d ((c, v) # rest) m =
     (case set_material_col d c v m of
        Inl e \<Rightarrow> Inl e
      | Inr m' \<Rightarrow> assign_all d rest m')"

fun map_rows :: "('r \<Rightarrow> js_error + 'r) \<Rightarrow> 'r list \<Rightarrow> js_error + 'r list" where
  "map_rows f [] = Inr []"
| "map_rows f (r # rs) =
     (case f r of
        Inl e \<Rightarrow> Inl e
      | Inr r' \<Rightarrow> (case map_rows f rs of Inl e \<Rightarrow> Inl e | Inr rs' \<Rightarrow> Inr (r' # rs')))"

text \<open>
  \<open>UPDATE materials SET c1 = ?, c2 = ?, ... WHERE id = ?\<close> at time \<open>t\<close>: the parameters
  are the new values in the order of the columns, then the id. A row that changes gets the
  time as its \<open>updated_at\<close>.
\<close>

definition update_materials :: "nat \<Rightarrow> db \<Rightarrow> string list \<Rightarrow> bind list \<Rightarrow> js_error + db" where
  "update_materials t d set_cols ps =
     (if BUndefined \<in> set ps then Inl undefined_bind
      else
        (case schema_error d [(''materials'', set_cols @ [''id''])] of
           Some e \<Rightarrow> Inl e
         | None \<Rightarrow>
             if length ps \<noteq> length set_cols + 1 then Inl wrong_arguments
             else
               (case map_rows
                       (\<lambda>m. if sql_eq (SInt (material_id m)) (last ps) then
                              (case assign_all d (zip set_cols ps) m of
                                 Inl e \<Rightarrow> Inl e
                               | Inr m' \<Rightarrow> Inr (if m' = m then m else m'\<lparr>material_updated_at := t\<rparr>))
                            else Inr m)
                       (materials d) of
                  Inl e \<Rightarrow> Inl e
                | Inr ms \<Rightarrow> Inr (d\<lparr>materials := ms\<rparr>))))"

text \<open>
  The three \<open>DELETE FROM t WHERE id = ?\<close>. Deleting a category sets the \<open>category_id\<close> of
  the materials and videos that refer to it to \<open>NULL\<close>, where the table declares the
  foreign key.
\<close>

definition delete_from_categories :: "db \<Rightarrow> bind \<Rightarrow> js_error + db" where
  "delete_from_categories d p =
     (if p = BUndefined then Inl undefined_bind
      else
        (case schema_error d [(''categories'', [''id''])] of
           Some e \<Rightarrow> Inl e
         | None \<Rightarrow>
             (let gone = (\<lambda>cid. case cid of
                                   None \<Rightarrow> False
                                 | Some i \<Rightarrow> sql_eq (SInt i) p
                                              \<and> list_ex (\<lambda>c. category_id c = i) (categories d))
              in Inr (d\<lparr>categories := filter (\<lambda>c. \<not> sql_eq (SInt (category_id c)) p) (categories d),
                        materials :=
                          map (\<lambda>m. if declared_fk d ''materials'' ''category_id'' ''categories''
                                       \<and> gone (material_category_id m)
                                    then m\<lparr>material_category_id := None\<rparr> else m) (materials d),
                        videos :=
                          map (\<lambda>v. if declared_fk d ''videos'' ''category_id'' ''categories''
                                       \<and> gone (video_category_id v)
                                    then v\<lparr>video_category_id := None\<rparr> else v) (videos d)\<rparr>))))"

definition delete_from_materials :: "db \<Rightarrow> bind \<Rightarrow> js_error + db" where
  "delete_from_materials d p =
     (if p = BUndefined then Inl undefined_bind
      else
        (case schema_error d [(''materials'', [''id''])] of
           Some e \<Rightarrow> Inl e
         | None \<Rightarrow>
             Inr (d\<lparr>materials := filter (\<lambda>m. \<not> sql_eq (SInt (material_id m)) p) (materials d)\<rparr>)))"

definition delete_from_videos :: "db \<Rightarrow> bind \<Rightarrow> js_error + db" where
  "delete_from_videos d p =
     (if p = BUndefined then Inl undefined_bind
      else
        (case schema_error d [(''videos'', [''id''])] of
           Some e \<Rightarrow> Inl e
         | None \<Rightarrow>
             Inr (d\<lparr>videos := filter (\<lambda>v. \<not> sql_eq (SInt (video_id v)) p) (videos d)\<rparr>)))"

subsection \<open>Handlers\<close>

text \<open>
  The answer of a handler whose \<open>catch\<close> reports the error: the message, and the stack
  only in development mode.
\<close>

definition detailed_failure :: "runtime \<Rightarrow> string \<Rightarrow> js_error \<Rightarrow> response" where
  "detailed_failure rt msg e =
     res_status_json 500
       (obj [(''error'', Some (JStr msg)),
             (''details'', Some (JStr (message e))),
             (''stack'', if NODE_ENV rt = Some ''development'' then Some (JStr (stack e)) else None)])"

text \<open>\<open>process.env.X || fallback\<close>.\<close>

definition env_or :: "string option \<Rightarrow> string \<Rightarrow> string" where
  "env_or v fallback = (if truthy v then the v else fallback)"

text \<open>POST /init.\<close>

definition post_init :: "runtime \<Rightarrow> request \<Rightarrow> db \<Rightarrow> response \<times> db" where
  "post_init rt req d =
     (case select_admin_ids_limit_1 d of
        Inl e \<Rightarrow> (detailed_failure rt ''Failed to create admin'' e, d)
      | Inr existing \<Rightarrow>
          if length existing > 0 then
            (res_json (obj [(''message'', Some (JStr ''Admin already exists'')),
                            (''adminExists'', Some (JBool True)),
                            (''count'', Some (JNum (int (length existing))))]), d)
          else
            (let email = env_or (ADMIN_EMAIL rt) ''admin@breastcancer.com'';
                 password = env_or (ADMIN_PASSWORD rt) ''admin123'';
                 hashedPassword = bcrypt_hash rt password 12
             in case insert_admin (now rt) d [BStr email, BStr hashedPassword, BStr ''Administrator''] of
                  Inl e \<Rightarrow> (detailed_failure rt ''Failed to create admin'' e, d)
                | Inr (insertId, d') \<Rightarrow>
                    (res_json (obj [(''message'', Some (JStr ''Default admin created successfully'')),
                                    (''adminId'', Some (JNum insertId)),
                                    (''email'', Some (JStr email)),
                                    (''tempPassword'', Some (JStr password))]), d')))"

text \<open>POST /login. It reads the store and never changes it.\<close>

definition post_login :: "runtime \<Rightarrow> request \<Rightarrow> db \<Rightarrow> response" where
  "post_login rt req d =
     (if \<not> truthy (body_email req) \<or> \<not> truthy (body_password req) then
        res_status_json 400 (obj [(''error'', Some (JStr ''Email and password are required''))])
      else
        (case select_admins_by_email d (BStr (the (body_email req))) of
           Inl e \<Rightarrow> detailed_failure rt ''Login failed'' e
         | Inr rows \<Rightarrow>
             (case rows of
                [] \<Rightarrow> res_status_json 401 (obj [(''error'', Some (JStr ''Invalid email or password''))])
              | admin # others \<Rightarrow>
                  if \<not> bcrypt_compare rt (the (body_password req)) (admin_password admin) then
                    res_status_json 401 (obj [(''error'', Some (JStr ''Invalid email or password''))])
                  else
                    (case jwt_sign rt (obj [(''id'', Some (JNum (admin_id admin))),
                                            (''email'', Some (JStr (admin_email admin)))])
                            (JWT_SECRET rt) ''24h'' of
                       Inl e \<Rightarrow> detailed_failure rt ''Login failed'' e
                     | Inr token \<Rightarrow>
                         res_json (obj [(''success'', Some (JBool True)),
                                        (''token'', Some (JStr token)),
                                        (''admin'', Some (obj
                                           [(''id'', Some (JNum (admin_id admin))),
                                            (''email'', Some (JStr (admin_email admin))),
                                            (''name'', Some (JStr (admin_name admin)))]))])))))"

text \<open>
  PUT /materials/:id, behind the token gate and multer's \<open>upload.single('image')\<close>; the
  request is the one the handler sees, \<open>file_filename\<close> the stored name of an accepted
  upload. A body member that is absent is bound as \<open>undefined\<close>; \<open>x || null\<close> binds
  \<open>null\<close> for an absent or empty \<open>x\<close>.
\<close>

definition bind_str :: "string option \<Rightarrow> bind" where
  "bind_str v = (case v of None \<Rightarrow> BUndefined | Some s \<Rightarrow> BStr s)"

definition str_or_null :: "string option \<Rightarrow> bind" where
  "str_or_null v = (if truthy v then BStr (the v) else BNull)"

definition num_or_null :: "int option \<Rightarrow> bind" where
  "num_or_null v = (case v of None \<Rightarrow> BNull | Some i \<Rightarrow> BNum i)"

definition put_material :: "runtime \<Rightarrow> request \<Rightarrow> db \<Rightarrow> response \<times> db" where
  "put_material rt req d =
     (let image = map_option (\<lambda>filename. ''/uploads/images/'' @ filename) (file_filename req);
          set_cols = [''title'', ''content'', ''author'', ''category_id'', ''status''];
          ps = [bind_str (body_title req), bind_str (body_content req),
                str_or_null (body_author req), num_or_null (body_category_id req),
                BStr (if truthy (body_status req) then the (body_status req) else ''published'')];
          set_cols = (if truthy image then set_cols @ [''image''] else set_cols);
          ps = (if truthy image then ps @ [BStr (the image)] else ps);
          ps = ps @ [BNum (params_id req)]
      in case update_materials (now rt) d set_cols ps of
           Inl e \<Rightarrow> (res_status_json 500 (obj [(''error'', Some (JStr ''Failed to update material''))]), d)
         | Inr d' \<Rightarrow>
             (res_json (obj [(''id'', Some (JNum (params_id req))),
                             (''title'', map_option JStr (body_title req)),
                             (''content'', map_option JStr (body_content req)),
                             (''author'', map_option JStr (body_author req)),
                             (''category_id'', map_option JNum (body_category_id req)),
                             (''image'', map_option JStr image),
                             (''status'', map_option JStr (body_status req))]), d'))"

text \<open>The three DELETE handlers, each behind the token gate.\<close>

definition delete_category :: "request \<Rightarrow> db \<Rightarrow> response \<times> db" where
  "delete_category req d =
     (case delete_from_categories d (BNum (params_id req)) of
        Inl e \<Rightarrow> (res_status_json 500 (obj [(''error'', Some (JStr ''Failed to delete category''))]), d)
      | Inr d' \<Rightarrow> (res_json (obj [(''message'', Some (JStr ''Category deleted successfully''))]), d'))"

definition delete_material :: "request \<Rightarrow> db \<Rightarrow> response \<times> db" where
  "delete_material req d =
     (case delete_from_materials d (BNum (params_id req)) of
        Inl e \<Rightarrow> (res_status_json 500 (obj [(''error'', Some (JStr ''Failed to delete material''))]), d)
      | Inr d' \<Rightarrow> (res_json (obj [(''message'', Some (JStr ''Material deleted successfully''))]), d'))"

definition delete_video :: "request \<Rightarrow> db \<Rightarrow> response \<times> db" where
  "delete_video req d =
     (case delete_from_videos d (BNum (params_id req)) of
        Inl e \<Rightarrow> (res_status_json 500 (obj [(''error'', Some (JStr ''Failed to delete video''))]), d)
      | Inr d' \<Rightarrow> (res_json (obj [(''message'', Some (JStr ''Video deleted successfully''))]), d'))"

text \<open>GET /check: \<open>SELECT COUNT(*) as count FROM admins\<close>.\<close>

definition count_admins :: "db \<Rightarrow> js_error + int" where
  "count_admins d =
     (case schema_error d [(''admins'', [])] of
        Some e \<Rightarrow> Inl e
      | None \<Rightarrow> Inr (int (length (admins d))))"

definition get_check :: "request \<Rightarrow> db \<Rightarrow> response" where
  "get_check req d =
     (case count_admins d of
        Inl e \<Rightarrow>
          res_status_json 500 (obj [(''error'', Some (JStr ''Failed to check admin status'')),
                                    (''details'', Some (JStr (message e)))])
      | Inr n \<Rightarrow> res_json (obj [(''hasAdmin'', Some (JBool (n > 0))), (''count'', Some (JNum n))]))"

section \<open>Notions of the specification\<close>

text \<open>
  What the specification calls a match of a search: the query is contained in the text,
  letter case ignored (\<open>contains_ci\<close>), in the title, the content or the author of a
  material, in the title or the description of a video. Next to it, what the search
  statement asks the server: the same columns \<open>LIKE\<close> the pattern. The two agree for a query
  free of the characters that \<open>LIKE\<close> reads specially (\<open>wildcard_free\<close>).
\<close>

fun prefix_ci :: "string \<Rightarrow> string \<Rightarrow> bool" where
  "prefix_ci [] s = True"
| "prefix_ci (a # q) [] = False"
| "prefix_ci (a # q) (c # s) = (lower c = lower a \<and> prefix_ci q s)"

fun contains_ci :: "string \<Rightarrow> string \<Rightarrow> bool" where
  "contains_ci q [] = (q = [])"
| "contains_ci q (c # s) = (prefix_ci q (c # s) \<or> contains_ci q s)"

definition wildcard_free :: "string \<Rightarrow> bool" where
  "wildcard_free q = list_all (\<lambda>c. c \<noteq> CHR ''%'' \<and> c \<noteq> CHR ''_'' \<and> c \<noteq> CHR 0x5C) q"

definition material_contains :: "string \<Rightarrow> material_row \<Rightarrow> bool" where
  "material_contains q m =
     (contains_ci q (material_title m) \<or> contains_ci q (material_content m)
      \<or> (case material_author m of None \<Rightarrow> False | Some a \<Rightarrow> contains_ci q a))"

definition video_contains :: "string \<Rightarrow> video_row \<Rightarrow> bool" where
  "video_contains q v = (contains_ci q (video_title v) \<or> contains_ci q (video_description v))"

definition material_like :: "string \<Rightarrow> material_row \<Rightarrow> bool" where
  "material_like pat m =
     (like_match pat (material_title m) \<or> like_match pat (material_content m)
      \<or> (case material_author m of None \<Rightarrow> False | Some a \<Rightarrow> like_match pat a))"

definition video_like :: "string \<Rightarrow> video_row \<Rightarrow> bool" where
  "video_like pat v = (like_match pat (video_title v) \<or> like_match pat (video_description v))"

definition published_materials :: "db \<Rightarrow> material_row list" where
  "published_materials d = filter (\<lambda>m. material_status m = Some published) (materials d)"

definition published_videos :: "db \<Rightarrow> video_row list" where
  "published_videos d = filter (\<lambda>v. video_status v = Some published) (videos d)"

text \<open>The table \<open>t\<close> is declared and has the columns \<open>cs\<close>.\<close>

definition declares :: "db \<Rightarrow> string \<Rightarrow> string list \<Rightarrow> bool" where
  "declares d t cs = (schema_error d [(t, cs)] = None)"

text \<open>
  What a paginated listing ranges over, in the words of the specification: the published
  rows, of the category given if one is given, and (materials) with an author that is
  \<open>LIKE\<close> the pattern \<open>%author%\<close> if an author is given.
\<close>

definition listed_material :: "request \<Rightarrow> material_row \<Rightarrow> bool" where
  "listed_material req m =
     (material_status m = Some published
      \<and> (case query_category req of
           None \<Rightarrow> True
         | Some category \<Rightarrow> material_category_id m = Some category)
      \<and> (if truthy (query_author req)
         then (case material_author m of
                 None \<Rightarrow> False
               | Some a \<Rightarrow> like_match (''%'' @ the (query_author req) @ ''%'') a)
         else True))"

definition listed_video :: "request \<Rightarrow> video_row \<Rightarrow> bool" where
  "listed_video req v =
     (video_status v = Some published
      \<and> (case query_category req of
           None \<Rightarrow> True
         | Some category \<Rightarrow> video_category_id v = Some category))"

text \<open>
  The answer the specification describes for a page of a listing: of the rows that
  match, newest first, those from the offset \<open>(page - 1) * limit\<close> on and at most
  \<open>limit\<close> of them; the number of all rows that match as \<open>total\<close>; and the ceiling of
  \<open>total / limit\<close> as \<open>pages\<close>.
\<close>

definition page_answer :: "('r \<Rightarrow> nat) \<Rightarrow> ('r \<Rightarrow> json) \<Rightarrow> 'r list \<Rightarrow> int \<Rightarrow> int \<Rightarrow> response" where
  "page_answer created shown matching page limit =
     \<lparr>status_code = 200,
      body = JObj [(''success'', JBool True),
                   (''data'', JArr (map shown
                      (take (nat limit) (drop (nat ((page - 1) * limit))
                         (sort_key (\<lambda>r. - int (created r)) matching))))),
                   (''pagination'',
                      JObj [(''total'', JNum (int (length matching))),
                            (''page'', JNum page),
                            (''limit'', JNum limit),
                            (''pages'', JNum \<lceil>real (length matching) / real_of_int limit\<rceil>)])]\<rparr>"

text \<open>The database without the materials and videos that are not published.\<close>

definition published_part :: "db \<Rightarrow> db" where
  "published_part d = d\<lparr>materials := published_materials d, videos := published_videos d\<rparr>"

section \<open>Example data\<close>

text \<open>
  A runtime whose libraries are small stand-ins, a request with nothing set, and a database
  whose \<open>materials\<close> table has the \<open>author\<close> column the handlers name. They are the
  concrete inputs of the instances proved below.
\<close>

definition example_runtime :: runtime where
  "example_runtime =
     \<lparr>JWT_SECRET = Some ''s3cret'', ADMIN_EMAIL = None, ADMIN_PASSWORD = None, NODE_ENV = None,
      now = 400,
      jwt_verify = (\<lambda>token secret.
         if token = ''signed:1:admin@breastcancer.com'' \<and> secret = Some ''s3cret''
         then Inr (JObj [(''id'', JNum 1), (''email'', JStr ''admin@breastcancer.com'')])
         else Inl (Error ''invalid signature'' [])),
      jwt_sign = (\<lambda>payload secret expiresIn.
         case secret of
           None \<Rightarrow> Inl (Error ''secretOrPrivateKey must have a value'' [])
         | Some k \<Rightarrow> Inr ''signed:1:admin@breastcancer.com''),
      bcrypt_hash = (\<lambda>password cost. ''$2a$12$'' @ rev password),
      bcrypt_compare = (\<lambda>password hash. hash = ''$2a$12$'' @ rev password)\<rparr>"

definition blank_request :: request where
  "blank_request =
     \<lparr>authorization = None, user = None, query_page = None, query_limit = None,
      query_category = None, query_author = None, query_q = None, query_type = None,
      params_id = 0, params_categoryId = 0, params_author = [],
      body_email = None, body_password = None, body_title = None, body_content = None,
      body_author = None, body_category_id = None, body_status = None, file_filename = None\<rparr>"

definition materials_table_with_author :: table_def where
  "materials_table_with_author =
     materials_table\<lparr>columns :=
        take 3 (columns materials_table) @ [col ''author'' (Varchar_T 255) False False None]
        @ drop 3 (columns materials_table)\<rparr>"

definition example_db :: db where
  "example_db =
     \<lparr>tables = [(''admins'', admins_table), (''categories'', categories_table),
                (''materials'', materials_table_with_author), (''videos'', videos_table)],
      admins = [\<lparr>admin_id = 1, admin_email = ''admin@breastcancer.com'',
                  admin_password = ''$2a$12$321nimda'', admin_name = ''Administrator'',
                  admin_created_at = 100, admin_updated_at = 100\<rparr>],
      admins_auto_increment = 2,
      categories = [\<lparr>category_id = 1, category_name = ''Screening'',
                      category_description = None,
                      category_created_at = 100, category_updated_at = 100\<rparr>],
      materials =
        [\<lparr>material_id = 1, material_title = ''Self examination'', material_content = ''Monthly'',
          material_author = Some ''Dr. Sari'', material_category_id = Some 1,
          material_image = Some ''/uploads/images/image-1.png'', material_status = Some published,
          material_created_at = 200, material_updated_at = 200\<rparr>,
         \<lparr>material_id = 2, material_title = ''Draft notes'', material_content = ''Unfinished'',
          material_author = Some ''Dr. Sari'', material_category_id = Some 1,
          material_image = None, material_status = Some draft,
          material_created_at = 210, material_updated_at = 210\<rparr>,
         \<lparr>material_id = 3, material_title = ''Mammography'', material_content = ''Yearly'',
          material_author = Some ''dr. sari'', material_category_id = Some 1,
          material_image = None, material_status = Some published,
          material_created_at = 220, material_updated_at = 220\<rparr>],
      videos =
        [\<lparr>video_id = 1, video_title = ''Introduction'', video_description = ''Welcome'',
          video_url = ''/uploads/videos/video-1.mp4'', video_thumbnail = None,
          video_duration = Some 60, video_category_id = Some 1, video_status = Some published,
          video_created_at = 300, video_updated_at = 300\<rparr>,
         \<lparr>video_id = 2, video_title = ''Rough cut'', video_description = ''Not ready'',
          video_url = ''/uploads/videos/video-2.mp4'', video_thumbnail = None,
          video_duration = Some 0, video_category_id = None, video_status = Some draft,
          video_created_at = 310, video_updated_at = 310\<rparr>]\<rparr>"

definition page_2_request :: request where
  "page_2_request =
     blank_request\<lparr>query_page := Some 2, query_limit := Some 1, query_category := Some 1,
                     query_author := Some ''SARI'', params_categoryId := 1,
                     params_author := ''sari''\<rparr>"

text \<open>The example database with one more material, a draft by an author of no other.\<close>

definition draft_author_db :: db where
  "draft_author_db =
     example_db\<lparr>materials := materials example_db @
        [\<lparr>material_id = 4, material_title = ''Nutrition'', material_content = ''Outline'',
          material_author = Some ''Dr. Budi'', material_category_id = Some 1,
          material_image = None, material_status = Some draft,
          material_created_at = 230, material_updated_at = 230\<rparr>]\<rparr>"

definition example_admin :: admin_row where
  "example_admin = \<lparr>admin_id = 1, admin_email = ''admin@breastcancer.com'',
                  admin_password = ''$2a$12$321nimda'', admin_name = ''Administrator'',
                  admin_created_at = 100, admin_updated_at = 100\<rparr>"

text \<open>A database with two admins, and a request that updates the first material.\<close>

definition two_admins_db :: db where
  "two_admins_db =
     example_db\<lparr>admins := [example_admin,
                             example_admin\<lparr>admin_id := 2, admin_email := ''second@breastcancer.com''\<rparr>],
                  admins_auto_increment := 3\<rparr>"

definition update_request :: request where
  "update_request =
     blank_request\<lparr>params_id := 1, body_title := Some ''Self examination, revised'',
                     body_content := Some ''Monthly, after the period''\<rparr>"

section \<open>Properties\<close>

subsection \<open>The token gate\<close>

text \<open>
  C3. A request to a gated route with no token (no Authorization header, or one whose second
  space-separated part is missing or empty) is answered 401; one whose token
  \<open>jwt.verify\<close> rejects is answered 403; in both cases the handler does not run: the
  answer and the unchanged store do not depend on it. When \<open>jwt.verify\<close> accepts the
  token, its payload is attached as \<open>req.user\<close> and the route is the handler on that request.
\<close>

theorem authenticateToken_gate:
  "(\<not> truthy (bearer_token req) \<longrightarrow>
      authenticateToken rt req =
        Responded \<lparr>status_code = 401, body = JObj [(''error'', JStr ''Access token required'')]\<rparr>
      \<and> gated rt handler req s =
        (\<lparr>status_code = 401, body = JObj [(''error'', JStr ''Access token required'')]\<rparr>, s))
   \<and> (truthy (bearer_token req) \<and> jwt_verify rt (the (bearer_token req)) (JWT_SECRET rt) = Inl err \<longrightarrow>
      authenticateToken rt req =
        Responded \<lparr>status_code = 403, body = JObj [(''error'', JStr ''Invalid or expired token'')]\<rparr>
      \<and> gated rt handler req s =
        (\<lparr>status_code = 403, body = JObj [(''error'', JStr ''Invalid or expired token'')]\<rparr>, s))
   \<and> (truthy (bearer_token req) \<and> jwt_verify rt (the (bearer_token req)) (JWT_SECRET rt) = Inr usr \<longrightarrow>
      authenticateToken rt req = Next (req\<lparr>user := Some usr\<rparr>)
      \<and> gated rt handler req s = handler (req\<lparr>user := Some usr\<rparr>) s)"
  by (simp add: authenticateToken_def gated_def res_status_json_def obj_def List.map_filter_simps)

theorem authenticateToken_gate_witness:
  "gated example_runtime delete_category blank_request example_db =
     (\<lparr>status_code = 401, body = JObj [(''error'', JStr ''Access token required'')]\<rparr>, example_db)
   \<and> gated example_runtime delete_category
        (blank_request\<lparr>authorization := Some ''Bearer forged''\<rparr>) example_db =
     (\<lparr>status_code = 403, body = JObj [(''error'', JStr ''Invalid or expired token'')]\<rparr>, example_db)
   \<and> gated example_runtime delete_category
        (blank_request\<lparr>authorization := Some ''Bearer signed:1:admin@breastcancer.com''\<rparr>) example_db =
     delete_category
        (blank_request\<lparr>authorization := Some ''Bearer signed:1:admin@breastcancer.com'',
                         user := Some (JObj [(''id'', JNum 1), (''email'', JStr ''admin@breastcancer.com'')])\<rparr>)
        example_db"
proof -
  have none: "\<not> truthy (bearer_token blank_request)"
    by (simp add: bearer_token_def blank_request_def)
  have forged: "bearer_token (blank_request\<lparr>authorization := Some ''Bearer forged''\<rparr>) = Some ''forged''"
    by (simp add: bearer_token_def)
  have signed: "bearer_token (blank_request\<lparr>authorization := Some ''Bearer signed:1:admin@breastcancer.com''\<rparr>)
                  = Some ''signed:1:admin@breastcancer.com''"
    by (simp add: bearer_token_def)
  have rejected: "jwt_verify example_runtime ''forged'' (JWT_SECRET example_runtime)
                    = Inl (Error ''invalid signature'' [])"
    by (simp add: example_runtime_def)
  have accepted: "jwt_verify example_runtime ''signed:1:admin@breastcancer.com'' (JWT_SECRET example_runtime)
                    = Inr (JObj [(''id'', JNum 1), (''email'', JStr ''admin@breastcancer.com'')])"
    by (simp add: example_runtime_def)
  show ?thesis
    using authenticateToken_gate [where req = blank_request and rt = example_runtime
        and handler = delete_category and s = example_db]
      authenticateToken_gate [where req = "blank_request\<lparr>authorization := Some ''Bearer forged''\<rparr>"
        and rt = example_runtime and err = "Error ''invalid signature'' []"
        and handler = delete_category and s = example_db]
      authenticateToken_gate [where req = "blank_request\<lparr>authorization := Some ''Bearer signed:1:admin@breastcancer.com''\<rparr>"
        and rt = example_runtime
        and usr = "JObj [(''id'', JNum 1), (''email'', JStr ''admin@breastcancer.com'')]"
        and handler = delete_category and s = example_db]
      none forged signed rejected accepted
    by simp
qed

subsection \<open>Paginated listings\<close>

lemma where_holds_append:
  "length ps = where_arity conds \<Longrightarrow> where_holds r conds (ps @ extra) = where_holds r conds ps"
proof (induction conds arbitrary: ps)
  case Nil
  then show ?case by simp
next
  case (Cons c cs)
  then have le: "cond_arity c \<le> length ps" by simp
  have len: "length (drop (cond_arity c) ps) = where_arity cs" using Cons.prems by simp
  show ?case using le Cons.IH [OF len] by simp
qed

lemma materials_queries_shape:
  "countQuery (materials_queries req) = query (materials_queries req)
   \<and> params (materials_queries req)
       = countParams (materials_queries req) @ [BNum (limit_of req), BNum ((page_of req - 1) * limit_of req)]
   \<and> length (countParams (materials_queries req)) = where_arity (query (materials_queries req))"
  by (simp add: materials_queries_def add_filter_def Let_def split: option.splits)

lemma videos_queries_shape:
  "countQuery (videos_queries req) = query (videos_queries req)
   \<and> params (videos_queries req)
       = countParams (videos_queries req) @ [BNum (limit_of req), BNum ((page_of req - 1) * limit_of req)]
   \<and> length (countParams (videos_queries req)) = where_arity (query (videos_queries req))"
  by (simp add: videos_queries_def add_filter_def Let_def split: option.splits)

lemma math_ceil_div_real:
  "b \<noteq> 0 \<Longrightarrow> math_ceil_div a b = Num \<lceil>real_of_int a / real_of_int b\<rceil>"
  by (simp add: math_ceil_div_def ceiling_divide_eq_div)

lemma pages_json:
  "number_json (math_ceil_div a b) = (if b = 0 then JNull else JNum \<lceil>real_of_int a / real_of_int b\<rceil>)"
  by (simp add: math_ceil_div_real) (simp add: math_ceil_div_def)

lemma status_published_iff:
  "sql_eq (status_val st) (BStr ''published'') = (st = Some published)"
  by (cases st; (simp add: status_val_def)?; (rename_tac x, case_tac x)?)
     (simp_all add: status_val_def str_eq_def lower_def)

lemma schema_error_declared:
  "declares d t cs \<Longrightarrow> set cs' \<subseteq> set cs \<Longrightarrow> schema_error d ((t, cs') # rest) = schema_error d rest"
  by (auto simp: declares_def list_all_iff split: option.splits if_splits)

lemma select_rows_page:
  assumes "BUndefined \<notin> set ps"
    and "declares d t cs" and "set (concat (map cond_columns conds)) \<subseteq> set cs"
    and "''category_id'' \<in> set cs" and "''created_at'' \<in> set cs"
    and "declares d ''categories'' [''id'', ''name'']"
    and "length ps = where_arity conds" and "0 \<le> l" and "0 \<le> off"
  shows "select_rows d t cl created rows conds OrderLimitOffset (ps @ [BNum l, BNum off])
         = Inr (take (nat l) (drop (nat off)
             (sort_key (\<lambda>r. - int (created r)) (filter (\<lambda>r. where_holds (cl r) conds ps) rows))))"
proof -
  have "schema_error d [(t, ''category_id'' # concat (map cond_columns conds) @ [''created_at'']),
                        (''categories'', [''id'', ''name''])]
        = schema_error d [(''categories'', [''id'', ''name''])]"
    using assms(3-5) by (intro schema_error_declared [OF assms(2)]) auto
  also have "\<dots> = None" using assms(6) by (simp add: declares_def)
  finally show ?thesis using assms(1,7-9)
    by (simp add: select_rows_def where_holds_append del: schema_error.simps)
qed

lemma count_rows_total:
  assumes "BUndefined \<notin> set ps"
    and "declares d t cs" and "set (concat (map cond_columns conds)) \<subseteq> set cs"
    and "length ps = where_arity conds"
  shows "count_rows d t cl rows conds ps
         = Inr (int (length (filter (\<lambda>r. where_holds (cl r) conds ps) rows)))"
proof -
  have "schema_error d [(t, concat (map cond_columns conds))] = schema_error d []"
    using assms(3) by (intro schema_error_declared [OF assms(2)]) auto
  then have "schema_error d [(t, concat (map cond_columns conds))] = None" by simp
  then show ?thesis using assms(1,4)
    by (simp add: count_rows_def del: schema_error.simps)
qed

lemma page_answer_eq:
  "1 \<le> limit \<Longrightarrow>
   res_json (obj [(''success'', Some (JBool True)),
                  (''data'', Some (JArr (map shown
                      (take (nat limit) (drop (nat ((page - 1) * limit))
                         (sort_key (\<lambda>r. - int (created r)) matching)))))),
                  (''pagination'', Some (pagination (int (length matching)) page limit))])
   = page_answer created shown matching page limit"
  by (simp add: page_answer_def res_json_def obj_def List.map_filter_simps pagination_def pages_json)

lemma listed_material_where:
  "where_holds (material_col m) (query (materials_queries req)) (countParams (materials_queries req))
   = listed_material req m"
  by (auto simp: materials_queries_def add_filter_def Let_def listed_material_def material_col_def
        status_published_iff opt_int_def opt_str_def split: option.splits)

lemma listed_video_where:
  "where_holds (video_col v) (query (videos_queries req)) (countParams (videos_queries req))
   = listed_video req v"
  by (auto simp: videos_queries_def add_filter_def Let_def listed_video_def video_col_def
        status_published_iff opt_int_def split: option.splits)

lemma materials_queries_columns:
  "set (concat (map cond_columns (query (materials_queries req))))
   \<subseteq> set ([''category_id'', ''status'', ''created_at'']
            @ (if truthy (query_author req) then [''author''] else []))"
  by (auto simp: materials_queries_def add_filter_def Let_def split: option.splits)

lemma videos_queries_columns:
  "set (concat (map cond_columns (query (videos_queries req))))
   \<subseteq> set [''category_id'', ''status'', ''created_at'']"
  by (auto simp: videos_queries_def add_filter_def Let_def split: option.splits)

lemma materials_queries_defined:
  "BUndefined \<notin> set (countParams (materials_queries req))"
  by (auto simp: materials_queries_def add_filter_def Let_def split: option.splits)

lemma videos_queries_defined:
  "BUndefined \<notin> set (countParams (videos_queries req))"
  by (auto simp: videos_queries_def add_filter_def Let_def split: option.splits)

lemma get_materials_page:
  assumes "1 \<le> page_of req" and "1 \<le> limit_of req"
    and "declares d ''materials''
           ([''category_id'', ''status'', ''created_at'']
            @ (if truthy (query_author req) then [''author''] else []))"
    and "declares d ''categories'' [''id'', ''name'']"
  shows "get_materials d req =
         page_answer material_created_at (material_json d [])
           (filter (listed_material req) (materials d)) (page_of req) (limit_of req)"
proof -
  note shape = materials_queries_shape [of req]
  have sel: "select_materials d (query (materials_queries req)) OrderLimitOffset (params (materials_queries req))
        = Inr (take (nat (limit_of req)) (drop (nat ((page_of req - 1) * limit_of req))
             (sort_key (\<lambda>r. - int (material_created_at r)) (filter (listed_material req) (materials d)))))"
    unfolding select_materials_def
    using select_rows_page [OF materials_queries_defined assms(3) materials_queries_columns _ _ assms(4),
        where l = "limit_of req" and off = "(page_of req - 1) * limit_of req" and cl = material_col
          and created = material_created_at and rows = "materials d"]
      shape assms(1,2)
    by (simp add: listed_material_where)
  have cnt: "count_materials d (countQuery (materials_queries req)) (countParams (materials_queries req))
        = Inr (int (length (filter (listed_material req) (materials d))))"
    unfolding count_materials_def
    using count_rows_total [OF materials_queries_defined assms(3) materials_queries_columns,
        where cl = material_col and rows = "materials d"] shape
    by (simp add: listed_material_where)
  show ?thesis
    unfolding get_materials_def Let_def sel cnt sum.case
    by (rule page_answer_eq [OF assms(2)])
qed


lemma get_videos_page:
  assumes "1 \<le> page_of req" and "1 \<le> limit_of req"
    and "declares d ''videos'' [''category_id'', ''status'', ''created_at'']"
    and "declares d ''categories'' [''id'', ''name'']"
  shows "get_videos d req =
         page_answer video_created_at (video_json d [])
           (filter (listed_video req) (videos d)) (page_of req) (limit_of req)"
proof -
  note shape = videos_queries_shape [of req]
  have sel: "select_videos d (query (videos_queries req)) OrderLimitOffset (params (videos_queries req))
        = Inr (take (nat (limit_of req)) (drop (nat ((page_of req - 1) * limit_of req))
             (sort_key (\<lambda>r. - int (video_created_at r)) (filter (listed_video req) (videos d)))))"
    unfolding select_videos_def
    using select_rows_page [OF videos_queries_defined assms(3) videos_queries_columns _ _ assms(4),
        where l = "limit_of req" and off = "(page_of req - 1) * limit_of req" and cl = video_col
          and created = video_created_at and rows = "videos d"]
      shape assms(1,2)
    by (simp add: listed_video_where)
  have cnt: "count_videos d (countQuery (videos_queries req)) (countParams (videos_queries req))
        = Inr (int (length (filter (listed_video req) (videos d))))"
    unfolding count_videos_def
    using count_rows_total [OF videos_queries_defined assms(3) videos_queries_columns,
        where cl = video_col and rows = "videos d"] shape
    by (simp add: listed_video_where)
  show ?thesis
    unfolding get_videos_def Let_def sel cnt sum.case
    by (rule page_answer_eq [OF assms(2)])
qed

lemma get_materials_by_category_page:
  assumes "1 \<le> page_of req" and "1 \<le> limit_of req"
    and "declares d ''materials'' [''category_id'', ''status'', ''created_at'']"
    and "declares d ''categories'' [''id'', ''name'']"
  shows "get_materials_by_category d req =
         page_answer material_created_at (material_json d [])
           (filter (\<lambda>m. material_category_id m = Some (params_categoryId req)
                         \<and> material_status m = Some published) (materials d))
           (page_of req) (limit_of req)"
proof -
  have w: "where_holds (material_col m) [EqParam ''category_id'', EqLit ''status'' ''published'']
             [BNum (params_categoryId req)]
           = (material_category_id m = Some (params_categoryId req) \<and> material_status m = Some published)"
    for m
    by (auto simp: material_col_def status_published_iff opt_int_def split: option.splits)
  have sel: "select_materials d [EqParam ''category_id'', EqLit ''status'' ''published''] OrderLimitOffset
               [BNum (params_categoryId req), BNum (limit_of req), BNum ((page_of req - 1) * limit_of req)]
        = Inr (take (nat (limit_of req)) (drop (nat ((page_of req - 1) * limit_of req))
             (sort_key (\<lambda>r. - int (material_created_at r))
                (filter (\<lambda>m. material_category_id m = Some (params_categoryId req)
                              \<and> material_status m = Some published) (materials d)))))"
    unfolding select_materials_def
    using select_rows_page [OF _ assms(3) _ _ _ assms(4),
        where conds = "[EqParam ''category_id'', EqLit ''status'' ''published'']"
          and ps = "[BNum (params_categoryId req)]"
          and l = "limit_of req" and off = "(page_of req - 1) * limit_of req" and cl = material_col
          and created = material_created_at and rows = "materials d"]
      assms(1,2)
    by (simp add: w del: where_holds.simps)
  have cnt: "count_materials d [EqParam ''category_id'', EqLit ''status'' ''published'']
               [BNum (params_categoryId req)]
        = Inr (int (length (filter (\<lambda>m. material_category_id m = Some (params_categoryId req)
                              \<and> material_status m = Some published) (materials d))))"
    unfolding count_materials_def
    using count_rows_total [OF _ assms(3),
        where conds = "[EqParam ''category_id'', EqLit ''status'' ''published'']"
          and ps = "[BNum (params_categoryId req)]" and cl = material_col and rows = "materials d"]
    by (simp add: w del: where_holds.simps)
  show ?thesis
    unfolding get_materials_by_category_def Let_def sel cnt sum.case
    by (rule page_answer_eq [OF assms(2)])
qed

lemma get_materials_by_author_page:
  assumes "1 \<le> page_of req" and "1 \<le> limit_of req"
    and "declares d ''materials'' [''author'', ''category_id'', ''status'', ''created_at'']"
    and "declares d ''categories'' [''id'', ''name'']"
  shows "get_materials_by_author d req =
         page_answer material_created_at (material_json d [])
           (filter (\<lambda>m. (case material_author m of
                            None \<Rightarrow> False
                          | Some a \<Rightarrow> like_match (''%'' @ params_author req @ ''%'') a)
                         \<and> material_status m = Some published) (materials d))
           (page_of req) (limit_of req)"
proof -
  define pat where "pat = ''%'' @ params_author req @ ''%''"
  have w: "where_holds (material_col m) [LikeParam ''author'', EqLit ''status'' ''published''] [BStr pat]
           = ((case material_author m of None \<Rightarrow> False | Some a \<Rightarrow> like_match pat a)
              \<and> material_status m = Some published)"
    for m
    by (auto simp: material_col_def status_published_iff opt_str_def split: option.splits)
  have sel: "select_materials d [LikeParam ''author'', EqLit ''status'' ''published''] OrderLimitOffset
               [BStr pat, BNum (limit_of req), BNum ((page_of req - 1) * limit_of req)]
        = Inr (take (nat (limit_of req)) (drop (nat ((page_of req - 1) * limit_of req))
             (sort_key (\<lambda>r. - int (material_created_at r))
                (filter (\<lambda>m. (case material_author m of None \<Rightarrow> False | Some a \<Rightarrow> like_match pat a)
                              \<and> material_status m = Some published) (materials d)))))"
    unfolding select_materials_def
    using select_rows_page [OF _ assms(3) _ _ _ assms(4),
        where conds = "[LikeParam ''author'', EqLit ''status'' ''published'']"
          and ps = "[BStr pat]"
          and l = "limit_of req" and off = "(page_of req - 1) * limit_of req" and cl = material_col
          and created = material_created_at and rows = "materials d"]
      assms(1,2)
    by (simp add: w del: where_holds.simps)
  have cnt: "count_materials d [LikeParam ''author'', EqLit ''status'' ''published''] [BStr pat]
        = Inr (int (length (filter (\<lambda>m. (case material_author m of None \<Rightarrow> False | Some a \<Rightarrow> like_match pat a)
                              \<and> material_status m = Some published) (materials d))))"
    unfolding count_materials_def
    using count_rows_total [OF _ assms(3),
        where conds = "[LikeParam ''author'', EqLit ''status'' ''published'']"
          and ps = "[BStr pat]" and cl = material_col and rows = "materials d"]
    by (simp add: w del: where_holds.simps)
  show ?thesis
    unfolding get_materials_by_author_def Let_def pat_def [symmetric] sel cnt sum.case
    by (rule page_answer_eq [OF assms(2)])
qed

lemma get_videos_by_category_page:
  assumes "1 \<le> page_of req" and "1 \<le> limit_of req"
    and "declares d ''videos'' [''category_id'', ''status'', ''created_at'']"
    and "declares d ''categories'' [''id'', ''name'']"
  shows "get_videos_by_category d req =
         page_answer video_created_at (video_json d [])
           (filter (\<lambda>v. video_category_id v = Some (params_categoryId req)
                         \<and> video_status v = Some published) (videos d))
           (page_of req) (limit_of req)"
proof -
  have w: "where_holds (video_col m) [EqParam ''category_id'', EqLit ''status'' ''published'']
             [BNum (params_categoryId req)]
           = (video_category_id m = Some (params_categoryId req) \<and> video_status m = Some published)"
    for m
    by (auto simp: video_col_def status_published_iff opt_int_def split: option.splits)
  have sel: "select_videos d [EqParam ''category_id'', EqLit ''status'' ''published''] OrderLimitOffset
               [BNum (params_categoryId req), BNum (limit_of req), BNum ((page_of req - 1) * limit_of req)]
        = Inr (take (nat (limit_of req)) (drop (nat ((page_of req - 1) * limit_of req))
             (sort_key (\<lambda>r. - int (video_created_at r))
                (filter (\<lambda>m. video_category_id m = Some (params_categoryId req)
                              \<and> video_status m = Some published) (videos d)))))"
    unfolding select_videos_def
    using select_rows_page [OF _ assms(3) _ _ _ assms(4),
        where conds = "[EqParam ''category_id'', EqLit ''status'' ''published'']"
          and ps = "[BNum (params_categoryId req)]"
          and l = "limit_of req" and off = "(page_of req - 1) * limit_of req" and cl = video_col
          and created = video_created_at and rows = "videos d"]
      assms(1,2)
    by (simp add: w del: where_holds.simps)
  have cnt: "count_videos d [EqParam ''category_id'', EqLit ''status'' ''published'']
               [BNum (params_categoryId req)]
        = Inr (int (length (filter (\<lambda>m. video_category_id m = Some (params_categoryId req)
                              \<and> video_status m = Some published) (videos d))))"
    unfolding count_videos_def
    using count_rows_total [OF _ assms(3),
        where conds = "[EqParam ''category_id'', EqLit ''status'' ''published'']"
          and ps = "[BNum (params_categoryId req)]" and cl = video_col and rows = "videos d"]
    by (simp add: w del: where_holds.simps)
  show ?thesis
    unfolding get_videos_by_category_def Let_def sel cnt sum.case
    by (rule page_answer_eq [OF assms(2)])
qed


text \<open>
  C1, as amended. The paginated listings are GET /materials, GET /videos,
  GET /materials/category/:categoryId, GET /materials/author/:author and
  GET /videos/category/:categoryId. For a page of at least 1 and a limit of at least 1
  (an absent page is 1, an absent limit is 10), on a store that has the tables and columns
  the statements name, each of them answers 200 with: as data, the rows that match the
  filter, newest first, from the offset \<open>(page - 1) * limit\<close> on and at most \<open>limit\<close>
  of them; as \<open>total\<close>, the number of all the rows that match the same filter; and as
  \<open>pages\<close>, the ceiling of \<open>total / limit\<close>. The filter of GET /materials and
  GET /videos is \<open>listed_material\<close> and \<open>listed_video\<close>, for every combination of the
  category and author filters; their count query has the conditions of the row query and
  the same parameters, the row query taking the limit and the offset after them. The filter
  of the three other listings is: published and of the category, or published and with an
  author \<open>LIKE\<close> the pattern.
\<close>

theorem paginated_listings:
  "(1 \<le> page_of req \<and> 1 \<le> limit_of req
     \<and> declares d ''materials''
          ([''category_id'', ''status'', ''created_at'']
           @ (if truthy (query_author req) then [''author''] else []))
     \<and> declares d ''categories'' [''id'', ''name''] \<longrightarrow>
      get_materials d req =
        page_answer material_created_at (material_json d [])
          (filter (listed_material req) (materials d)) (page_of req) (limit_of req))
   \<and> (1 \<le> page_of req \<and> 1 \<le> limit_of req
     \<and> declares d ''videos'' [''category_id'', ''status'', ''created_at'']
     \<and> declares d ''categories'' [''id'', ''name''] \<longrightarrow>
      get_videos d req =
        page_answer video_created_at (video_json d [])
          (filter (listed_video req) (videos d)) (page_of req) (limit_of req))
   \<and> (1 \<le> page_of req \<and> 1 \<le> limit_of req
     \<and> declares d ''materials'' [''category_id'', ''status'', ''created_at'']
     \<and> declares d ''categories'' [''id'', ''name''] \<longrightarrow>
      get_materials_by_category d req =
        page_answer material_created_at (material_json d [])
          (filter (\<lambda>m. material_category_id m = Some (params_categoryId req)
                        \<and> material_status m = Some published) (materials d))
          (page_of req) (limit_of req))
   \<and> (1 \<le> page_of req \<and> 1 \<le> limit_of req
     \<and> declares d ''materials'' [''author'', ''category_id'', ''status'', ''created_at'']
     \<and> declares d ''categories'' [''id'', ''name''] \<longrightarrow>
      get_materials_by_author d req =
        page_answer material_created_at (material_json d [])
          (filter (\<lambda>m. (case material_author m of
                           None \<Rightarrow> False
                         | Some a \<Rightarrow> like_match (''%'' @ params_author req @ ''%'') a)
                        \<and> material_status m = Some published) (materials d))
          (page_of req) (limit_of req))
   \<and> (1 \<le> page_of req \<and> 1 \<le> limit_of req
     \<and> declares d ''videos'' [''category_id'', ''status'', ''created_at'']
     \<and> declares d ''categories'' [''id'', ''name''] \<longrightarrow>
      get_videos_by_category d req =
        page_answer video_created_at (video_json d [])
          (filter (\<lambda>v. video_category_id v = Some (params_categoryId req)
                        \<and> video_status v = Some published) (videos d))
          (page_of req) (limit_of req))
   \<and> countQuery (materials_queries req) = query (materials_queries req)
   \<and> params (materials_queries req) =
       countParams (materials_queries req) @ [BNum (limit_of req), BNum ((page_of req - 1) * limit_of req)]
   \<and> where_holds (material_col m) (countQuery (materials_queries req)) (countParams (materials_queries req))
       = listed_material req m
   \<and> countQuery (videos_queries req) = query (videos_queries req)
   \<and> params (videos_queries req) =
       countParams (videos_queries req) @ [BNum (limit_of req), BNum ((page_of req - 1) * limit_of req)]
   \<and> where_holds (video_col v) (countQuery (videos_queries req)) (countParams (videos_queries req))
       = listed_video req v
   \<and> page_of (req\<lparr>query_page := None\<rparr>) = 1 \<and> limit_of (req\<lparr>query_limit := None\<rparr>) = 10"
  using get_materials_page [of req d] get_videos_page [of req d]
    get_materials_by_category_page [of req d] get_materials_by_author_page [of req d]
    get_videos_by_category_page [of req d]
    materials_queries_shape [of req] videos_queries_shape [of req]
    listed_material_where [of m req] listed_video_where [of v req]
  by (simp add: page_of_def limit_of_def)

theorem paginated_listings_witness:
  "get_materials example_db page_2_request =
     page_answer material_created_at (material_json example_db [])
       (filter (listed_material page_2_request) (materials example_db)) 2 1
   \<and> get_videos example_db page_2_request =
     page_answer video_created_at (video_json example_db [])
       (filter (listed_video page_2_request) (videos example_db)) 2 1
   \<and> get_materials_by_category example_db page_2_request =
     page_answer material_created_at (material_json example_db [])
       (filter (\<lambda>m. material_category_id m = Some 1 \<and> material_status m = Some published)
          (materials example_db)) 2 1
   \<and> get_materials_by_author example_db page_2_request =
     page_answer material_created_at (material_json example_db [])
       (filter (\<lambda>m. (case material_author m of
                        None \<Rightarrow> False
                      | Some a \<Rightarrow> like_match (''%'' @ ''sari'' @ ''%'') a)
                     \<and> material_status m = Some published) (materials example_db)) 2 1
   \<and> get_videos_by_category example_db page_2_request =
     page_answer video_created_at (video_json example_db [])
       (filter (\<lambda>v. video_category_id v = Some 1 \<and> video_status v = Some published)
          (videos example_db)) 2 1
   \<and> map (\<lambda>r. json_member (body r) ''pagination'')
       [get_materials example_db page_2_request, get_videos example_db page_2_request,
        get_materials_by_category example_db page_2_request,
        get_materials_by_author example_db page_2_request,
        get_videos_by_category example_db page_2_request] =
     [Some (JObj [(''total'', JNum 2), (''page'', JNum 2), (''limit'', JNum 1), (''pages'', JNum 2)]),
      Some (JObj [(''total'', JNum 1), (''page'', JNum 2), (''limit'', JNum 1), (''pages'', JNum 1)]),
      Some (JObj [(''total'', JNum 2), (''page'', JNum 2), (''limit'', JNum 1), (''pages'', JNum 2)]),
      Some (JObj [(''total'', JNum 2), (''page'', JNum 2), (''limit'', JNum 1), (''pages'', JNum 2)]),
      Some (JObj [(''total'', JNum 1), (''page'', JNum 2), (''limit'', JNum 1), (''pages'', JNum 1)])]"
proof -
  have r: "page_of page_2_request = 2" "limit_of page_2_request = 1"
    "params_categoryId page_2_request = 1" "params_author page_2_request = ''sari''"
    by code_simp+
  have h: "declares example_db ''materials''
       ([''category_id'', ''status'', ''created_at'']
        @ (if truthy (query_author page_2_request) then [''author''] else []))"
    "declares example_db ''materials'' [''category_id'', ''status'', ''created_at'']"
    "declares example_db ''materials'' [''author'', ''category_id'', ''status'', ''created_at'']"
    "declares example_db ''videos'' [''category_id'', ''status'', ''created_at'']"
    "declares example_db ''categories'' [''id'', ''name'']"
    by code_simp+
  have p: "map (\<lambda>r. json_member (body r) ''pagination'')
       [get_materials example_db page_2_request, get_videos example_db page_2_request,
        get_materials_by_category example_db page_2_request,
        get_materials_by_author example_db page_2_request,
        get_videos_by_category example_db page_2_request] =
     [Some (JObj [(''total'', JNum 2), (''page'', JNum 2), (''limit'', JNum 1), (''pages'', JNum 2)]),
      Some (JObj [(''total'', JNum 1), (''page'', JNum 2), (''limit'', JNum 1), (''pages'', JNum 1)]),
      Some (JObj [(''total'', JNum 2), (''page'', JNum 2), (''limit'', JNum 1), (''pages'', JNum 2)]),
      Some (JObj [(''total'', JNum 2), (''page'', JNum 2), (''limit'', JNum 1), (''pages'', JNum 2)]),
      Some (JObj [(''total'', JNum 1), (''page'', JNum 2), (''limit'', JNum 1), (''pages'', JNum 1)])]"
    by code_simp
  have a: "(1::int) \<le> 2" "(1::int) \<le> 1"
    by simp_all
  note t = paginated_listings [of page_2_request example_db, unfolded r]
  show ?thesis
    using t p by (simp only: a h simp_thms)
qed

text \<open>
  C1 as stated fails on the example database, for page 0 and for the limit 0. Page 0 makes
  the offset negative, which the server refuses: the answer is 500 and carries no
  pagination. For the limit 0 the quotient \<open>total / limit\<close> is not finite, and
  \<open>pages\<close> is \<open>null\<close>, not a ceiling.
\<close>

theorem paginated_listings_counterexample:
  "get_materials example_db (blank_request\<lparr>query_page := Some 0\<rparr>) =
     \<lparr>status_code = 500,
      body = JObj [(''success'', JBool False), (''error'', JStr ''Failed to fetch materials'')]\<rparr>
   \<and> get_materials example_db (blank_request\<lparr>query_limit := Some 0\<rparr>) =
     \<lparr>status_code = 200,
      body = JObj [(''success'', JBool True), (''data'', JArr []),
                   (''pagination'',
                      JObj [(''total'', JNum 2), (''page'', JNum 1), (''limit'', JNum 0),
                            (''pages'', JNull)])]\<rparr>
   \<and> get_videos_by_category example_db (blank_request\<lparr>query_limit := Some 0, params_categoryId := 1\<rparr>) =
     \<lparr>status_code = 200,
      body = JObj [(''success'', JBool True), (''data'', JArr []),
                   (''pagination'',
                      JObj [(''total'', JNum 1), (''page'', JNum 1), (''limit'', JNum 0),
                            (''pages'', JNull)])]\<rparr>"
  by code_simp

subsection \<open>Published rows only\<close>

lemma statuses_json_of [simp]: "statuses (json_of x) = []"
  by (cases x) simp_all

lemma statuses_joined_category_name [simp]: "statuses (joined_category_name d c) = []"
  by (simp add: joined_category_name_def split: option.splits)

lemma statuses_columns:
  "concat (map (\<lambda>kv. (if fst kv = ''status'' then [snd kv] else []) @ statuses (snd kv))
             (map (\<lambda>c. (c, json_of (f c))) cols))
   = replicate (length (filter (\<lambda>c. c = ''status'') cols)) (json_of (f ''status''))"
  by (induction cols) simp_all

lemma statuses_material_json:
  "statuses (JObj extra) = [] \<Longrightarrow> material_status m = Some published \<Longrightarrow>
   list_all (\<lambda>v. v = JStr ''published'') (statuses (material_json d extra m))"
  by (simp add: material_json_def statuses_columns material_col_def status_val_def list_all_iff)

lemma statuses_video_json:
  "statuses (JObj extra) = [] \<Longrightarrow> video_status m = Some published \<Longrightarrow>
   list_all (\<lambda>v. v = JStr ''published'') (statuses (video_json d extra m))"
  by (simp add: video_json_def statuses_columns video_col_def status_val_def list_all_iff)

lemma where_holds_lit:
  "where_holds r conds ps \<Longrightarrow> EqLit c v \<in> set conds \<Longrightarrow> sql_eq (r c) (BStr v)"
  by (induction conds arbitrary: ps) auto

lemma in_take_dropD: "x \<in> set (take n (drop k ys)) \<Longrightarrow> x \<in> set ys"
  by (meson in_set_takeD in_set_dropD)

lemma order_limit_subset:
  "order_limit created pg ps rows = Inr xs \<Longrightarrow> set xs \<subseteq> set rows"
  by (induction created pg ps rows rule: order_limit.induct)
     (auto split: if_splits dest: in_set_takeD in_take_dropD)

lemma select_rows_where:
  "select_rows d t cl created rows conds pg ps = Inr xs \<Longrightarrow> r \<in> set xs \<Longrightarrow>
   r \<in> set rows \<and> where_holds (cl r) conds ps"
  by (auto simp: select_rows_def split: if_splits option.splits dest!: order_limit_subset)

lemma select_materials_published:
  assumes "select_materials d conds pg ps = Inr xs" and "EqLit ''status'' ''published'' \<in> set conds"
    and "m \<in> set xs"
  shows "m \<in> set (materials d) \<and> material_status m = Some published"
proof -
  from assms(1,3) have "m \<in> set (materials d)" and w: "where_holds (material_col m) conds ps"
    unfolding select_materials_def by (auto dest: select_rows_where)
  moreover from where_holds_lit [OF w assms(2)] have "material_status m = Some published"
    by (simp add: material_col_def status_published_iff)
  ultimately show ?thesis by simp
qed

lemma select_videos_published:
  assumes "select_videos d conds pg ps = Inr xs" and "EqLit ''status'' ''published'' \<in> set conds"
    and "m \<in> set xs"
  shows "m \<in> set (videos d) \<and> video_status m = Some published"
proof -
  from assms(1,3) have "m \<in> set (videos d)" and w: "where_holds (video_col m) conds ps"
    unfolding select_videos_def by (auto dest: select_rows_where)
  moreover from where_holds_lit [OF w assms(2)] have "video_status m = Some published"
    by (simp add: video_col_def status_published_iff)
  ultimately show ?thesis by simp
qed

lemma shown_materials:
  assumes "select_materials d conds pg ps = Inr xs" and "EqLit ''status'' ''published'' \<in> set conds"
    and "statuses (JObj extra) = []"
  shows "list_all (\<lambda>s. s = JStr ''published'') (statuses (JArr (map (material_json d extra) xs)))"
  using select_materials_published [OF assms(1,2)] statuses_material_json [OF assms(3)]
  by (auto simp: list_all_iff)

lemma shown_videos:
  assumes "select_videos d conds pg ps = Inr xs" and "EqLit ''status'' ''published'' \<in> set conds"
    and "statuses (JObj extra) = []"
  shows "list_all (\<lambda>s. s = JStr ''published'') (statuses (JArr (map (video_json d extra) xs)))"
  using select_videos_published [OF assms(1,2)] statuses_video_json [OF assms(3)]
  by (auto simp: list_all_iff)

lemma failure_body: "body (failure n msg) = JObj [(''success'', JBool False), (''error'', JStr msg)]"
  by (simp add: failure_def res_status_json_def obj_def List.map_filter_simps)

lemma statuses_failure [simp]: "statuses (body (failure n msg)) = []"
  by (simp add: failure_body)

lemma statuses_category_json:
  "''status'' \<notin> set (star d ''categories'') \<Longrightarrow>
   concat (map (\<lambda>kv. (if fst kv = ''status'' then [snd kv] else []) @ statuses (snd kv)) (category_json d c)) = []"
  by (simp add: category_json_def statuses_columns filter_empty_conv)

lemma statuses_number_json [simp]: "statuses (number_json n) = []"
  by (cases n) simp_all

lemma get_materials_shown:
  "list_all (\<lambda>s. s = JStr ''published'') (statuses (body (get_materials d req)))"
proof -
  have lit: "EqLit ''status'' ''published'' \<in> set (query (materials_queries req))"
    by (simp add: materials_queries_def add_filter_def Let_def split: option.splits)
  show ?thesis
    by (auto simp: get_materials_def Let_def res_json_def obj_def List.map_filter_simps pagination_def
          split: sum.splits number.splits
          intro!: shown_materials [OF _ lit, simplified])
qed

lemmas shown_simps = Let_def res_json_def obj_def List.map_filter_simps pagination_def

lemma get_material_by_id_shown:
  "list_all (\<lambda>s. s = JStr ''published'') (statuses (body (get_material_by_id d req)))"
proof (cases "select_materials d [EqParam ''id'', EqLit ''status'' ''published''] Unpaged [BNum (params_id req)]")
  case (Inl e)
  then show ?thesis by (simp add: get_material_by_id_def)
next
  case (Inr rows)
  have "list_all (\<lambda>s. s = JStr ''published'') (statuses (JArr (map (material_json d []) rows)))"
    by (rule shown_materials [OF Inr]) simp_all
  then show ?thesis using Inr
    by (cases rows) (simp_all add: get_material_by_id_def shown_simps)
qed

lemma get_materials_by_category_shown:
  "list_all (\<lambda>s. s = JStr ''published'') (statuses (body (get_materials_by_category d req)))"
  by (auto simp: get_materials_by_category_def shown_simps split: sum.splits
        intro!: shown_materials [where conds = "[EqParam ''category_id'', EqLit ''status'' ''published'']", simplified])

lemma get_materials_by_author_shown:
  "list_all (\<lambda>s. s = JStr ''published'') (statuses (body (get_materials_by_author d req)))"
  by (auto simp: get_materials_by_author_def shown_simps split: sum.splits
        intro!: shown_materials [where conds = "[LikeParam ''author'', EqLit ''status'' ''published'']", simplified])

lemma get_videos_shown:
  "list_all (\<lambda>s. s = JStr ''published'') (statuses (body (get_videos d req)))"
proof -
  have lit: "EqLit ''status'' ''published'' \<in> set (query (videos_queries req))"
    by (simp add: videos_queries_def add_filter_def Let_def split: option.splits)
  show ?thesis
    by (auto simp: get_videos_def shown_simps split: sum.splits
          intro!: shown_videos [OF _ lit, simplified])
qed

lemma get_video_by_id_shown:
  "list_all (\<lambda>s. s = JStr ''published'') (statuses (body (get_video_by_id d req)))"
proof (cases "select_videos d [EqParam ''id'', EqLit ''status'' ''published''] Unpaged [BNum (params_id req)]")
  case (Inl e)
  then show ?thesis by (simp add: get_video_by_id_def)
next
  case (Inr rows)
  have "list_all (\<lambda>s. s = JStr ''published'') (statuses (JArr (map (video_json d []) rows)))"
    by (rule shown_videos [OF Inr]) simp_all
  then show ?thesis using Inr
    by (cases rows) (simp_all add: get_video_by_id_def shown_simps)
qed

lemma get_videos_by_category_shown:
  "list_all (\<lambda>s. s = JStr ''published'') (statuses (body (get_videos_by_category d req)))"
  by (auto simp: get_videos_by_category_def shown_simps split: sum.splits
        intro!: shown_videos [where conds = "[EqParam ''category_id'', EqLit ''status'' ''published'']", simplified])

lemma get_latest_shown:
  "list_all (\<lambda>s. s = JStr ''published'') (statuses (body (get_latest d req)))"
  by (auto simp: get_latest_def shown_simps split: sum.splits
        intro!: shown_materials [where conds = "[EqLit ''status'' ''published'']", simplified]
                shown_videos [where conds = "[EqLit ''status'' ''published'']", simplified])

lemma search_shown:
  "list_all (\<lambda>s. s = JStr ''published'') (statuses (body (search d req)))"
proof (cases "truthy (query_q req)")
  case False
  then show ?thesis by (simp add: search_def)
next
  case True
  define cc where "cc = (case query_category req of Some category \<Rightarrow> [EqParam ''category_id''] | None \<Rightarrow> [])"
  define cp where "cp = (case query_category req of Some category \<Rightarrow> [BNum category] | None \<Rightarrow> [])"
  define pat where "pat = ''%'' @ the (query_q req) @ ''%''"
  define tail where "tail = [BNum (limit_of req), BNum ((page_of req - 1) * limit_of req)]"
  define F where "F = (if \<not> truthy (query_type req) \<or> query_type req = Some ''materials'' then
                  select_materials d
                    ([EqLit ''status'' ''published'', LikeAny [''title'', ''content'', ''author'']] @ cc)
                    OrderLimitOffset ([BStr pat, BStr pat, BStr pat] @ cp @ tail)
                else Inr [])"
  define G where "G = (if \<not> truthy (query_type req) \<or> query_type req = Some ''videos'' then
                  select_videos d
                    ([EqLit ''status'' ''published'', LikeAny [''title'', ''description'']] @ cc)
                    OrderLimitOffset ([BStr pat, BStr pat] @ cp @ tail)
                else Inr [])"
  have s: "search d req =
      (case F of
         Inl e \<Rightarrow> failure 500 ''Search failed''
       | Inr ms \<Rightarrow>
           (case G of
              Inl e \<Rightarrow> failure 500 ''Search failed''
            | Inr vs \<Rightarrow>
                res_json (obj
                  [(''success'', Some (JBool True)),
                   (''data'', Some (obj
                      [(''materials'',
                          Some (JArr (map (material_json d [(''content_type'', JStr ''material'')]) ms))),
                       (''videos'',
                          Some (JArr (map (video_json d [(''content_type'', JStr ''video'')]) vs)))])),
                   (''query'', Some (JStr (the (query_q req)))),
                   (''pagination'', Some (obj [(''page'', Some (JNum (page_of req))),
                                               (''limit'', Some (JNum (limit_of req)))]))])))"
    using True unfolding search_def Let_def F_def G_def cc_def cp_def pat_def tail_def
    by (simp only: not_True_eq_False if_False simp_thms)
  have fm: "list_all (\<lambda>s. s = JStr ''published'')
              (statuses (JArr (map (material_json d [(''content_type'', JStr ''material'')]) ms)))"
    if "F = Inr ms" for ms
  proof (cases "\<not> truthy (query_type req) \<or> query_type req = Some ''materials''")
    case True
    with that have sel: "select_materials d
                    ([EqLit ''status'' ''published'', LikeAny [''title'', ''content'', ''author'']] @ cc)
                    OrderLimitOffset ([BStr pat, BStr pat, BStr pat] @ cp @ tail) = Inr ms"
      unfolding F_def by simp
    show ?thesis by (rule shown_materials [OF sel]) simp_all
  next
    case False
    with that show ?thesis unfolding F_def by auto
  qed
  have gv: "list_all (\<lambda>s. s = JStr ''published'')
              (statuses (JArr (map (video_json d [(''content_type'', JStr ''video'')]) vs)))"
    if "G = Inr vs" for vs
  proof (cases "\<not> truthy (query_type req) \<or> query_type req = Some ''videos''")
    case True
    with that have sel: "select_videos d
                    ([EqLit ''status'' ''published'', LikeAny [''title'', ''description'']] @ cc)
                    OrderLimitOffset ([BStr pat, BStr pat] @ cp @ tail) = Inr vs"
      unfolding G_def by simp
    show ?thesis by (rule shown_videos [OF sel]) simp_all
  next
    case False
    with that show ?thesis unfolding G_def by auto
  qed
  show ?thesis
  proof (cases F)
    case (Inl e)
    then show ?thesis by (simp add: s)
  next
    case ms: (Inr ms)
    show ?thesis
    proof (cases G)
      case (Inl e)
      then show ?thesis by (simp add: s ms)
    next
      case vs: (Inr vs)
      from fm [OF ms] gv [OF vs] show ?thesis
        by (simp add: s ms vs res_json_def obj_def List.map_filter_simps)
    qed
  qed
qed

lemma get_authors_shown:
  "list_all (\<lambda>s. s = JStr ''published'') (statuses (body (get_authors d req)))"
  by (auto simp: get_authors_def select_authors_def shown_simps list_all_iff
        split: sum.splits option.splits)

lemma get_categories_shown:
  "''status'' \<notin> set (star d ''categories'') \<Longrightarrow>
   list_all (\<lambda>s. s = JStr ''published'') (statuses (body (get_categories d req)))"
  by (auto simp: get_categories_def select_categories_counted_def shown_simps list_all_iff
        statuses_category_json split: sum.splits option.splits)

lemma get_category_by_id_shown:
  "''status'' \<notin> set (star d ''categories'') \<Longrightarrow>
   list_all (\<lambda>s. s = JStr ''published'') (statuses (body (get_category_by_id d req)))"
proof (cases "select_category d (params_id req)")
  case (Inl e)
  then show ?thesis by (simp add: get_category_by_id_def)
next
  case (Inr cats)
  assume "''status'' \<notin> set (star d ''categories'')"
  with Inr have "\<forall>c \<in> set cats. statuses c = []"
    by (auto simp: select_category_def statuses_category_json split: option.splits)
  then show ?thesis using Inr
    by (cases cats) (simp_all add: get_category_by_id_def shown_simps)
qed

lemma by_id_where_material:
  "where_holds (material_col m) [EqParam ''id'', EqLit ''status'' ''published''] [BNum i]
   = (material_id m = i \<and> material_status m = Some published)"
  by (simp add: material_col_def status_published_iff)

lemma by_id_where_video:
  "where_holds (video_col v) [EqParam ''id'', EqLit ''status'' ''published''] [BNum i]
   = (video_id v = i \<and> video_status v = Some published)"
  by (simp add: video_col_def status_published_iff)

lemma column_names_published_part:
  "column_names (published_part d) t = column_names d t"
  by (simp add: column_names_def published_part_def)

lemma schema_error_published_part:
  "schema_error (published_part d) cs = schema_error d cs"
  by (induction cs) (auto simp: column_names_published_part split: option.splits)

lemma categories_published_part: "categories (published_part d) = categories d"
  by (simp add: published_part_def)

lemma materials_published_part: "materials (published_part d) = published_materials d"
  by (simp add: published_part_def)

lemma videos_published_part: "videos (published_part d) = published_videos d"
  by (simp add: published_part_def)

lemma material_json_published_part:
  "material_json (published_part d) = material_json d"
  by (intro ext)
     (simp add: material_json_def star_def joined_category_name_def column_names_published_part
        categories_published_part cong: option.case_cong)

lemma video_json_published_part:
  "video_json (published_part d) = video_json d"
  by (intro ext)
     (simp add: video_json_def star_def joined_category_name_def column_names_published_part
        categories_published_part cong: option.case_cong)

lemma category_json_published_part:
  "category_json (published_part d) = category_json d"
  by (intro ext) (simp add: category_json_def star_def column_names_published_part)

lemmas published_part_simps =
  column_names_published_part schema_error_published_part categories_published_part
  materials_published_part videos_published_part material_json_published_part
  video_json_published_part category_json_published_part

lemma where_holds_published_material:
  "where_holds (material_col m) conds ps \<Longrightarrow> EqLit ''status'' ''published'' \<in> set conds \<Longrightarrow>
   material_status m = Some published"
  by (drule (1) where_holds_lit) (simp add: material_col_def status_published_iff)

lemma where_holds_published_video:
  "where_holds (video_col v) conds ps \<Longrightarrow> EqLit ''status'' ''published'' \<in> set conds \<Longrightarrow>
   video_status v = Some published"
  by (drule (1) where_holds_lit) (simp add: video_col_def status_published_iff)

lemma filter_published_materials:
  "(\<And>m. P m \<Longrightarrow> material_status m = Some published) \<Longrightarrow>
   filter P (published_materials d) = filter P (materials d)"
  unfolding published_materials_def filter_filter by (rule filter_cong) auto

lemma filter_published_videos:
  "(\<And>v. P v \<Longrightarrow> video_status v = Some published) \<Longrightarrow>
   filter P (published_videos d) = filter P (videos d)"
  unfolding published_videos_def filter_filter by (rule filter_cong) auto

lemma select_materials_published_part:
  assumes "EqLit ''status'' ''published'' \<in> set conds"
  shows "select_materials (published_part d) conds pg ps = select_materials d conds pg ps"
proof -
  have "filter (\<lambda>r. where_holds (material_col r) conds ps) (published_materials d)
        = filter (\<lambda>r. where_holds (material_col r) conds ps) (materials d)"
    by (rule filter_published_materials)
       (rule where_holds_published_material [OF _ assms])
  then show ?thesis
    by (simp add: select_materials_def select_rows_def
          published_part_simps cong: option.case_cong del: schema_error.simps)
qed

lemma count_materials_published_part:
  assumes "EqLit ''status'' ''published'' \<in> set conds"
  shows "count_materials (published_part d) conds ps = count_materials d conds ps"
proof -
  have "filter (\<lambda>r. where_holds (material_col r) conds ps) (published_materials d)
        = filter (\<lambda>r. where_holds (material_col r) conds ps) (materials d)"
    by (rule filter_published_materials)
       (rule where_holds_published_material [OF _ assms])
  then show ?thesis
    by (simp add: count_materials_def count_rows_def
          published_part_simps cong: option.case_cong del: schema_error.simps)
qed

lemma select_videos_published_part:
  assumes "EqLit ''status'' ''published'' \<in> set conds"
  shows "select_videos (published_part d) conds pg ps = select_videos d conds pg ps"
proof -
  have "filter (\<lambda>r. where_holds (video_col r) conds ps) (published_videos d)
        = filter (\<lambda>r. where_holds (video_col r) conds ps) (videos d)"
    by (rule filter_published_videos)
       (rule where_holds_published_video [OF _ assms])
  then show ?thesis
    by (simp add: select_videos_def select_rows_def
          published_part_simps cong: option.case_cong del: schema_error.simps)
qed

lemma count_videos_published_part:
  assumes "EqLit ''status'' ''published'' \<in> set conds"
  shows "count_videos (published_part d) conds ps = count_videos d conds ps"
proof -
  have "filter (\<lambda>r. where_holds (video_col r) conds ps) (published_videos d)
        = filter (\<lambda>r. where_holds (video_col r) conds ps) (videos d)"
    by (rule filter_published_videos)
       (rule where_holds_published_video [OF _ assms])
  then show ?thesis
    by (simp add: count_videos_def count_rows_def
          published_part_simps cong: option.case_cong del: schema_error.simps)
qed

lemmas published_part_statements =
  select_materials_published_part count_materials_published_part
  select_videos_published_part count_videos_published_part

lemma select_authors_published_part:
  "select_authors (published_part d) = select_authors d"
proof -
  have "filter (\<lambda>m. (case material_author m of
                        None \<Rightarrow> False
                      | Some a \<Rightarrow> \<not> str_eq a [] \<and> material_status m = Some published))
          (published_materials d)
        = filter (\<lambda>m. (case material_author m of
                        None \<Rightarrow> False
                      | Some a \<Rightarrow> \<not> str_eq a [] \<and> material_status m = Some published))
          (materials d)"
    by (rule filter_published_materials) (auto split: option.splits)
  then show ?thesis
    by (simp add: select_authors_def
          published_part_simps cong: option.case_cong del: schema_error.simps)
qed

lemma select_categories_counted_published_part:
  "select_categories_counted (published_part d) = select_categories_counted d"
proof -
  have m: "filter (\<lambda>m. material_category_id m = Some i \<and> material_status m = Some published)
             (published_materials d)
           = filter (\<lambda>m. material_category_id m = Some i \<and> material_status m = Some published)
             (materials d)" for i
    by (rule filter_published_materials) simp
  have v: "filter (\<lambda>v. video_category_id v = Some i \<and> video_status v = Some published)
             (published_videos d)
           = filter (\<lambda>v. video_category_id v = Some i \<and> video_status v = Some published)
             (videos d)" for i
    by (rule filter_published_videos) simp
  show ?thesis
    by (simp add: select_categories_counted_def
          published_part_simps m v cong: option.case_cong del: schema_error.simps)
qed

lemma select_category_published_part:
  "select_category (published_part d) i = select_category d i"
  by (simp add: select_category_def
        published_part_simps cong: option.case_cong del: schema_error.simps)

lemma materials_queries_lit:
  "EqLit ''status'' ''published'' \<in> set (query (materials_queries req))"
  "EqLit ''status'' ''published'' \<in> set (countQuery (materials_queries req))"
  by (simp_all add: materials_queries_def add_filter_def Let_def split: option.splits)

lemma videos_queries_lit:
  "EqLit ''status'' ''published'' \<in> set (query (videos_queries req))"
  "EqLit ''status'' ''published'' \<in> set (countQuery (videos_queries req))"
  by (simp_all add: videos_queries_def add_filter_def Let_def split: option.splits)

lemma public_api_published_part:
  "public_api e (published_part d) req = public_api e d req"
proof (cases e)
  case Categories
  then show ?thesis
    by (simp add: get_categories_def select_categories_counted_published_part
          published_part_simps Let_def cong: sum.case_cong if_cong)
next
  case CategoryById
  then show ?thesis
    by (simp add: get_category_by_id_def select_category_published_part
          published_part_simps Let_def cong: sum.case_cong if_cong)
next
  case Materials
  then show ?thesis
    by (simp add: get_materials_def published_part_statements materials_queries_lit
          published_part_simps Let_def cong: sum.case_cong)
next
  case MaterialById
  then show ?thesis
    by (simp add: get_material_by_id_def published_part_statements
          published_part_simps Let_def cong: sum.case_cong if_cong)
next
  case MaterialsByCategory
  then show ?thesis
    by (simp add: get_materials_by_category_def published_part_statements
          published_part_simps Let_def cong: sum.case_cong if_cong)
next
  case MaterialsByAuthor
  then show ?thesis
    by (simp add: get_materials_by_author_def published_part_statements
          published_part_simps Let_def cong: sum.case_cong if_cong)
next
  case Authors
  then show ?thesis
    by (simp add: get_authors_def select_authors_published_part
          published_part_simps Let_def cong: sum.case_cong if_cong)
next
  case Videos
  then show ?thesis
    by (simp add: get_videos_def published_part_statements videos_queries_lit
          published_part_simps Let_def cong: sum.case_cong)
next
  case VideoById
  then show ?thesis
    by (simp add: get_video_by_id_def published_part_statements
          published_part_simps Let_def cong: sum.case_cong if_cong)
next
  case VideosByCategory
  then show ?thesis
    by (simp add: get_videos_by_category_def published_part_statements
          published_part_simps Let_def cong: sum.case_cong if_cong)
next
  case Search
  then show ?thesis
    by (simp add: search_def published_part_statements
          published_part_simps Let_def cong: sum.case_cong if_cong)
next
  case Latest
  then show ?thesis
    by (simp add: get_latest_def published_part_statements
          published_part_simps Let_def cong: sum.case_cong if_cong)
qed



lemma group_keys_subset: "set (group_keys xs) \<subseteq> set xs"
  by (induction xs rule: group_keys.induct) auto

lemma str_eq_Nil: "str_eq a [] = (a = [])"
  by (simp add: str_eq_def)

lemma str_eq_nonempty: "str_eq b a \<Longrightarrow> a \<noteq> [] \<Longrightarrow> b \<noteq> []"
  by (auto simp: str_eq_def)

lemma select_authors_shown:
  assumes "select_authors d = Inr authors" and "j \<in> set authors"
  shows "\<exists>m \<in> set (published_materials d). \<exists>a.
           material_author m = Some a \<and> a \<noteq> []
           \<and> j = JObj [(''author'', JStr a),
                       (''material_count'',
                          JNum (int (length (filter
                            (\<lambda>m'. case material_author m' of None \<Rightarrow> False | Some b \<Rightarrow> str_eq b a)
                            (published_materials d))))),
                       (''latest_material'',
                          JNum (int (foldr max (map material_created_at (filter
                            (\<lambda>m'. case material_author m' of None \<Rightarrow> False | Some b \<Rightarrow> str_eq b a)
                            (published_materials d))) 0)))]"
proof -
  define P where "P = (\<lambda>m :: material_row. case material_author m of
                              None \<Rightarrow> False
                            | Some a \<Rightarrow> \<not> str_eq a [] \<and> material_status m = Some published)"
  define rows where "rows = filter P (materials d)"
  define groups where "groups = map (\<lambda>a. (a, filter (\<lambda>m. str_eq (the (material_author m)) a) rows))
                          (group_keys (map (\<lambda>m. the (material_author m)) rows))"
  define shown where "shown = (\<lambda>(a, ms :: material_row list). JObj [(''author'', JStr a),
                                         (''material_count'', JNum (int (length ms))),
                                         (''latest_material'',
                                            JNum (int (foldr max (map material_created_at ms) 0)))])"
  from assms(1) have "authors = map shown (sort_key (\<lambda>(a, ms). - int (length ms))
                       (sort_key (\<lambda>(a, ms). map lower a) groups))"
    unfolding select_authors_def Let_def P_def [symmetric] rows_def [symmetric]
      groups_def [symmetric] shown_def [symmetric]
    by (auto split: option.splits)
  with assms(2) obtain g where g: "g \<in> set groups" and j: "j = shown g"
    by auto
  from g obtain a where a: "a \<in> set (group_keys (map (\<lambda>m. the (material_author m)) rows))"
    and ga: "g = (a, filter (\<lambda>m. str_eq (the (material_author m)) a) rows)"
    unfolding groups_def by auto
  from a group_keys_subset obtain m where m: "m \<in> set rows" and am: "a = the (material_author m)"
    by fastforce
  from m have Pm: "P m" and md: "m \<in> set (materials d)" by (simp_all add: rows_def)
  from Pm am have au: "material_author m = Some a" and ne: "a \<noteq> []"
    and pub: "material_status m = Some published"
    by (auto simp: P_def str_eq_Nil split: option.splits)
  have ms: "filter (\<lambda>m. str_eq (the (material_author m)) a) rows
        = filter (\<lambda>m'. case material_author m' of None \<Rightarrow> False | Some b \<Rightarrow> str_eq b a)
            (published_materials d)"
    unfolding rows_def published_materials_def filter_filter
    by (rule filter_cong) (auto simp: P_def str_eq_Nil split: option.splits dest: str_eq_nonempty [OF _ ne])
  from md pub have "m \<in> set (published_materials d)" by (simp add: published_materials_def)
  moreover have "j = JObj [(''author'', JStr a),
                       (''material_count'',
                          JNum (int (length (filter
                            (\<lambda>m'. case material_author m' of None \<Rightarrow> False | Some b \<Rightarrow> str_eq b a)
                            (published_materials d))))),
                       (''latest_material'',
                          JNum (int (foldr max (map material_created_at (filter
                            (\<lambda>m'. case material_author m' of None \<Rightarrow> False | Some b \<Rightarrow> str_eq b a)
                            (published_materials d))) 0)))]"
    unfolding j ga shown_def ms by simp
  ultimately show ?thesis using au ne by blast
qed

lemma get_authors_data:
  "json_member (body (get_authors d req)) ''data'' = Some (JArr authors) \<Longrightarrow> select_authors d = Inr authors"
  by (cases "select_authors d")
     (simp_all add: get_authors_def failure_def res_status_json_def res_json_def obj_def
        List.map_filter_simps)


lemma get_categories_data:
  assumes "json_member (body (get_categories d req)) ''data'' = Some (JArr cats)"
  shows "cats =
     map (\<lambda>c. JObj (category_json d c @
            [(''material_count'',
                JNum (int (length (remdups (map material_id
                  (filter (\<lambda>m. material_category_id m = Some (category_id c))
                     (published_materials d))))))),
             (''video_count'',
                JNum (int (length (remdups (map video_id
                  (filter (\<lambda>v. video_category_id v = Some (category_id c))
                     (published_videos d)))))))]))
       (sort_key (\<lambda>c. map lower (category_name c)) (categories d))"
proof (cases "select_categories_counted d")
  case (Inl e)
  with assms show ?thesis
    by (simp add: get_categories_def failure_def res_status_json_def obj_def List.map_filter_simps)
next
  case (Inr xs)
  with assms have "cats = xs"
    by (simp add: get_categories_def res_json_def obj_def List.map_filter_simps)
  with Inr show ?thesis
    by (auto simp: select_categories_counted_def published_materials_def published_videos_def
          conj_commute split: option.splits)
qed

text \<open>
  C2. In the answer of every public list or detail route, on every database, every object
  that carries a \<open>status\<close> carries \<open>published\<close>: no draft row and no row without a status
  is shown (the category routes show category rows, which have no status column unless the
  table was declared with one). When no published material (video) has the requested
  id, whether the id is absent or its row is not published, GET /materials/:id
  (GET /videos/:id) answers 404 with \<open>{success: false, error}\<close>, provided the store
  executes the statement. No route's answer depends on a row that is not published: it is
  the answer the route gives on the database without those rows. And the two routes that
  show aggregates of rows show aggregates of published rows: every author GET /authors
  lists is the author of a published material, with the number and the latest creation
  time of the published materials of that author (letter case ignored); and the counts
  GET /categories gives for a category are the numbers of distinct published materials
  and of distinct published videos of that category.
\<close>

theorem published_only:
  "((e = Categories \<or> e = CategoryById \<longrightarrow> ''status'' \<notin> set (star d ''categories'')) \<longrightarrow>
      list_all (\<lambda>s. s = JStr ''published'') (statuses (body (public_api e d req))))
   \<and> (schema_error d [(''materials'', [''category_id'', ''id'', ''status'']),
                       (''categories'', [''id'', ''name''])] = None
       \<and> filter (\<lambda>m. material_id m = params_id req \<and> material_status m = Some published) (materials d) = [] \<longrightarrow>
      get_material_by_id d req =
        \<lparr>status_code = 404,
         body = JObj [(''success'', JBool False), (''error'', JStr ''Material not found'')]\<rparr>)
   \<and> (schema_error d [(''videos'', [''category_id'', ''id'', ''status'']),
                       (''categories'', [''id'', ''name''])] = None
       \<and> filter (\<lambda>v. video_id v = params_id req \<and> video_status v = Some published) (videos d) = [] \<longrightarrow>
      get_video_by_id d req =
        \<lparr>status_code = 404,
         body = JObj [(''success'', JBool False), (''error'', JStr ''Video not found'')]\<rparr>)
   \<and> public_api e d req = public_api e (published_part d) req
   \<and> (json_member (body (get_authors d req)) ''data'' = Some (JArr authors) \<and> j \<in> set authors \<longrightarrow>
       (\<exists>m \<in> set (published_materials d). \<exists>a.
           material_author m = Some a \<and> a \<noteq> []
           \<and> j = JObj [(''author'', JStr a),
                       (''material_count'',
                          JNum (int (length (filter
                            (\<lambda>m'. case material_author m' of None \<Rightarrow> False | Some b \<Rightarrow> str_eq b a)
                            (published_materials d))))),
                       (''latest_material'',
                          JNum (int (foldr max (map material_created_at (filter
                            (\<lambda>m'. case material_author m' of None \<Rightarrow> False | Some b \<Rightarrow> str_eq b a)
                            (published_materials d))) 0)))]))
   \<and> (json_member (body (get_categories d req)) ''data'' = Some (JArr cats) \<longrightarrow>
       cats =
         map (\<lambda>c. JObj (category_json d c @
                [(''material_count'',
                    JNum (int (length (remdups (map material_id
                      (filter (\<lambda>m. material_category_id m = Some (category_id c))
                         (published_materials d))))))),
                 (''video_count'',
                    JNum (int (length (remdups (map video_id
                      (filter (\<lambda>v. video_category_id v = Some (category_id c))
                         (published_videos d)))))))]))
           (sort_key (\<lambda>c. map lower (category_name c)) (categories d)))"
proof (intro conjI impI)
  assume "e = Categories \<or> e = CategoryById \<longrightarrow> ''status'' \<notin> set (star d ''categories'')"
  then show "list_all (\<lambda>s. s = JStr ''published'') (statuses (body (public_api e d req)))"
    by (cases e)
       (simp_all add: get_categories_shown get_category_by_id_shown get_materials_shown
          get_material_by_id_shown get_materials_by_category_shown get_materials_by_author_shown
          get_authors_shown get_videos_shown get_video_by_id_shown get_videos_by_category_shown
          search_shown get_latest_shown)
next
  assume "schema_error d [(''materials'', [''category_id'', ''id'', ''status'']),
                       (''categories'', [''id'', ''name''])] = None
       \<and> filter (\<lambda>m. material_id m = params_id req \<and> material_status m = Some published) (materials d) = []"
  then show "get_material_by_id d req =
        \<lparr>status_code = 404,
         body = JObj [(''success'', JBool False), (''error'', JStr ''Material not found'')]\<rparr>"
    by (simp add: get_material_by_id_def select_materials_def select_rows_def by_id_where_material
          failure_def res_status_json_def obj_def List.map_filter_simps
          del: schema_error.simps where_holds.simps)
next
  assume "schema_error d [(''videos'', [''category_id'', ''id'', ''status'']),
                       (''categories'', [''id'', ''name''])] = None
       \<and> filter (\<lambda>v. video_id v = params_id req \<and> video_status v = Some published) (videos d) = []"
  then show "get_video_by_id d req =
        \<lparr>status_code = 404,
         body = JObj [(''success'', JBool False), (''error'', JStr ''Video not found'')]\<rparr>"
    by (simp add: get_video_by_id_def select_videos_def select_rows_def by_id_where_video
          failure_def res_status_json_def obj_def List.map_filter_simps
          del: schema_error.simps where_holds.simps)
next
  show "public_api e d req = public_api e (published_part d) req"
    by (simp add: public_api_published_part)
next
  assume "json_member (body (get_authors d req)) ''data'' = Some (JArr authors) \<and> j \<in> set authors"
  then have "select_authors d = Inr authors" and "j \<in> set authors"
    by (auto dest: get_authors_data)
  then show "\<exists>m \<in> set (published_materials d). \<exists>a.
           material_author m = Some a \<and> a \<noteq> []
           \<and> j = JObj [(''author'', JStr a),
                       (''material_count'',
                          JNum (int (length (filter
                            (\<lambda>m'. case material_author m' of None \<Rightarrow> False | Some b \<Rightarrow> str_eq b a)
                            (published_materials d))))),
                       (''latest_material'',
                          JNum (int (foldr max (map material_created_at (filter
                            (\<lambda>m'. case material_author m' of None \<Rightarrow> False | Some b \<Rightarrow> str_eq b a)
                            (published_materials d))) 0)))]"
    by (rule select_authors_shown)
next
  assume "json_member (body (get_categories d req)) ''data'' = Some (JArr cats)"
  then show "cats =
         map (\<lambda>c. JObj (category_json d c @
                [(''material_count'',
                    JNum (int (length (remdups (map material_id
                      (filter (\<lambda>m. material_category_id m = Some (category_id c))
                         (published_materials d))))))),
                 (''video_count'',
                    JNum (int (length (remdups (map video_id
                      (filter (\<lambda>v. video_category_id v = Some (category_id c))
                         (published_videos d)))))))]))
           (sort_key (\<lambda>c. map lower (category_name c)) (categories d))"
    by (rule get_categories_data)
qed

theorem published_only_witness:
  "list_all (\<lambda>s. s = JStr ''published'')
     (statuses (body (public_api Categories example_db blank_request)))
   \<and> list_all (\<lambda>s. s = JStr ''published'')
     (statuses (body (public_api Search example_db (blank_request\<lparr>query_q := Some ''a''\<rparr>))))
   \<and> statuses (body (public_api Search example_db (blank_request\<lparr>query_q := Some ''a''\<rparr>)))
       = [JStr ''published'', JStr ''published'']
   \<and> get_material_by_id example_db (blank_request\<lparr>params_id := 2\<rparr>) =
        \<lparr>status_code = 404,
         body = JObj [(''success'', JBool False), (''error'', JStr ''Material not found'')]\<rparr>
   \<and> get_video_by_id example_db (blank_request\<lparr>params_id := 7\<rparr>) =
        \<lparr>status_code = 404,
         body = JObj [(''success'', JBool False), (''error'', JStr ''Video not found'')]\<rparr>
   \<and> public_api Authors draft_author_db blank_request =
        public_api Authors (published_part draft_author_db) blank_request
   \<and> body (get_authors draft_author_db blank_request) =
        JObj [(''success'', JBool True),
              (''data'', JArr [JObj [(''author'', JStr ''Dr. Sari''), (''material_count'', JNum 2),
                                     (''latest_material'', JNum 220)]])]
   \<and> (\<exists>m \<in> set (published_materials draft_author_db). \<exists>a.
         material_author m = Some a \<and> a \<noteq> []
         \<and> JObj [(''author'', JStr ''Dr. Sari''), (''material_count'', JNum 2),
                 (''latest_material'', JNum 220)]
           = JObj [(''author'', JStr a),
                   (''material_count'',
                      JNum (int (length (filter
                        (\<lambda>m'. case material_author m' of None \<Rightarrow> False | Some b \<Rightarrow> str_eq b a)
                        (published_materials draft_author_db))))),
                   (''latest_material'',
                      JNum (int (foldr max (map material_created_at (filter
                        (\<lambda>m'. case material_author m' of None \<Rightarrow> False | Some b \<Rightarrow> str_eq b a)
                        (published_materials draft_author_db))) 0)))])
   \<and> json_member (body (get_categories draft_author_db blank_request)) ''data'' =
        Some (JArr
          (map (\<lambda>c. JObj (category_json draft_author_db c @
                  [(''material_count'',
                      JNum (int (length (remdups (map material_id
                        (filter (\<lambda>m. material_category_id m = Some (category_id c))
                           (published_materials draft_author_db))))))),
                   (''video_count'',
                      JNum (int (length (remdups (map video_id
                        (filter (\<lambda>v. video_category_id v = Some (category_id c))
                           (published_videos draft_author_db)))))))]))
             (sort_key (\<lambda>c. map lower (category_name c)) (categories draft_author_db))))
   \<and> json_member (body (get_categories draft_author_db blank_request)) ''data'' =
        Some (JArr [JObj [(''id'', JNum 1), (''name'', JStr ''Screening''), (''description'', JNull),
                          (''created_at'', JNum 100), (''updated_at'', JNum 100),
                          (''material_count'', JNum 2), (''video_count'', JNum 1)]])"
proof -
  have c: "''status'' \<notin> set (star example_db ''categories'')"
    by code_simp
  have m: "schema_error example_db [(''materials'', [''category_id'', ''id'', ''status'']),
                       (''categories'', [''id'', ''name''])] = None
       \<and> filter (\<lambda>m. material_id m = params_id (blank_request\<lparr>params_id := 2\<rparr>)
                      \<and> material_status m = Some published) (materials example_db) = []"
    by code_simp
  have v: "schema_error example_db [(''videos'', [''category_id'', ''id'', ''status'']),
                       (''categories'', [''id'', ''name''])] = None
       \<and> filter (\<lambda>v. video_id v = params_id (blank_request\<lparr>params_id := 7\<rparr>)
                      \<and> video_status v = Some published) (videos example_db) = []"
    by code_simp
  have s: "statuses (body (public_api Search example_db (blank_request\<lparr>query_q := Some ''a''\<rparr>)))
       = [JStr ''published'', JStr ''published'']"
    by code_simp
  have b: "body (get_authors draft_author_db blank_request) =
        JObj [(''success'', JBool True),
              (''data'', JArr [JObj [(''author'', JStr ''Dr. Sari''), (''material_count'', JNum 2),
                                     (''latest_material'', JNum 220)]])]"
    by code_simp
  have a: "json_member (body (get_authors draft_author_db blank_request)) ''data'' =
             Some (JArr [JObj [(''author'', JStr ''Dr. Sari''), (''material_count'', JNum 2),
                               (''latest_material'', JNum 220)]])
           \<and> JObj [(''author'', JStr ''Dr. Sari''), (''material_count'', JNum 2),
                               (''latest_material'', JNum 220)]
             \<in> set [JObj [(''author'', JStr ''Dr. Sari''), (''material_count'', JNum 2),
                               (''latest_material'', JNum 220)]]"
    by (simp add: b)
  have g: "json_member (body (get_categories draft_author_db blank_request)) ''data'' =
        Some (JArr [JObj [(''id'', JNum 1), (''name'', JStr ''Screening''), (''description'', JNull),
                          (''created_at'', JNum 100), (''updated_at'', JNum 100),
                          (''material_count'', JNum 2), (''video_count'', JNum 1)]])"
    by code_simp
  have 1: "list_all (\<lambda>s. s = JStr ''published'')
             (statuses (body (public_api Categories example_db blank_request)))"
    using published_only [where e = Categories and d = example_db and req = blank_request,
        THEN conjunct1] c
    by simp
  have 2: "list_all (\<lambda>s. s = JStr ''published'')
             (statuses (body (public_api Search example_db (blank_request\<lparr>query_q := Some ''a''\<rparr>))))"
    using published_only [where e = Search and d = example_db
        and req = "blank_request\<lparr>query_q := Some ''a''\<rparr>", THEN conjunct1]
    by simp
  have 3: "get_material_by_id example_db (blank_request\<lparr>params_id := 2\<rparr>) =
        \<lparr>status_code = 404,
         body = JObj [(''success'', JBool False), (''error'', JStr ''Material not found'')]\<rparr>"
    using published_only [where d = example_db and req = "blank_request\<lparr>params_id := 2\<rparr>",
        THEN conjunct2, THEN conjunct1] m
    by (simp only: simp_thms)
  have 4: "get_video_by_id example_db (blank_request\<lparr>params_id := 7\<rparr>) =
        \<lparr>status_code = 404,
         body = JObj [(''success'', JBool False), (''error'', JStr ''Video not found'')]\<rparr>"
    using published_only [where d = example_db and req = "blank_request\<lparr>params_id := 7\<rparr>",
        THEN conjunct2, THEN conjunct2, THEN conjunct1] v
    by (simp only: simp_thms)
  note rest = published_only [where e = Authors and d = draft_author_db and req = blank_request
        and authors = "[JObj [(''author'', JStr ''Dr. Sari''), (''material_count'', JNum 2),
                               (''latest_material'', JNum 220)]]"
        and j = "JObj [(''author'', JStr ''Dr. Sari''), (''material_count'', JNum 2),
                               (''latest_material'', JNum 220)]"
        and cats = "[JObj [(''id'', JNum 1), (''name'', JStr ''Screening''), (''description'', JNull),
                          (''created_at'', JNum 100), (''updated_at'', JNum 100),
                          (''material_count'', JNum 2), (''video_count'', JNum 1)]]",
        THEN conjunct2, THEN conjunct2, THEN conjunct2]
  have 5: "public_api Authors draft_author_db blank_request =
        public_api Authors (published_part draft_author_db) blank_request"
    by (rule rest [THEN conjunct1])
  have 6: "\<exists>m \<in> set (published_materials draft_author_db). \<exists>a.
         material_author m = Some a \<and> a \<noteq> []
         \<and> JObj [(''author'', JStr ''Dr. Sari''), (''material_count'', JNum 2),
                 (''latest_material'', JNum 220)]
           = JObj [(''author'', JStr a),
                   (''material_count'',
                      JNum (int (length (filter
                        (\<lambda>m'. case material_author m' of None \<Rightarrow> False | Some b \<Rightarrow> str_eq b a)
                        (published_materials draft_author_db))))),
                   (''latest_material'',
                      JNum (int (foldr max (map material_created_at (filter
                        (\<lambda>m'. case material_author m' of None \<Rightarrow> False | Some b \<Rightarrow> str_eq b a)
                        (published_materials draft_author_db))) 0)))]"
    using rest [THEN conjunct2, THEN conjunct1] a
    by (simp only: simp_thms)
  have 7: "json_member (body (get_categories draft_author_db blank_request)) ''data'' =
        Some (JArr
          (map (\<lambda>c. JObj (category_json draft_author_db c @
                  [(''material_count'',
                      JNum (int (length (remdups (map material_id
                        (filter (\<lambda>m. material_category_id m = Some (category_id c))
                           (published_materials draft_author_db))))))),
                   (''video_count'',
                      JNum (int (length (remdups (map video_id
                        (filter (\<lambda>v. video_category_id v = Some (category_id c))
                           (published_videos draft_author_db)))))))]))
             (sort_key (\<lambda>c. map lower (category_name c)) (categories draft_author_db))))"
    using rest [THEN conjunct2, THEN conjunct2] g
    by (simp only: simp_thms)
  from 1 2 s 3 4 5 b 6 7 g show ?thesis
    by (intro conjI)
qed

subsection \<open>Login\<close>

text \<open>
  C4. POST /login answers 400 when the email or the password is missing (or empty). When the
  lookup by email finds no admin, and when it finds one whose stored hash
  \<open>bcrypt.compare\<close> does not accept for the password, the answer is the same:
  401 with \<open>{error: 'Invalid email or password'}\<close>. When the hash is accepted, the answer
  is 200 with the token \<open>jwt.sign\<close> makes from the claims id and email of that admin, the
  server's secret and the expiry \<open>'24h'\<close>.
\<close>

theorem login_contract:
  "(\<not> truthy (body_email req) \<or> \<not> truthy (body_password req) \<longrightarrow>
      post_login rt req d =
        \<lparr>status_code = 400, body = JObj [(''error'', JStr ''Email and password are required'')]\<rparr>)
   \<and> (truthy (body_email req) \<and> truthy (body_password req)
       \<and> select_admins_by_email d (BStr (the (body_email req))) = Inr [] \<longrightarrow>
      post_login rt req d =
        \<lparr>status_code = 401, body = JObj [(''error'', JStr ''Invalid email or password'')]\<rparr>)
   \<and> (truthy (body_email req) \<and> truthy (body_password req)
       \<and> select_admins_by_email d (BStr (the (body_email req))) = Inr (admin # others)
       \<and> \<not> bcrypt_compare rt (the (body_password req)) (admin_password admin) \<longrightarrow>
      post_login rt req d =
        \<lparr>status_code = 401, body = JObj [(''error'', JStr ''Invalid email or password'')]\<rparr>)
   \<and> (truthy (body_email req) \<and> truthy (body_password req)
       \<and> select_admins_by_email d (BStr (the (body_email req))) = Inr (admin # others)
       \<and> bcrypt_compare rt (the (body_password req)) (admin_password admin)
       \<and> jwt_sign rt (JObj [(''id'', JNum (admin_id admin)), (''email'', JStr (admin_email admin))])
            (JWT_SECRET rt) ''24h'' = Inr token \<longrightarrow>
      post_login rt req d =
        \<lparr>status_code = 200,
         body = JObj [(''success'', JBool True), (''token'', JStr token),
                      (''admin'', JObj [(''id'', JNum (admin_id admin)),
                                        (''email'', JStr (admin_email admin)),
                                        (''name'', JStr (admin_name admin))])]\<rparr>)"
  by (simp add: post_login_def res_status_json_def res_json_def obj_def List.map_filter_simps)

theorem login_contract_witness:
  "post_login example_runtime (blank_request\<lparr>body_email := Some ''admin@breastcancer.com''\<rparr>) example_db =
     \<lparr>status_code = 400, body = JObj [(''error'', JStr ''Email and password are required'')]\<rparr>
   \<and> post_login example_runtime
        (blank_request\<lparr>body_email := Some ''nobody@example.org'', body_password := Some ''admin123''\<rparr>)
        example_db =
     \<lparr>status_code = 401, body = JObj [(''error'', JStr ''Invalid email or password'')]\<rparr>
   \<and> post_login example_runtime
        (blank_request\<lparr>body_email := Some ''admin@breastcancer.com'', body_password := Some ''guess''\<rparr>)
        example_db =
     \<lparr>status_code = 401, body = JObj [(''error'', JStr ''Invalid email or password'')]\<rparr>
   \<and> post_login example_runtime
        (blank_request\<lparr>body_email := Some ''admin@breastcancer.com'', body_password := Some ''admin123''\<rparr>)
        example_db =
     \<lparr>status_code = 200,
      body = JObj [(''success'', JBool True), (''token'', JStr ''signed:1:admin@breastcancer.com''),
                   (''admin'', JObj [(''id'', JNum 1), (''email'', JStr ''admin@breastcancer.com''),
                                     (''name'', JStr ''Administrator'')])]\<rparr>"
proof -
  have unknown: "select_admins_by_email example_db (BStr ''nobody@example.org'') = Inr []"
    by code_simp
  have known: "select_admins_by_email example_db (BStr ''admin@breastcancer.com'') = Inr [example_admin]"
    by code_simp
  have wrong: "\<not> bcrypt_compare example_runtime ''guess'' (admin_password example_admin)"
    by (simp add: example_runtime_def example_admin_def)
  have right: "bcrypt_compare example_runtime ''admin123'' (admin_password example_admin)"
    by (simp add: example_runtime_def example_admin_def)
  have signed: "jwt_sign example_runtime
                  (JObj [(''id'', JNum (admin_id example_admin)), (''email'', JStr (admin_email example_admin))])
                  (JWT_SECRET example_runtime) ''24h'' = Inr ''signed:1:admin@breastcancer.com''"
    by (simp add: example_runtime_def)
  show ?thesis
    using login_contract [where req = "blank_request\<lparr>body_email := Some ''admin@breastcancer.com''\<rparr>"
        and rt = example_runtime and d = example_db]
      login_contract [where req = "blank_request\<lparr>body_email := Some ''nobody@example.org'', body_password := Some ''admin123''\<rparr>"
        and rt = example_runtime and d = example_db]
      login_contract [where req = "blank_request\<lparr>body_email := Some ''admin@breastcancer.com'', body_password := Some ''guess''\<rparr>"
        and rt = example_runtime and d = example_db and admin = example_admin and others = "[]"]
      login_contract [where req = "blank_request\<lparr>body_email := Some ''admin@breastcancer.com'', body_password := Some ''admin123''\<rparr>"
        and rt = example_runtime and d = example_db and admin = example_admin and others = "[]"
        and token = "''signed:1:admin@breastcancer.com''"]
      unknown known wrong right signed
    by (simp add: blank_request_def example_admin_def)
qed

subsection \<open>Deletes\<close>

lemma filter_remove1_key:
  "distinct (map f xs) \<Longrightarrow> x \<in> set xs \<Longrightarrow> filter (\<lambda>y. f y \<noteq> f x) xs = remove1 x xs"
proof (induction xs)
  case Nil
  then show ?case by simp
next
  case (Cons a xs)
  show ?case
  proof (cases "a = x")
    case True
    with Cons.prems have "\<forall>y \<in> set xs. f y \<noteq> f x" by (auto simp: image_iff)
    then have "filter (\<lambda>y. f y \<noteq> f x) xs = xs" by (simp add: filter_id_conv)
    with True show ?thesis by simp
  next
    case False
    with Cons.prems have "x \<in> set xs" and "f a \<noteq> f x" by (auto simp: image_iff)
    with Cons False show ?thesis by auto
  qed
qed

text \<open>
  C9. Each of the three DELETE handlers, for every id and with no look at whether a row has
  it, answers 200 with its success message once the store has executed the statement. The
  table loses the rows with that id and keeps every other row, in order: with ids the
  primary key, exactly the row that had the id. Deleting a category removes no material and
  no video, and leaves the admins alone; deleting a material or a video changes nothing else.
\<close>

theorem delete_contract:
  "(schema_error d [(''categories'', [''id''])] = None \<longrightarrow>
      fst (delete_category req d) =
        \<lparr>status_code = 200, body = JObj [(''message'', JStr ''Category deleted successfully'')]\<rparr>
      \<and> categories (snd (delete_category req d)) =
          filter (\<lambda>c. category_id c \<noteq> params_id req) (categories d)
      \<and> (distinct (map category_id (categories d)) \<and> c \<in> set (categories d)
           \<and> category_id c = params_id req \<longrightarrow>
          categories (snd (delete_category req d)) = remove1 c (categories d))
      \<and> map material_id (materials (snd (delete_category req d))) = map material_id (materials d)
      \<and> map video_id (videos (snd (delete_category req d))) = map video_id (videos d)
      \<and> admins (snd (delete_category req d)) = admins d)
   \<and> (schema_error d [(''materials'', [''id''])] = None \<longrightarrow>
      fst (delete_material req d) =
        \<lparr>status_code = 200, body = JObj [(''message'', JStr ''Material deleted successfully'')]\<rparr>
      \<and> snd (delete_material req d) =
          d\<lparr>materials := filter (\<lambda>m. material_id m \<noteq> params_id req) (materials d)\<rparr>
      \<and> (distinct (map material_id (materials d)) \<and> m \<in> set (materials d)
           \<and> material_id m = params_id req \<longrightarrow>
          snd (delete_material req d) = d\<lparr>materials := remove1 m (materials d)\<rparr>))
   \<and> (schema_error d [(''videos'', [''id''])] = None \<longrightarrow>
      fst (delete_video req d) =
        \<lparr>status_code = 200, body = JObj [(''message'', JStr ''Video deleted successfully'')]\<rparr>
      \<and> snd (delete_video req d) =
          d\<lparr>videos := filter (\<lambda>v. video_id v \<noteq> params_id req) (videos d)\<rparr>
      \<and> (distinct (map video_id (videos d)) \<and> v \<in> set (videos d)
           \<and> video_id v = params_id req \<longrightarrow>
          snd (delete_video req d) = d\<lparr>videos := remove1 v (videos d)\<rparr>))"
proof (intro conjI impI)
  assume s: "schema_error d [(''categories'', [''id''])] = None"
  then show "fst (delete_category req d) =
        \<lparr>status_code = 200, body = JObj [(''message'', JStr ''Category deleted successfully'')]\<rparr>"
    and cs: "categories (snd (delete_category req d)) =
          filter (\<lambda>c. category_id c \<noteq> params_id req) (categories d)"
    and "map material_id (materials (snd (delete_category req d))) = map material_id (materials d)"
    and "map video_id (videos (snd (delete_category req d))) = map video_id (videos d)"
    and "admins (snd (delete_category req d)) = admins d"
    by (simp_all add: delete_category_def delete_from_categories_def Let_def res_json_def obj_def
          List.map_filter_simps comp_def del: schema_error.simps)
  assume "distinct (map category_id (categories d)) \<and> c \<in> set (categories d)
           \<and> category_id c = params_id req"
  with cs show "categories (snd (delete_category req d)) = remove1 c (categories d)"
    using filter_remove1_key [of category_id "categories d" c] by auto
next
  assume s: "schema_error d [(''materials'', [''id''])] = None"
  then show "fst (delete_material req d) =
        \<lparr>status_code = 200, body = JObj [(''message'', JStr ''Material deleted successfully'')]\<rparr>"
    and ms: "snd (delete_material req d) =
          d\<lparr>materials := filter (\<lambda>m. material_id m \<noteq> params_id req) (materials d)\<rparr>"
    by (simp_all add: delete_material_def delete_from_materials_def res_json_def obj_def
          List.map_filter_simps del: schema_error.simps)
  assume "distinct (map material_id (materials d)) \<and> m \<in> set (materials d)
           \<and> material_id m = params_id req"
  with ms show "snd (delete_material req d) = d\<lparr>materials := remove1 m (materials d)\<rparr>"
    using filter_remove1_key [of material_id "materials d" m] by auto
next
  assume s: "schema_error d [(''videos'', [''id''])] = None"
  then show "fst (delete_video req d) =
        \<lparr>status_code = 200, body = JObj [(''message'', JStr ''Video deleted successfully'')]\<rparr>"
    and vs: "snd (delete_video req d) =
          d\<lparr>videos := filter (\<lambda>v. video_id v \<noteq> params_id req) (videos d)\<rparr>"
    by (simp_all add: delete_video_def delete_from_videos_def res_json_def obj_def
          List.map_filter_simps del: schema_error.simps)
  assume "distinct (map video_id (videos d)) \<and> v \<in> set (videos d)
           \<and> video_id v = params_id req"
  with vs show "snd (delete_video req d) = d\<lparr>videos := remove1 v (videos d)\<rparr>"
    using filter_remove1_key [of video_id "videos d" v] by auto
qed

theorem delete_contract_witness:
  "fst (delete_material (blank_request\<lparr>params_id := 99\<rparr>) example_db) =
     \<lparr>status_code = 200, body = JObj [(''message'', JStr ''Material deleted successfully'')]\<rparr>
   \<and> snd (delete_material (blank_request\<lparr>params_id := 99\<rparr>) example_db) = example_db
   \<and> fst (delete_material (blank_request\<lparr>params_id := 2\<rparr>) example_db) =
     \<lparr>status_code = 200, body = JObj [(''message'', JStr ''Material deleted successfully'')]\<rparr>
   \<and> map material_id (materials (snd (delete_material (blank_request\<lparr>params_id := 2\<rparr>) example_db))) = [1, 3]
   \<and> fst (delete_video (blank_request\<lparr>params_id := 2\<rparr>) example_db) =
     \<lparr>status_code = 200, body = JObj [(''message'', JStr ''Video deleted successfully'')]\<rparr>
   \<and> map video_id (videos (snd (delete_video (blank_request\<lparr>params_id := 2\<rparr>) example_db))) = [1]
   \<and> fst (delete_category (blank_request\<lparr>params_id := 1\<rparr>) example_db) =
     \<lparr>status_code = 200, body = JObj [(''message'', JStr ''Category deleted successfully'')]\<rparr>
   \<and> categories (snd (delete_category (blank_request\<lparr>params_id := 1\<rparr>) example_db)) = []
   \<and> map material_id (materials (snd (delete_category (blank_request\<lparr>params_id := 1\<rparr>) example_db))) = [1, 2, 3]
   \<and> map material_category_id (materials (snd (delete_category (blank_request\<lparr>params_id := 1\<rparr>) example_db)))
       = [None, None, None]"
proof -
  have s: "schema_error example_db [(''categories'', [''id''])] = None"
          "schema_error example_db [(''materials'', [''id''])] = None"
          "schema_error example_db [(''videos'', [''id''])] = None"
    by code_simp+
  have e: "snd (delete_material (blank_request\<lparr>params_id := 99\<rparr>) example_db) = example_db"
          "map material_id (materials (snd (delete_material (blank_request\<lparr>params_id := 2\<rparr>) example_db))) = [1, 3]"
          "map video_id (videos (snd (delete_video (blank_request\<lparr>params_id := 2\<rparr>) example_db))) = [1]"
          "categories (snd (delete_category (blank_request\<lparr>params_id := 1\<rparr>) example_db)) = []"
          "map material_category_id (materials (snd (delete_category (blank_request\<lparr>params_id := 1\<rparr>) example_db)))
             = [None, None, None]"
          "map material_id (materials example_db) = [1, 2, 3]"
    by code_simp+
  show ?thesis
    using delete_contract [where d = example_db and req = "blank_request\<lparr>params_id := 99\<rparr>"]
      delete_contract [where d = example_db and req = "blank_request\<lparr>params_id := 2\<rparr>"]
      delete_contract [where d = example_db and req = "blank_request\<lparr>params_id := 1\<rparr>"]
      s e
    by simp
qed

subsection \<open>Search\<close>

text \<open>
  C10, as amended. A search with a query and with a type that is not empty and is neither
  \<open>materials\<close> nor \<open>videos\<close> skips both branches: whatever the database holds, and even
  where every statement would fail, the answer is 200 with no materials and no videos, so
  no statement is executed. (An empty type counts as no type, and a search without a
  query is answered 400: see the counterexample.)
\<close>

theorem search_unknown_type:
  "truthy (query_q req) \<and> truthy (query_type req)
   \<and> query_type req \<noteq> Some ''materials'' \<and> query_type req \<noteq> Some ''videos'' \<longrightarrow>
   search d req =
     \<lparr>status_code = 200,
      body = JObj [(''success'', JBool True),
                   (''data'', JObj [(''materials'', JArr []), (''videos'', JArr [])]),
                   (''query'', JStr (the (query_q req))),
                   (''pagination'', JObj [(''page'', JNum (page_of req)),
                                          (''limit'', JNum (limit_of req))])]\<rparr>"
  by (simp add: search_def Let_def res_json_def obj_def List.map_filter_simps)

theorem search_unknown_type_witness:
  "search empty_db (blank_request\<lparr>query_q := Some ''cancer'', query_type := Some ''articles''\<rparr>) =
     \<lparr>status_code = 200,
      body = JObj [(''success'', JBool True),
                   (''data'', JObj [(''materials'', JArr []), (''videos'', JArr [])]),
                   (''query'', JStr ''cancer''),
                   (''pagination'', JObj [(''page'', JNum 1), (''limit'', JNum 10)])]\<rparr>
   \<and> search example_db (blank_request\<lparr>query_q := Some ''cancer'', query_type := Some ''articles''\<rparr>) =
       search empty_db (blank_request\<lparr>query_q := Some ''cancer'', query_type := Some ''articles''\<rparr>)
   \<and> status_code (search empty_db (blank_request\<lparr>query_q := Some ''cancer''\<rparr>)) = 500"
proof -
  have f: "status_code (search empty_db (blank_request\<lparr>query_q := Some ''cancer''\<rparr>)) = 500"
    by code_simp
  show ?thesis
    using search_unknown_type [of "blank_request\<lparr>query_q := Some ''cancer'', query_type := Some ''articles''\<rparr>" empty_db]
      search_unknown_type [of "blank_request\<lparr>query_q := Some ''cancer'', query_type := Some ''articles''\<rparr>" example_db]
      f
    by (simp add: page_of_def limit_of_def blank_request_def)
qed

text \<open>
  C10 as stated fails for a type that is present and empty: both branches run, the example
  database gives rows, and a database without tables gives 500. A search whose query is
  missing is answered 400 whatever its type.
\<close>

theorem search_empty_type_counterexample:
  "query_type (blank_request\<lparr>query_q := Some ''mammo'', query_type := Some []\<rparr>) = Some []
   \<and> Some [] \<noteq> Some ''materials'' \<and> Some [] \<noteq> Some ''videos''
   \<and> json_member (body (search example_db (blank_request\<lparr>query_q := Some ''mammo'', query_type := Some []\<rparr>))) ''data''
       \<noteq> Some (JObj [(''materials'', JArr []), (''videos'', JArr [])])
   \<and> status_code (search empty_db (blank_request\<lparr>query_q := Some ''mammo'', query_type := Some []\<rparr>)) = 500
   \<and> status_code (search example_db (blank_request\<lparr>query_type := Some ''articles''\<rparr>)) = 400"
  by code_simp

lemma like_percent: "like_match ''%'' s"
  by (induction s) simp_all

lemma like_prefix:
  "wildcard_free q \<Longrightarrow> like_match (q @ ''%'') s = prefix_ci q s"
proof (induction q arbitrary: s)
  case Nil
  then show ?case by (simp add: like_percent del: like_match.simps)
next
  case (Cons a q)
  then have "wildcard_free q" and "a \<noteq> CHR ''%''" and "a \<noteq> CHR ''_''" and "a \<noteq> CHR 0x5C"
    by (simp_all add: wildcard_free_def)
  with Cons.IH show ?case by (cases s) simp_all
qed

lemma like_contains:
  assumes "wildcard_free q"
  shows "like_match (''%'' @ q @ ''%'') s = contains_ci q s"
proof (induction s)
  case Nil
  have "like_match (q @ ''%'') [] = prefix_ci q []" by (rule like_prefix [OF assms])
  moreover have "prefix_ci q [] = (q = [])" by (cases q) simp_all
  ultimately show ?case by simp
next
  case (Cons c s)
  have "like_match (q @ ''%'') (c # s) = prefix_ci q (c # s)" by (rule like_prefix [OF assms])
  with Cons show ?case by simp
qed

lemma select_rows_none:
  assumes "BUndefined \<notin> set ps"
    and "schema_error d [(t, ''category_id'' # concat (map cond_columns conds) @ [''created_at'']),
                         (''categories'', [''id'', ''name''])] = None"
    and "length ps = where_arity conds" and "0 \<le> l" and "0 \<le> off"
    and "filter (\<lambda>r. where_holds (cl r) conds ps) rows = []"
  shows "select_rows d t cl created rows conds OrderLimitOffset (ps @ [BNum l, BNum off]) = Inr []"
  using assms
  by (simp add: select_rows_def where_holds_append del: schema_error.simps)

lemma material_search_where:
  "where_holds (material_col m)
     ([EqLit ''status'' ''published'', LikeAny [''title'', ''content'', ''author'']] @ cc)
     ([BStr pat, BStr pat, BStr pat] @ cp)
   \<Longrightarrow> material_status m = Some published
       \<and> (like_match pat (material_title m) \<or> like_match pat (material_content m)
           \<or> (case material_author m of None \<Rightarrow> False | Some a \<Rightarrow> like_match pat a))"
  by (auto simp: material_col_def status_published_iff opt_str_def split: option.splits)

lemma video_search_where:
  "where_holds (video_col v)
     ([EqLit ''status'' ''published'', LikeAny [''title'', ''description'']] @ cc)
     ([BStr pat, BStr pat] @ cp)
   \<Longrightarrow> video_status v = Some published
       \<and> (like_match pat (video_title v) \<or> like_match pat (video_description v))"
  by (auto simp: video_col_def status_published_iff)

lemma filter_empty_mono: "filter P xs = [] \<Longrightarrow> (\<And>x. Q x \<Longrightarrow> P x) \<Longrightarrow> filter Q xs = []"
  by (auto simp: filter_empty_conv)

text \<open>
  C8, as amended. A search without a query (or with an empty one) is answered 400. A search
  with a query, a page of at least 1 and a limit of at least 0, on a store that has the
  tables and columns of the branches that run, in which no published material and no
  published video satisfies the \<open>LIKE\<close> conditions of the statements for the pattern
  \<open>%q%\<close>, is answered 200 with \<open>{materials: [], videos: []}\<close>, the query, and a pagination
  object that holds the page and the limit and nothing else. For a query without \<open>%\<close>,
  \<open>_\<close> and backslash, satisfying the \<open>LIKE\<close> conditions is containing the query, letter
  case ignored, in the title, content or author of a material, in the title or description
  of a video.
\<close>

theorem search_no_match:
  "(\<not> truthy (query_q req) \<longrightarrow>
      search d req =
        \<lparr>status_code = 400,
         body = JObj [(''success'', JBool False), (''error'', JStr ''Search query is required'')]\<rparr>)
   \<and> (truthy (query_q req) \<and> 0 \<le> limit_of req \<and> 1 \<le> page_of req
       \<and> (\<not> truthy (query_type req) \<or> query_type req = Some ''materials'' \<longrightarrow>
            declares d ''materials''
              [''title'', ''content'', ''author'', ''category_id'', ''status'', ''created_at'']
            \<and> declares d ''categories'' [''id'', ''name'']
            \<and> filter (material_like (''%'' @ the (query_q req) @ ''%'')) (published_materials d) = [])
       \<and> (\<not> truthy (query_type req) \<or> query_type req = Some ''videos'' \<longrightarrow>
            declares d ''videos'' [''title'', ''description'', ''category_id'', ''status'', ''created_at'']
            \<and> declares d ''categories'' [''id'', ''name'']
            \<and> filter (video_like (''%'' @ the (query_q req) @ ''%'')) (published_videos d) = []) \<longrightarrow>
      search d req =
        \<lparr>status_code = 200,
         body = JObj [(''success'', JBool True),
                      (''data'', JObj [(''materials'', JArr []), (''videos'', JArr [])]),
                      (''query'', JStr (the (query_q req))),
                      (''pagination'', JObj [(''page'', JNum (page_of req)),
                                             (''limit'', JNum (limit_of req))])]\<rparr>)
   \<and> (wildcard_free (the (query_q req)) \<longrightarrow>
        material_like (''%'' @ the (query_q req) @ ''%'') m = material_contains (the (query_q req)) m
        \<and> video_like (''%'' @ the (query_q req) @ ''%'') v = video_contains (the (query_q req)) v)"
proof (intro conjI impI)
  assume "\<not> truthy (query_q req)"
  then show "search d req =
        \<lparr>status_code = 400,
         body = JObj [(''success'', JBool False), (''error'', JStr ''Search query is required'')]\<rparr>"
    by (simp add: search_def failure_def res_status_json_def obj_def List.map_filter_simps)
next
  assume w: "wildcard_free (the (query_q req))"
  show "material_like (''%'' @ the (query_q req) @ ''%'') m = material_contains (the (query_q req)) m"
    unfolding material_like_def material_contains_def
    by (simp only: like_contains [OF w] split: option.splits) simp
  show "video_like (''%'' @ the (query_q req) @ ''%'') v = video_contains (the (query_q req)) v"
    unfolding video_like_def video_contains_def by (simp only: like_contains [OF w])
next
  define pat where "pat = ''%'' @ the (query_q req) @ ''%''"
  define cc where "cc = (case query_category req of Some category \<Rightarrow> [EqParam ''category_id''] | None \<Rightarrow> [])"
  define cp where "cp = (case query_category req of Some category \<Rightarrow> [BNum category] | None \<Rightarrow> [])"
  define l where "l = limit_of req"
  define off where "off = (page_of req - 1) * limit_of req"
  define F where "F = (if \<not> truthy (query_type req) \<or> query_type req = Some ''materials'' then
                  select_materials d
                    ([EqLit ''status'' ''published'', LikeAny [''title'', ''content'', ''author'']] @ cc)
                    OrderLimitOffset ([BStr pat, BStr pat, BStr pat] @ cp @ [BNum l, BNum off])
                else Inr [])"
  define G where "G = (if \<not> truthy (query_type req) \<or> query_type req = Some ''videos'' then
                  select_videos d
                    ([EqLit ''status'' ''published'', LikeAny [''title'', ''description'']] @ cc)
                    OrderLimitOffset ([BStr pat, BStr pat] @ cp @ [BNum l, BNum off])
                else Inr [])"
  assume a: "truthy (query_q req) \<and> 0 \<le> limit_of req \<and> 1 \<le> page_of req
       \<and> (\<not> truthy (query_type req) \<or> query_type req = Some ''materials'' \<longrightarrow>
            declares d ''materials''
              [''title'', ''content'', ''author'', ''category_id'', ''status'', ''created_at'']
            \<and> declares d ''categories'' [''id'', ''name'']
            \<and> filter (material_like (''%'' @ the (query_q req) @ ''%'')) (published_materials d) = [])
       \<and> (\<not> truthy (query_type req) \<or> query_type req = Some ''videos'' \<longrightarrow>
            declares d ''videos'' [''title'', ''description'', ''category_id'', ''status'', ''created_at'']
            \<and> declares d ''categories'' [''id'', ''name'']
            \<and> filter (video_like (''%'' @ the (query_q req) @ ''%'')) (published_videos d) = [])"
  then have q: "truthy (query_q req)" and l0: "0 \<le> l" and off0: "0 \<le> off"
    by (simp_all add: l_def off_def)
  have arity: "length ([BStr pat, BStr pat, BStr pat] @ cp)
                 = where_arity ([EqLit ''status'' ''published'', LikeAny [''title'', ''content'', ''author'']] @ cc)"
       "length ([BStr pat, BStr pat] @ cp)
                 = where_arity ([EqLit ''status'' ''published'', LikeAny [''title'', ''description'']] @ cc)"
       "BUndefined \<notin> set ([BStr pat, BStr pat, BStr pat] @ cp)"
       "BUndefined \<notin> set ([BStr pat, BStr pat] @ cp)"
    by (simp_all add: cc_def cp_def split: option.splits)
  have cols: "set (''category_id'' # concat (map cond_columns
                 ([EqLit ''status'' ''published'', LikeAny [''title'', ''content'', ''author'']] @ cc)) @ [''created_at''])
              \<subseteq> set [''title'', ''content'', ''author'', ''category_id'', ''status'', ''created_at'']"
       "set (''category_id'' # concat (map cond_columns
                 ([EqLit ''status'' ''published'', LikeAny [''title'', ''description'']] @ cc)) @ [''created_at''])
              \<subseteq> set [''title'', ''description'', ''category_id'', ''status'', ''created_at'']"
    by (simp_all add: cc_def split: option.splits)
  have F: "F = Inr []"
  proof (cases "\<not> truthy (query_type req) \<or> query_type req = Some ''materials''")
    case False
    then show ?thesis by (simp add: F_def)
  next
    case True
    with a have dm: "declares d ''materials''
              [''title'', ''content'', ''author'', ''category_id'', ''status'', ''created_at'']"
      and dc: "declares d ''categories'' [''id'', ''name'']"
      and none': "filter (material_like pat) (published_materials d) = []"
      unfolding pat_def by blast+
    from none' have none: "filter (\<lambda>m. material_status m = Some published
                          \<and> (like_match pat (material_title m) \<or> like_match pat (material_content m)
                              \<or> (case material_author m of None \<Rightarrow> False | Some a \<Rightarrow> like_match pat a)))
                 (materials d) = []"
      by (simp add: published_materials_def material_like_def)
    have se: "schema_error d
               [(''materials'', ''category_id'' # concat (map cond_columns
                   ([EqLit ''status'' ''published'', LikeAny [''title'', ''content'', ''author'']] @ cc)) @ [''created_at'']),
                (''categories'', [''id'', ''name''])] = None"
      using schema_error_declared [OF dm cols(1)] dc unfolding declares_def by simp
    have "select_rows d ''materials'' material_col material_created_at (materials d)
            ([EqLit ''status'' ''published'', LikeAny [''title'', ''content'', ''author'']] @ cc)
            OrderLimitOffset (([BStr pat, BStr pat, BStr pat] @ cp) @ [BNum l, BNum off]) = Inr []"
      by (rule select_rows_none [OF arity(3) se arity(1) l0 off0])
         (rule filter_empty_mono [OF none], erule material_search_where)
    with True show ?thesis by (simp add: F_def select_materials_def)
  qed
  have G: "G = Inr []"
  proof (cases "\<not> truthy (query_type req) \<or> query_type req = Some ''videos''")
    case False
    then show ?thesis by (simp add: G_def)
  next
    case True
    with a have dv: "declares d ''videos'' [''title'', ''description'', ''category_id'', ''status'', ''created_at'']"
      and dc: "declares d ''categories'' [''id'', ''name'']"
      and none': "filter (video_like pat) (published_videos d) = []"
      unfolding pat_def by blast+
    from none' have none: "filter (\<lambda>v. video_status v = Some published
                          \<and> (like_match pat (video_title v) \<or> like_match pat (video_description v)))
                 (videos d) = []"
      by (simp add: published_videos_def video_like_def)
    have se: "schema_error d
               [(''videos'', ''category_id'' # concat (map cond_columns
                   ([EqLit ''status'' ''published'', LikeAny [''title'', ''description'']] @ cc)) @ [''created_at'']),
                (''categories'', [''id'', ''name''])] = None"
      using schema_error_declared [OF dv cols(2)] dc unfolding declares_def by simp
    have "select_rows d ''videos'' video_col video_created_at (videos d)
            ([EqLit ''status'' ''published'', LikeAny [''title'', ''description'']] @ cc)
            OrderLimitOffset (([BStr pat, BStr pat] @ cp) @ [BNum l, BNum off]) = Inr []"
      by (rule select_rows_none [OF arity(4) se arity(2) l0 off0])
         (rule filter_empty_mono [OF none], erule video_search_where)
    with True show ?thesis by (simp add: G_def select_videos_def)
  qed
  have s: "search d req =
      (case F of
         Inl e \<Rightarrow> failure 500 ''Search failed''
       | Inr ms \<Rightarrow>
           (case G of
              Inl e \<Rightarrow> failure 500 ''Search failed''
            | Inr vs \<Rightarrow>
                res_json (obj
                  [(''success'', Some (JBool True)),
                   (''data'', Some (obj
                      [(''materials'',
                          Some (JArr (map (material_json d [(''content_type'', JStr ''material'')]) ms))),
                       (''videos'',
                          Some (JArr (map (video_json d [(''content_type'', JStr ''video'')]) vs)))])),
                   (''query'', Some (JStr (the (query_q req)))),
                   (''pagination'', Some (obj [(''page'', Some (JNum (page_of req))),
                                               (''limit'', Some (JNum (limit_of req)))]))])))"
    using q unfolding search_def Let_def F_def G_def cc_def cp_def pat_def l_def off_def
    by (simp only: not_True_eq_False if_False simp_thms)
  show "search d req =
        \<lparr>status_code = 200,
         body = JObj [(''success'', JBool True),
                      (''data'', JObj [(''materials'', JArr []), (''videos'', JArr [])]),
                      (''query'', JStr (the (query_q req))),
                      (''pagination'', JObj [(''page'', JNum (page_of req)),
                                             (''limit'', JNum (limit_of req))])]\<rparr>"
    by (simp add: s F G res_json_def obj_def List.map_filter_simps)
qed

theorem search_no_match_witness:
  "search example_db (blank_request\<lparr>query_q := Some ''cancer'', query_type := Some ''videos''\<rparr>) =
     \<lparr>status_code = 200,
      body = JObj [(''success'', JBool True),
                   (''data'', JObj [(''materials'', JArr []), (''videos'', JArr [])]),
                   (''query'', JStr ''cancer''),
                   (''pagination'', JObj [(''page'', JNum 1), (''limit'', JNum 10)])]\<rparr>
   \<and> search example_db (blank_request\<lparr>query_q := Some ''biopsy'', query_page := Some 3, query_limit := Some 5\<rparr>) =
     \<lparr>status_code = 200,
      body = JObj [(''success'', JBool True),
                   (''data'', JObj [(''materials'', JArr []), (''videos'', JArr [])]),
                   (''query'', JStr ''biopsy''),
                   (''pagination'', JObj [(''page'', JNum 3), (''limit'', JNum 5)])]\<rparr>
   \<and> search example_db blank_request =
     \<lparr>status_code = 400,
      body = JObj [(''success'', JBool False), (''error'', JStr ''Search query is required'')]\<rparr>
   \<and> material_like ''%mammo%'' (hd (materials example_db)) = material_contains ''mammo'' (hd (materials example_db))"
proof -
  have d: "declares example_db ''materials''
              [''title'', ''content'', ''author'', ''category_id'', ''status'', ''created_at'']"
          "declares example_db ''videos'' [''title'', ''description'', ''category_id'', ''status'', ''created_at'']"
          "declares example_db ''categories'' [''id'', ''name'']"
    by code_simp+
  have n: "filter (video_like ''%cancer%'') (published_videos example_db) = []"
          "filter (material_like ''%biopsy%'') (published_materials example_db) = []"
          "filter (video_like ''%biopsy%'') (published_videos example_db) = []"
    by code_simp+
  have w: "wildcard_free ''mammo''"
    by code_simp
  show ?thesis
    using search_no_match [where d = example_db
        and req = "blank_request\<lparr>query_q := Some ''cancer'', query_type := Some ''videos''\<rparr>"]
      search_no_match [where d = example_db
        and req = "blank_request\<lparr>query_q := Some ''biopsy'', query_page := Some 3, query_limit := Some 5\<rparr>"]
      search_no_match [where d = example_db and req = blank_request]
      search_no_match [where req = "blank_request\<lparr>query_q := Some ''mammo''\<rparr>"
        and m = "hd (materials example_db)"]
      d n w
    by (simp add: page_of_def limit_of_def blank_request_def)
qed

text \<open>
  C8 as stated fails twice on the example database. The query \<open>_\<close> is contained in no
  title, content, author or description, yet \<open>LIKE '%_%'\<close> holds for every text that is not
  empty, and the search returns rows. And the query \<open>biopsy\<close>, which nothing contains,
  is answered 500 for page 0, whose offset is negative.
\<close>

theorem search_no_match_counterexample:
  "filter (material_contains ''_'') (published_materials example_db) = []
   \<and> filter (video_contains ''_'') (published_videos example_db) = []
   \<and> status_code (search example_db (blank_request\<lparr>query_q := Some ''_''\<rparr>)) = 200
   \<and> json_member (body (search example_db (blank_request\<lparr>query_q := Some ''_''\<rparr>))) ''data''
       \<noteq> Some (JObj [(''materials'', JArr []), (''videos'', JArr [])])
   \<and> filter (material_contains ''biopsy'') (published_materials example_db) = []
   \<and> filter (video_contains ''biopsy'') (published_videos example_db) = []
   \<and> search example_db (blank_request\<lparr>query_q := Some ''biopsy'', query_page := Some 0\<rparr>) =
       \<lparr>status_code = 500, body = JObj [(''success'', JBool False), (''error'', JStr ''Search failed'')]\<rparr>"
  by code_simp

subsection \<open>Material update\<close>

lemma map_rows_total: "(\<And>r. f r = Inr (g r)) \<Longrightarrow> map_rows f rs = Inr (map g rs)"
  by (induction rs) simp_all

lemma map_rows_if:
  "map_rows (\<lambda>r. if P r then Inr (a r) else Inr (b r)) rs = Inr (map (\<lambda>r. if P r then a r else b r) rs)"
  by (rule map_rows_total) simp

lemma assign_all_append:
  "assign_all d (xs @ ys) m =
     (case assign_all d xs m of Inl e \<Rightarrow> Inl e | Inr m' \<Rightarrow> assign_all d ys m')"
  by (induction xs arbitrary: m) (auto split: sum.splits)

lemma published_not_draft: "str_eq s ''published'' \<Longrightarrow> \<not> str_eq s ''draft''"
proof -
  have "\<not> str_eq ''published'' ''draft''" by (simp add: str_eq_def lower_def)
  then show "str_eq s ''published'' \<Longrightarrow> \<not> str_eq s ''draft''" by (auto simp: str_eq_def)
qed

lemma assign_five:
  assumes st: "\<not> truthy s \<or> str_eq (the s) ''published'' \<or> str_eq (the s) ''draft''"
    and cat: "k = None \<or> \<not> declared_fk d ''materials'' ''category_id'' ''categories''
              \<or> list_ex (\<lambda>r. category_id r = the k) (categories d)"
  shows "assign_all d
           [(''title'', BStr t), (''content'', BStr c), (''author'', str_or_null a),
            (''category_id'', num_or_null k),
            (''status'', BStr (if truthy s then the s else ''published''))] m =
         Inr (m\<lparr>material_title := t, material_content := c,
                 material_author := (if truthy a then a else None),
                 material_category_id := k,
                 material_status := Some (if truthy s \<and> str_eq (the s) ''draft'' then draft else published)\<rparr>)"
proof -
  have a: "set_material_col d ''author'' (str_or_null a) x
             = Inr (x\<lparr>material_author := (if truthy a then a else None)\<rparr>)" for x
    by (cases a) (simp_all add: set_material_col_def str_or_null_def)
  have k: "set_material_col d ''category_id'' (num_or_null k) x
             = Inr (x\<lparr>material_category_id := k\<rparr>)" for x
    using cat by (cases k) (auto simp: set_material_col_def num_or_null_def)
  have pp: "str_eq ''published'' ''published''" by (simp add: str_eq_def)
  have s: "set_material_col d ''status'' (BStr (if truthy s then the s else ''published'')) x
             = Inr (x\<lparr>material_status :=
                        Some (if truthy s \<and> str_eq (the s) ''draft'' then draft else published)\<rparr>)" for x
    using st pp published_not_draft by (auto simp: set_material_col_def)
  have t: "set_material_col d ''title'' (BStr t) x = Inr (x\<lparr>material_title := t\<rparr>)" for x
    by (simp add: set_material_col_def)
  have c: "set_material_col d ''content'' (BStr c) x = Inr (x\<lparr>material_content := c\<rparr>)" for x
    by (simp add: set_material_col_def)
  show ?thesis
    by (simp only: assign_all.simps t c a k s sum.case)
qed

lemma assign_image:
  "assign_all d [(''image'', BStr p)] m = Inr (m\<lparr>material_image := Some p\<rparr>)"
  by (simp add: set_material_col_def)

text \<open>
  C5, as amended. An update that gives a title and a content, whose status (if given) is
  one of the two of the enumeration and whose category (if given) exists, on a store that
  has the columns, answers 200 and changes the rows with the id and nothing else. In such
  a row the image path is replaced when a file was uploaded and is left as it was when
  none was; title and content are overwritten from the body; author and category are
  overwritten, with \<open>NULL\<close> when the body omits them (or gives an empty author); the status
  is overwritten with the body's status and with \<open>published\<close>, not \<open>NULL\<close>, when the body
  omits it. A row that changes gets the time of the update as \<open>updated_at\<close>.
\<close>

theorem material_update:
  assumes tc: "body_title req = Some t" "body_content req = Some c"
    and decl: "declares d ''materials''
                 [''title'', ''content'', ''author'', ''category_id'', ''status'', ''image'', ''id'']"
    and st: "\<not> truthy (body_status req) \<or> str_eq (the (body_status req)) ''published''
             \<or> str_eq (the (body_status req)) ''draft''"
    and cat: "body_category_id req = None
              \<or> \<not> declared_fk d ''materials'' ''category_id'' ''categories''
              \<or> list_ex (\<lambda>k. category_id k = the (body_category_id req)) (categories d)"
  shows "status_code (fst (put_material rt req d)) = 200
     \<and> snd (put_material rt req d) =
       d\<lparr>materials :=
           map (\<lambda>m. if material_id m = params_id req then
                      (let m' = m\<lparr>material_title := t,
                                  material_content := c,
                                  material_author := (if truthy (body_author req) then body_author req else None),
                                  material_category_id := body_category_id req,
                                  material_status :=
                                    Some (if truthy (body_status req) \<and> str_eq (the (body_status req)) ''draft''
                                          then draft else published),
                                  material_image :=
                                    (case file_filename req of
                                       None \<Rightarrow> material_image m
                                     | Some f \<Rightarrow> Some (''/uploads/images/'' @ f))\<rparr>
                       in if m' = m then m else m'\<lparr>material_updated_at := now rt\<rparr>)
                    else m)
               (materials d)\<rparr>"
proof -
  define ps5 where "ps5 = [BStr t, BStr c, str_or_null (body_author req), num_or_null (body_category_id req),
                           BStr (if truthy (body_status req) then the (body_status req) else ''published'')]"
  define cols5 where "cols5 = [''title'', ''content'', ''author'', ''category_id'', ''status'']"
  define upd5 where "upd5 = (\<lambda>m :: material_row. m\<lparr>material_title := t, material_content := c,
                 material_author := (if truthy (body_author req) then body_author req else None),
                 material_category_id := body_category_id req,
                 material_status := Some (if truthy (body_status req) \<and> str_eq (the (body_status req)) ''draft''
                                          then draft else published)\<rparr>)"
  have len: "length ps5 = length cols5"
    by (simp add: ps5_def cols5_def)
  have nu: "BUndefined \<notin> set ps5"
    by (simp add: ps5_def str_or_null_def num_or_null_def split: option.splits)
  have five: "assign_all d (zip cols5 ps5) m = Inr (upd5 m)" for m
    unfolding cols5_def ps5_def upd5_def using assign_five [OF st cat] by simp
  show ?thesis
  proof (cases "file_filename req")
    case None
    have se: "schema_error d [(''materials'', cols5 @ [''id''])] = None"
      using schema_error_declared [OF decl, of "cols5 @ [''id'']" "[]"] by (simp add: cols5_def)
    have z: "zip cols5 (ps5 @ [BNum (params_id req)]) = zip cols5 ps5"
      by (simp add: cols5_def ps5_def)
    have u: "update_materials (now rt) d cols5 (ps5 @ [BNum (params_id req)]) =
             Inr (d\<lparr>materials := map (\<lambda>m. if material_id m = params_id req
                        then (if upd5 m = m then m else (upd5 m)\<lparr>material_updated_at := now rt\<rparr>)
                        else m) (materials d)\<rparr>)"
      using nu se
      by (simp add: update_materials_def z five map_rows_if len del: schema_error.simps cong: if_cong)
    have p: "put_material rt req d =
        (case update_materials (now rt) d cols5 (ps5 @ [BNum (params_id req)]) of
           Inl e \<Rightarrow> (res_status_json 500 (obj [(''error'', Some (JStr ''Failed to update material''))]), d)
         | Inr d' \<Rightarrow>
             (res_json (obj [(''id'', Some (JNum (params_id req))),
                             (''title'', map_option JStr (body_title req)),
                             (''content'', map_option JStr (body_content req)),
                             (''author'', map_option JStr (body_author req)),
                             (''category_id'', map_option JNum (body_category_id req)),
                             (''image'', None),
                             (''status'', map_option JStr (body_status req))]), d'))"
      using None tc by (simp add: put_material_def Let_def cols5_def ps5_def bind_str_def split del: if_split cong: sum.case_cong)
    show ?thesis
      using None by (simp add: p u res_json_def upd5_def Let_def)
  next
    case (Some f)
    define img where "img = ''/uploads/images/'' @ f"
    have se: "schema_error d [(''materials'', (cols5 @ [''image'']) @ [''id''])] = None"
      using schema_error_declared [OF decl, of "(cols5 @ [''image'']) @ [''id'']" "[]"] by (simp add: cols5_def)
    have z: "zip (cols5 @ [''image'']) ((ps5 @ [BStr img]) @ [BNum (params_id req)])
             = zip cols5 ps5 @ [(''image'', BStr img)]"
      by (simp add: cols5_def ps5_def)
    have six: "assign_all d (zip cols5 ps5 @ [(''image'', BStr img)]) m
               = Inr ((upd5 m)\<lparr>material_image := Some img\<rparr>)" for m
      by (simp only: assign_all_append five sum.case assign_image)
    have u: "update_materials (now rt) d (cols5 @ [''image''])
               ((ps5 @ [BStr img]) @ [BNum (params_id req)]) =
             Inr (d\<lparr>materials := map (\<lambda>m. if material_id m = params_id req
                        then (if (upd5 m)\<lparr>material_image := Some img\<rparr> = m then m
                              else (upd5 m)\<lparr>material_image := Some img,
                                            material_updated_at := now rt\<rparr>)
                        else m) (materials d)\<rparr>)"
      using nu se
      by (simp add: update_materials_def z six map_rows_if len del: schema_error.simps cong: if_cong)
    have p: "put_material rt req d =
        (case update_materials (now rt) d (cols5 @ [''image''])
                ((ps5 @ [BStr img]) @ [BNum (params_id req)]) of
           Inl e \<Rightarrow> (res_status_json 500 (obj [(''error'', Some (JStr ''Failed to update material''))]), d)
         | Inr d' \<Rightarrow>
             (res_json (obj [(''id'', Some (JNum (params_id req))),
                             (''title'', map_option JStr (body_title req)),
                             (''content'', map_option JStr (body_content req)),
                             (''author'', map_option JStr (body_author req)),
                             (''category_id'', map_option JNum (body_category_id req)),
                             (''image'', Some (JStr img)),
                             (''status'', map_option JStr (body_status req))]), d'))"
      using Some tc by (simp add: put_material_def Let_def cols5_def ps5_def bind_str_def img_def split del: if_split cong: sum.case_cong)
    show ?thesis
      using Some unfolding p [unfolded u sum.case] by (simp add: res_json_def upd5_def Let_def img_def)
  qed
qed

theorem material_update_witness:
  "status_code (fst (put_material example_runtime update_request example_db)) = 200
   \<and> map material_image (materials (snd (put_material example_runtime update_request example_db)))
       = [Some ''/uploads/images/image-1.png'', None, None]
   \<and> map material_title (materials (snd (put_material example_runtime update_request example_db)))
       = [''Self examination, revised'', ''Draft notes'', ''Mammography'']
   \<and> map material_image (materials (snd (put_material example_runtime
         (update_request\<lparr>file_filename := Some ''image-9.png''\<rparr>) example_db)))
       = [Some ''/uploads/images/image-9.png'', None, None]
   \<and> map material_author (materials (snd (put_material example_runtime update_request example_db)))
       = [None, Some ''Dr. Sari'', Some ''dr. sari'']
   \<and> map material_updated_at (materials (snd (put_material example_runtime update_request example_db)))
       = [400, 210, 220]"
proof -
  have h: "body_title update_request = Some ''Self examination, revised''"
          "body_content update_request = Some ''Monthly, after the period''"
          "declares example_db ''materials''
                 [''title'', ''content'', ''author'', ''category_id'', ''status'', ''image'', ''id'']"
          "\<not> truthy (body_status update_request)"
          "body_category_id update_request = None"
    by code_simp+
  have h': "body_title (update_request\<lparr>file_filename := Some ''image-9.png''\<rparr>) = Some ''Self examination, revised''"
          "body_content (update_request\<lparr>file_filename := Some ''image-9.png''\<rparr>) = Some ''Monthly, after the period''"
          "\<not> truthy (body_status (update_request\<lparr>file_filename := Some ''image-9.png''\<rparr>))"
          "body_category_id (update_request\<lparr>file_filename := Some ''image-9.png''\<rparr>) = None"
    by code_simp+
  have e: "map material_image (materials (snd (put_material example_runtime update_request example_db)))
             = [Some ''/uploads/images/image-1.png'', None, None]"
          "map material_title (materials (snd (put_material example_runtime update_request example_db)))
             = [''Self examination, revised'', ''Draft notes'', ''Mammography'']"
          "map material_image (materials (snd (put_material example_runtime
               (update_request\<lparr>file_filename := Some ''image-9.png''\<rparr>) example_db)))
             = [Some ''/uploads/images/image-9.png'', None, None]"
          "map material_author (materials (snd (put_material example_runtime update_request example_db)))
             = [None, Some ''Dr. Sari'', Some ''dr. sari'']"
          "map material_updated_at (materials (snd (put_material example_runtime update_request example_db)))
             = [400, 210, 220]"
    by code_simp+
  from material_update [where rt = example_runtime and req = update_request and d = example_db,
         OF h(1) h(2) h(3)] h(4) h(5)
  have "status_code (fst (put_material example_runtime update_request example_db)) = 200"
    by simp
  moreover
  from material_update [where rt = example_runtime
         and req = "update_request\<lparr>file_filename := Some ''image-9.png''\<rparr>" and d = example_db,
         OF h'(1) h'(2) h(3)] h'(3) h'(4)
  have "status_code (fst (put_material example_runtime
          (update_request\<lparr>file_filename := Some ''image-9.png''\<rparr>) example_db)) = 200"
    by simp
  ultimately show ?thesis using e by simp
qed

text \<open>
  C5 as stated fails on the example database. An update of the draft material 2 that omits
  the status is answered 200 and leaves the row with the status \<open>published\<close>, not with
  \<open>NULL\<close>. An update that omits title and content is answered 500 and writes nothing.
\<close>

theorem material_update_counterexample:
  "body_status (update_request\<lparr>params_id := 2\<rparr>) = None
   \<and> map material_status (materials example_db) = [Some published, Some draft, Some published]
   \<and> status_code (fst (put_material example_runtime (update_request\<lparr>params_id := 2\<rparr>) example_db)) = 200
   \<and> map material_status
        (materials (snd (put_material example_runtime (update_request\<lparr>params_id := 2\<rparr>) example_db)))
       = [Some published, Some published, Some published]
   \<and> put_material example_runtime
        (blank_request\<lparr>params_id := 2, body_status := Some ''draft''\<rparr>) example_db =
       (\<lparr>status_code = 500, body = JObj [(''error'', JStr ''Failed to update material'')]\<rparr>, example_db)"
  by code_simp

subsection \<open>The schema and the admin count\<close>

text \<open>
  C6 fails on the code: the \<open>materials\<close> table that \<open>initDatabase\<close> creates on a fresh
  database has no \<open>author\<close> column, so there the routes that name the column are answered
  500, while the listing without the author filter is answered 200.
\<close>

theorem materials_table_lacks_author:
  "column_names (initDatabase empty_db) ''materials'' =
     Some [''id'', ''title'', ''content'', ''category_id'', ''image'', ''status'',
           ''created_at'', ''updated_at'']
   \<and> get_authors (initDatabase empty_db) blank_request =
       \<lparr>status_code = 500,
        body = JObj [(''success'', JBool False), (''error'', JStr ''Failed to fetch authors'')]\<rparr>
   \<and> get_materials (initDatabase empty_db) (blank_request\<lparr>query_author := Some ''sari''\<rparr>) =
       \<lparr>status_code = 500,
        body = JObj [(''success'', JBool False), (''error'', JStr ''Failed to fetch materials'')]\<rparr>
   \<and> status_code (get_materials_by_author (initDatabase empty_db) blank_request) = 500
   \<and> status_code (get_materials (initDatabase empty_db) blank_request) = 200"
  by code_simp

text \<open>
  C7 fails on the code in one part: with two admins in the table, POST /init changes
  nothing but reports the count 1, the length of its \<open>LIMIT 1\<close> probe, where GET /check
  reports 2.
\<close>

theorem init_reports_one:
  "length (admins two_admins_db) = 2
   \<and> post_init example_runtime blank_request two_admins_db =
       (\<lparr>status_code = 200,
         body = JObj [(''message'', JStr ''Admin already exists''),
                      (''adminExists'', JBool True),
                      (''count'', JNum 1)]\<rparr>, two_admins_db)
   \<and> get_check blank_request two_admins_db =
       \<lparr>status_code = 200, body = JObj [(''hasAdmin'', JBool True), (''count'', JNum 2)]\<rparr>"
  by code_simp

text \<open>
  The rest of C7 holds. With an admin in the table POST /init leaves the database as it is;
  with none, and the insert executed, it adds exactly one admin with the configured (or
  default) email, the name Administrator and as password \<open>bcrypt.hash\<close> of the configured (or
  default) password at cost 12, and returns that password in the answer.
\<close>

lemma post_init_existing:
  "select_admin_ids_limit_1 d = Inr (i # ids) \<Longrightarrow> snd (post_init rt req d) = d"
  by (simp add: post_init_def)

lemma post_init_creates:
  assumes "admins d = []"
    and "declares d ''admins'' [''id'', ''email'', ''password'', ''name'']"
  shows "post_init rt req d =
      (\<lparr>status_code = 200,
        body = JObj [(''message'', JStr ''Default admin created successfully''),
                     (''adminId'', JNum (admins_auto_increment d)),
                     (''email'', JStr (env_or (ADMIN_EMAIL rt) ''admin@breastcancer.com'')),
                     (''tempPassword'', JStr (env_or (ADMIN_PASSWORD rt) ''admin123''))]\<rparr>,
       d\<lparr>admins := [\<lparr>admin_id = admins_auto_increment d,
                      admin_email = env_or (ADMIN_EMAIL rt) ''admin@breastcancer.com'',
                      admin_password = bcrypt_hash rt (env_or (ADMIN_PASSWORD rt) ''admin123'') 12,
                      admin_name = ''Administrator'',
                      admin_created_at = now rt, admin_updated_at = now rt\<rparr>],
          admins_auto_increment := admins_auto_increment d + 1\<rparr>)"
proof -
  have s: "schema_error d [(''admins'', [''id''])] = None"
          "schema_error d [(''admins'', [''email'', ''password'', ''name''])] = None"
    using schema_error_declared [OF assms(2), of "[''id'']" "[]"]
      schema_error_declared [OF assms(2), of "[''email'', ''password'', ''name'']" "[]"]
    by simp_all
  show ?thesis
    using assms(1) s
    by (simp add: post_init_def select_admin_ids_limit_1_def insert_admin_def Let_def
          res_json_def obj_def List.map_filter_simps del: schema_error.simps)
qed

end
